(* ===== verification/Prelude.thy ===== *)
theory Prelude
  imports Complex_Main
begin

text \<open>
  Shared vocabulary of the pdf-editor development: the named collections that
  the component theories feed, the types that name the model's coordinates, and
  generic lemmas on reals, lists and options that several components use.
  JavaScript numbers are IEEE doubles; the model reads every finite double as
  the real it denotes (rounding of floating-point arithmetic is not modelled,
  the spec states its properties "within floating-point tolerance"), and the
  non-finite values are written out in \<open>Js_Runtime\<close>.
\<close>

named_theorems handler_simps
  "characteristic equations of the React event handlers of the model"
named_theorems geometry_simps
  "equations of the coordinate transforms"

type_synonym pt = real \<comment> \<open>a length or coordinate in PDF points\<close>
type_synonym point = "real \<times> real"

text \<open>Removing the element at index \<open>i\<close>, as \<open>xs.filter((_, j) => j !== i)\<close> does.\<close>

definition remove_nth :: "nat \<Rightarrow> 'a list \<Rightarrow> 'a list" where
  "remove_nth i xs = map snd (filter (\<lambda>(j, _). j \<noteq> i) (enumerate 0 xs))"

subsection \<open>Generic lemmas\<close>

text \<open>The error of \<open>round\<close> (JavaScript's \<open>Math.round\<close>) is at most one half.\<close>

lemma round_error_half: "\<bar>of_int (round x) - (x::real)\<bar> \<le> 1/2"
  using of_int_round_abs_le [of x] by simp

lemma round_nonneg: "0 \<le> (x::real) \<Longrightarrow> 0 \<le> round x"
  by (simp add: round_def)

lemma scaled_error_bound:
  assumes "0 < (k::real)" and "\<bar>a - b\<bar> \<le> e"
  shows "\<bar>k * a - k * b\<bar> \<le> k * e"
proof -
  have "\<bar>k * a - k * b\<bar> = k * \<bar>a - b\<bar>"
    using assms(1) by (simp add: right_diff_distrib [symmetric] abs_mult)
  also have "\<dots> \<le> k * e"
    using assms by simp
  finally show ?thesis .
qed

lemma remove_nth_enumerate:
  "map snd (filter (\<lambda>(j, _). j \<noteq> i) (enumerate n xs)) =
   (if i < n then xs else take (i - n) xs @ drop (Suc i - n) xs)"
proof (induction xs arbitrary: n)
  case Nil
  then show ?case by simp
next
  case (Cons x xs)
  show ?case
    using Cons.IH [of "Suc n"]
    by (auto simp: Suc_diff_le take_Cons' drop_Cons' split: if_splits)
qed

lemma remove_nth_conv: "remove_nth i xs = take i xs @ drop (Suc i) xs"
  by (simp add: remove_nth_def remove_nth_enumerate)

lemma length_remove_nth:
  "i < length xs \<Longrightarrow> length (remove_nth i xs) = length xs - 1"
  by (simp add: remove_nth_conv)

lemma set_remove_nth: "set (remove_nth i xs) \<subseteq> set xs"
  by (auto simp: remove_nth_conv dest: in_set_takeD in_set_dropD)

end
