(* ===== verification/Js_Runtime.thy ===== *)
theory Js_Runtime
  imports Prelude
begin

text \<open>
  The parts of the JavaScript language and of the HTML platform that the
  components call: doubles with their non-finite values (only where a division
  by a not yet known image size can produce them), \<open>Math.round\<close>,
  \<open>parseInt\<close> in radix 10 and 16, \<open>Number.prototype.toString(16)\<close> with
  \<open>padStart\<close>, the \<open>x || d\<close> default on numbers, and the value sanitisation
  of an \<open><input type="range">\<close>. None of this is code of the repository; it is
  the runtime the repository's code is written against.
\<close>

subsection \<open>Numbers\<close>

text \<open>\<open>Inf True\<close> is \<open>Infinity\<close>, \<open>Inf False\<close> is \<open>-Infinity\<close>.\<close>

datatype jsnum = Num real | NaN | Inf bool

fun is_finite :: "jsnum \<Rightarrow> bool" where
  "is_finite (Num _) = True"
| "is_finite _ = False"

text \<open>
  Division by a finite divisor; the divisors of this program are image sizes,
  never \<open>-0\<close>, so \<open>x / 0\<close> is \<open>x / +0\<close>.
\<close>

fun js_div :: "jsnum \<Rightarrow> real \<Rightarrow> jsnum" where
  "js_div (Num a) b = (if b = 0 then (if a = 0 then NaN else Inf (0 < a)) else Num (a / b))"
| "js_div (Inf p) b = Inf (if b < 0 then \<not> p else p)"
| "js_div NaN b = NaN"

fun js_mul :: "jsnum \<Rightarrow> jsnum \<Rightarrow> jsnum" where
  "js_mul (Num a) (Num b) = Num (a * b)"
| "js_mul (Inf p) (Num b) = (if b = 0 then NaN else Inf (p = (0 < b)))"
| "js_mul (Num a) (Inf p) = (if a = 0 then NaN else Inf (p = (0 < a)))"
| "js_mul (Inf p) (Inf q) = Inf (p = q)"
| "js_mul _ _ = NaN"

text \<open>\<open>Math.round\<close>: \<open>floor (x + 0.5)\<close>, which is HOL's \<open>round\<close>; non-finite values are kept.\<close>

fun js_round :: "jsnum \<Rightarrow> jsnum" where
  "js_round (Num x) = Num (of_int (round x))"
| "js_round v = v"

text \<open>\<open>a - v\<close> for a finite \<open>a\<close>, and \<open>Math.max(0, v)\<close>.\<close>

fun js_sub :: "real \<Rightarrow> jsnum \<Rightarrow> jsnum" where
  "js_sub a (Num b) = Num (a - b)"
| "js_sub a (Inf p) = Inf (\<not> p)"
| "js_sub a NaN = NaN"

fun js_max0 :: "jsnum \<Rightarrow> jsnum" where
  "js_max0 (Num b) = Num (max 0 b)"
| "js_max0 (Inf p) = (if p then Inf True else Num 0)"
| "js_max0 NaN = NaN"

subsection \<open>\<open>parseInt\<close> and the \<open>||\<close> default\<close>

definition is_js_space :: "char \<Rightarrow> bool" where
  "is_js_space c \<longleftrightarrow> c \<in> set [CHR '' '', CHR 0x09, CHR 0x0A, CHR 0x0B, CHR 0x0C, CHR 0x0D]"

text \<open>The value of a digit character in a radix up to 36, if it is one.\<close>

definition digit_val :: "nat \<Rightarrow> char \<Rightarrow> nat option" where
  "digit_val r c =
     (let n = of_char c :: nat;
          d = (if 48 \<le> n \<and> n \<le> 57 then Some (n - 48)
               else if 97 \<le> n \<and> n \<le> 122 then Some (n - 87)
               else if 65 \<le> n \<and> n \<le> 90 then Some (n - 55)
               else None)
      in case d of Some v \<Rightarrow> if v < r then Some v else None | None \<Rightarrow> None)"

fun take_digits :: "nat \<Rightarrow> string \<Rightarrow> nat list" where
  "take_digits r [] = []"
| "take_digits r (c # cs) =
     (case digit_val r c of None \<Rightarrow> [] | Some d \<Rightarrow> d # take_digits r cs)"

definition digits_value :: "nat \<Rightarrow> nat list \<Rightarrow> nat" where
  "digits_value r ds = foldl (\<lambda>acc d. acc * r + d) 0 ds"

text \<open>
  \<open>parseInt(s, r)\<close>: leading white space is skipped, one sign is read, in radix 16
  a \<open>0x\<close> prefix is dropped, then the longest prefix of digits is read; no
  digit gives \<open>NaN\<close>, here \<open>None\<close>.
\<close>

definition parse_int :: "nat \<Rightarrow> string \<Rightarrow> int option" where
  "parse_int r s =
     (let s1 = dropWhile is_js_space s;
          neg = (s1 \<noteq> [] \<and> hd s1 = CHR ''-'');
          s2 = (if s1 \<noteq> [] \<and> (hd s1 = CHR ''-'' \<or> hd s1 = CHR ''+'') then tl s1 else s1);
          s3 = (if r = 16 \<and> (take 2 s2 = ''0x'' \<or> take 2 s2 = ''0X'') then drop 2 s2 else s2);
          ds = take_digits r s3
      in if ds = [] then None
         else Some ((if neg then -1 else 1) * int (digits_value r ds)))"

text \<open>\<open>parseInt(v) || d\<close>: \<open>NaN\<close> and \<open>0\<close> are falsy, both give the default.\<close>

definition or_default :: "int option \<Rightarrow> int \<Rightarrow> int" where
  "or_default p d = (case p of None \<Rightarrow> d | Some n \<Rightarrow> if n = 0 then d else n)"

subsection \<open>\<open>toString(16)\<close> and \<open>padStart\<close>\<close>

definition hex_char :: "nat \<Rightarrow> char" where
  "hex_char d = ''0123456789abcdef'' ! d"

fun to_hex :: "nat \<Rightarrow> string" where
  "to_hex n = (if n < 16 then [hex_char n] else to_hex (n div 16) @ [hex_char (n mod 16)])"

declare to_hex.simps [simp del]

definition pad_start :: "nat \<Rightarrow> char \<Rightarrow> string \<Rightarrow> string" where
  "pad_start n c s = replicate (n - length s) c @ s"

subsection \<open>\<open>toLowerCase\<close>\<close>

text \<open>\<open>String.prototype.toLowerCase\<close> on one ASCII character.\<close>

definition ascii_lower :: "char \<Rightarrow> char" where
  "ascii_lower c = (let n = of_char c :: nat in if 65 \<le> n \<and> n \<le> 90 then char_of (n + 32) else c)"

subsection \<open>\<open><input type="range">\<close>\<close>

text \<open>
  A range input delivers only values in \<open>[min, max]\<close> that lie on the step grid
  from \<open>min\<close>; a pointer position \<open>v\<close> is clamped and rounded to the nearest
  grid value, ties upward, staying below \<open>max\<close>. An attribute that is not a
  valid floating-point number (\<open>NaN\<close>, \<open>Infinity\<close>) falls back to the default
  maximum 100.
\<close>

definition range_value :: "real \<Rightarrow> real \<Rightarrow> real \<Rightarrow> real \<Rightarrow> real" where
  "range_value lo hi step v =
     (let c = max lo (min hi v) - lo;
          r = lo + of_int (round (c / step)) * step
      in if hi < r then r - step else r)"

fun range_max_attr :: "jsnum \<Rightarrow> real" where
  "range_max_attr (Num m) = m"
| "range_max_attr _ = 100"

subsection \<open>Runtime lemmas\<close>

lemma js_div_finite [simp]: "b \<noteq> 0 \<Longrightarrow> js_div (Num a) b = Num (a / b)"
  by simp

lemma or_default_nonzero: "d \<noteq> 0 \<Longrightarrow> or_default p d \<noteq> 0"
  by (simp add: or_default_def split: option.splits)

text \<open>A range input never delivers a value outside \<open>[min, max]\<close>.\<close>

lemma range_value_bounds:
  assumes "lo \<le> hi" and "0 < step"
  shows "lo \<le> range_value lo hi step v \<and> range_value lo hi step v \<le> hi"
proof -
  define c where "c = max lo (min hi v) - lo"
  define k where "k = round (c / step)"
  have c0: "0 \<le> c" and c1: "c \<le> hi - lo" using assms(1) by (auto simp: c_def)
  have k0: "0 \<le> k" using c0 assms(2) by (simp add: k_def round_nonneg)
  have kup: "of_int k \<le> c / step + 1/2"
    using of_int_round_le [of "c / step"] by (simp add: k_def)
  have r: "range_value lo hi step v = (if hi < lo + of_int k * step then lo + of_int k * step - step else lo + of_int k * step)"
    by (simp add: range_value_def c_def k_def Let_def)
  show ?thesis
  proof (cases "hi < lo + of_int k * step")
    case True
    then have "0 < of_int k * step" using assms(1) by linarith
    then have "1 \<le> k" using assms(2) k0 by (simp add: zero_less_mult_iff)
    then have lo_le: "lo \<le> lo + of_int k * step - step"
      using assms(2) by (simp add: algebra_simps)
    have "of_int k * step \<le> c + step / 2"
      using kup assms(2) by (simp add: field_simps)
    then have "lo + of_int k * step - step \<le> hi" using c1 assms(2) by linarith
    with lo_le True r show ?thesis by simp
  next
    case False
    have "0 \<le> of_int k * step" using k0 assms(2) by simp
    with False r show ?thesis by simp
  qed
qed

text \<open>At or beyond its maximum, a slider over \<open>[0, max]\<close> in steps of 1 delivers a value
  less than one step below the maximum.\<close>

lemma range_value_top:
  assumes "0 \<le> M" and "M \<le> v"
  shows "M - 1 < range_value 0 M 1 v"
proof -
  have r: "range_value 0 M 1 v = (if M < of_int (round M) then of_int (round M) - 1 else of_int (round M))"
    using assms by (simp add: range_value_def Let_def)
  show ?thesis using of_int_round_ge [of M] unfolding r by auto
qed

lemma take_digits_nines: "take_digits 10 (replicate k CHR ''9'') = replicate k 9"
  by (induction k) (simp_all add: digit_val_def)

text \<open>\<open>parseInt\<close> of a string of nines, with or without a minus sign.\<close>

lemma foldl_nines:
  "foldl (\<lambda>acc d. acc * 10 + d) a (replicate k (9::nat)) = (a + 1) * 10 ^ k - 1"
proof (induction k arbitrary: a)
  case 0
  then show ?case by simp
next
  case (Suc k)
  then show ?case by (simp add: algebra_simps)
qed

lemma digits_value_nines: "digits_value 10 (replicate k 9) = 10 ^ k - 1"
  using foldl_nines [of 0 k] by (simp add: digits_value_def)

lemma parse_int_nines:
  "parse_int 10 (replicate (Suc k) CHR ''9'') = Some (int (10 ^ Suc k - 1))"
  "parse_int 10 (CHR ''-'' # replicate (Suc k) CHR ''9'') = Some (- int (10 ^ Suc k - 1))"
  by (simp_all add: parse_int_def is_js_space_def take_digits_nines digits_value_nines
      del: replicate.simps(2) take_digits.simps)

text \<open>Two-digit hexadecimal formatting and its parse, used by the colour input.\<close>

lemma hex_char_digits: "list_all (\<lambda>d. digit_val 16 (hex_char d) = Some d) [0..<16]"
  by code_simp

lemma hex_char_digit: "d < 16 \<Longrightarrow> digit_val 16 (hex_char d) = Some d"
  using hex_char_digits by (simp add: list_all_iff)

lemma to_hex_two:
  assumes "16 \<le> c" and "c < 256"
  shows "to_hex c = [hex_char (c div 16), hex_char (c mod 16)]"
proof -
  have "c div 16 < 16" using assms(2) by simp
  then show ?thesis using assms(1)
    by (simp add: to_hex.simps [of c] to_hex.simps [of "c div 16"])
qed

lemma to_hex_one: "c < 16 \<Longrightarrow> to_hex c = [hex_char c]"
  by (simp add: to_hex.simps)

lemma pad_hex_two:
  assumes "c < 256"
  shows "pad_start 2 (CHR ''0'') (to_hex c) = [hex_char (c div 16), hex_char (c mod 16)]"
proof (cases "c < 16")
  case True
  then show ?thesis by (simp add: to_hex_one pad_start_def hex_char_def)
next
  case False
  then show ?thesis using assms by (simp add: to_hex_two pad_start_def)
qed

lemma digit_val_lt: "digit_val r c = Some d \<Longrightarrow> d < r"
  by (auto simp: digit_val_def Let_def split: if_splits option.splits)

text \<open>Two digits of radix 16 parse to their value.\<close>

lemma parse_two_digits:
  assumes "digit_val 16 a = Some da" "digit_val 16 b = Some db"
  shows "parse_int 16 [a, b] = Some (int (16 * da + db))"
proof -
  have sp: "\<not> is_js_space a" using assms(1) by (auto simp: is_js_space_def digit_val_def)
  have sg: "a \<noteq> CHR ''-'' \<and> a \<noteq> CHR ''+''" using assms(1) by (auto simp: digit_val_def)
  have nx: "b \<noteq> CHR ''x'' \<and> b \<noteq> CHR ''X''" using assms(2) by (auto simp: digit_val_def)
  show ?thesis
    using assms sp sg nx by (simp add: parse_int_def digits_value_def)
qed

lemma digit_val_ascii_lower: "digit_val r (ascii_lower c) = digit_val r c"
proof -
  have "of_char (char_of (of_char c + 32 :: nat) :: char) = (of_char c + 32 :: nat)" if "of_char c \<le> (90::nat)"
    using that by simp
  then show ?thesis
    by (auto simp: ascii_lower_def digit_val_def Let_def)
qed

lemma parse_hex_pair:
  assumes "a < 16" "b < 16"
  shows "parse_int 16 [hex_char a, hex_char b] = Some (int (16 * a + b))"
proof -
  have sp: "\<not> is_js_space (hex_char d)" if "d < 16" for d
    using that hex_char_digit [OF that] by (auto simp: is_js_space_def digit_val_def)
  have sg: "hex_char d \<noteq> CHR ''-'' \<and> hex_char d \<noteq> CHR ''+''" if "d < 16" for d
    using that hex_char_digit [OF that] by (auto simp: digit_val_def)
  have nx: "hex_char b \<noteq> CHR ''x'' \<and> hex_char b \<noteq> CHR ''X''"
    using hex_char_digit [OF assms(2)] by (auto simp: digit_val_def)
  show ?thesis
    using assms sp sg nx hex_char_digit [OF assms(1)] hex_char_digit [OF assms(2)]
    by (simp add: parse_int_def digits_value_def)
qed
end
