(* ===== verification/Geometry.thy ===== *)
theory Geometry
  imports Js_Runtime
begin

text \<open>
  The coordinate transformer of both positioning dialogs
  (\<open>src/src/components/ImagePositioner.tsx\<close>, \<open>TextPositioner.tsx\<close>): the
  preview scale chosen once per session, the SVG overlay whose \<open>viewBox\<close> is the
  PDF page and whose group flips the Y axis, and the local counter-flip of every
  text element. The code has no pointer interaction (the overlay has
  \<open>pointerEvents: 'none'\<close>), so the inverse transform of the spec is a
  specification-level function here, proved to invert the code's forward map.
\<close>

subsection \<open>SVG transforms\<close>

datatype svg_transform = Scale real real | Translate real real

fun apply_one :: "svg_transform \<Rightarrow> point \<Rightarrow> point" where
  "apply_one (Scale sx sy) (x, y) = (sx * x, sy * y)"
| "apply_one (Translate tx ty) (x, y) = (x + tx, y + ty)"

text \<open>
  A \<open>transform\<close> attribute is a list applied right to left: the point first goes
  through the last transform of the list.
\<close>

definition apply_transforms :: "svg_transform list \<Rightarrow> point \<Rightarrow> point" where
  "apply_transforms ts p = foldr apply_one ts p"

text \<open>
  The user-space map of an \<open><svg viewBox="0 0 vw vh">\<close> drawn in a box of
  \<open>dw \<times> dh\<close> pixels, with the default \<open>preserveAspectRatio="xMidYMid meet"\<close>:
  one uniform scale, the smaller of the two ratios, and the slack centred.
\<close>

definition viewbox_map :: "real \<times> real \<Rightarrow> real \<times> real \<Rightarrow> point \<Rightarrow> point" where
  "viewbox_map vb box p =
     (let (vw, vh) = vb; (dw, dh) = box; k = min (dw / vw) (dh / vh);
          tx = (dw - vw * k) / 2; ty = (dh - vh * k) / 2;
          (x, y) = p
      in (x * k + tx, y * k + ty))"

subsection \<open>The preview geometry of a session\<close>

text \<open>
  \<open>loadAndRenderPDF\<close>: the viewport at scale 1 gives the page size in points; the
  display scale fits the page into a 400 by 500 box keeping its aspect ratio, and
  the scaled viewport, of that size, is the size of the preview image.
\<close>

definition display_scale :: "pt \<Rightarrow> pt \<Rightarrow> real" where
  "display_scale w h = min (400 / w) (500 / h)"

definition display_size :: "pt \<Rightarrow> pt \<Rightarrow> real \<times> real" where
  "display_size w h = (w * display_scale w h, h * display_scale w h)"

text \<open>\<open><g transform="scale(1, -1) translate(0, -H)">\<close>: the Y flip of the overlay group.\<close>

definition flip_group :: "pt \<Rightarrow> svg_transform list" where
  "flip_group h = [Scale 1 (-1), Translate 0 (- h)]"

text \<open>
  The counter-flip \<open>scale(1, -1) translate(0, -2 c)\<close> a text element carries so
  that its glyphs come out upright; \<open>c\<close> is the Y the code writes into it.
\<close>

definition counter_flip :: "real \<Rightarrow> svg_transform list" where
  "counter_flip c = [Scale 1 (-1), Translate 0 (- 2 * c)]"

text \<open>
  Where a point of the overlay group's own coordinates (PDF space) appears on
  screen: through the group flip, then the viewBox map into the preview box.
\<close>

definition screen_of_pdf :: "pt \<Rightarrow> pt \<Rightarrow> point \<Rightarrow> point" where
  "screen_of_pdf w h p = viewbox_map (w, h) (display_size w h) (apply_transforms (flip_group h) p)"

text \<open>
  \<open>getCanvasY\<close> of \<open>ImagePositioner\<close>: the canvas-space top edge of an object of
  height \<open>oh\<close> whose bottom edge is at PDF \<open>y\<close>.
\<close>

definition getCanvasY :: "pt \<Rightarrow> pt \<Rightarrow> pt \<Rightarrow> real" where
  "getCanvasY page_h oh pdfY = page_h - pdfY - oh"

text \<open>The inverse transform the spec asks for (no code computes it).\<close>

definition pdf_of_screen :: "pt \<Rightarrow> pt \<Rightarrow> point \<Rightarrow> point" where
  "pdf_of_screen w h q = (let s = display_scale w h in (fst q / s, h - snd q / s))"

subsection \<open>Lemmas\<close>

lemma apply_transforms_Nil [simp, geometry_simps]: "apply_transforms [] p = p"
  by (simp add: apply_transforms_def)

lemma apply_transforms_Cons [simp, geometry_simps]:
  "apply_transforms (t # ts) p = apply_one t (apply_transforms ts p)"
  by (simp add: apply_transforms_def)

lemma apply_transforms_append:
  "apply_transforms (ts @ us) p = apply_transforms ts (apply_transforms us p)"
  by (simp add: apply_transforms_def)

lemma display_scale_pos:
  "0 < w \<Longrightarrow> 0 < h \<Longrightarrow> 0 < display_scale w h"
  by (simp add: display_scale_def)

lemma viewbox_map_display:
  assumes "0 < w" "0 < h"
  shows "viewbox_map (w, h) (display_size w h) (x, y) = (x * display_scale w h, y * display_scale w h)"
proof -
  let ?s = "display_scale w h"
  have "min (w * ?s / w) (h * ?s / h) = ?s" using assms by simp
  then show ?thesis by (simp add: viewbox_map_def display_size_def Let_def)
qed

lemma screen_of_pdf_eq:
  assumes "0 < w" "0 < h"
  shows "screen_of_pdf w h (x, y) = (x * display_scale w h, (h - y) * display_scale w h)"
  using assms by (simp add: screen_of_pdf_def flip_group_def viewbox_map_display)

lemma flip_counter_flip:
  "apply_transforms (flip_group h @ counter_flip c) (px, py) = (px, h - 2 * c + py)"
  by (simp add: apply_transforms_append flip_group_def counter_flip_def)

text \<open>
  A glyph drawn at offset \<open>(dx, dy)\<close> from an anchor whose counter-flip is
  about the anchor's own \<open>y\<close> lands at the same offset from the anchor's
  flipped position: it is upright and not displaced.
\<close>

lemma counter_flip_upright:
  "apply_transforms (flip_group h @ counter_flip c) (x + dx, c + dy) =
     (fst (apply_transforms (flip_group h) (x, c)) + dx, snd (apply_transforms (flip_group h) (x, c)) + dy)"
  unfolding flip_counter_flip by (simp add: flip_group_def)

lemma canvas_top_edge:
  "snd (apply_transforms (flip_group page_h) (x, y + oh)) = getCanvasY page_h oh y"
  by (simp add: flip_group_def getCanvasY_def)

subsection \<open>Properties\<close>

text \<open>
  C26: The overlay's forward transform is the spec's \<open>screenX = x \<cdot> s\<close>,
  \<open>screenY = (H - y) \<cdot> s\<close> with \<open>s\<close> the display scale, and the spec's inverse
  undoes it in both directions, for every page of positive size.
\<close>

theorem transform_roundtrip:
  assumes "0 < w" and "0 < h"
  shows "screen_of_pdf w h (x, y) = (x * display_scale w h, (h - y) * display_scale w h) \<and>
         pdf_of_screen w h (screen_of_pdf w h p) = p \<and>
         screen_of_pdf w h (pdf_of_screen w h q) = q"
proof (intro conjI)
  show "screen_of_pdf w h (x, y) = (x * display_scale w h, (h - y) * display_scale w h)"
    using assms by (rule screen_of_pdf_eq)
  show "pdf_of_screen w h (screen_of_pdf w h p) = p"
    using assms display_scale_pos [OF assms]
    by (cases p) (simp add: screen_of_pdf_eq pdf_of_screen_def)
  show "screen_of_pdf w h (pdf_of_screen w h q) = q"
    using assms display_scale_pos [OF assms]
    by (cases q) (simp add: screen_of_pdf_eq pdf_of_screen_def Let_def)
qed

text \<open>
  C27: The preview fits its box: for a page of positive size the preview is at
  most 400 wide and 500 high, fills the box in one direction, and has the
  page's aspect ratio.
\<close>

theorem display_size_fits:
  assumes "0 < w" and "0 < h"
  shows "fst (display_size w h) \<le> 400 \<and> snd (display_size w h) \<le> 500 \<and>
         (fst (display_size w h) = 400 \<or> snd (display_size w h) = 500) \<and>
         fst (display_size w h) * h = snd (display_size w h) * w"
proof (cases "400 / w \<le> 500 / h")
  case True
  then have "h * (400 / w) \<le> 500" using assms by (simp add: field_simps)
  with True assms show ?thesis by (simp add: display_size_def display_scale_def min_def)
next
  case False
  then have "w * (500 / h) \<le> 400" using assms by (simp add: field_simps)
  with False assms show ?thesis by (simp add: display_size_def display_scale_def min_def)
qed

subsection \<open>Witnesses\<close>

theorem transform_roundtrip_witness:
  "screen_of_pdf 612 792 (50, 50) = (50 * display_scale 612 792, (792 - 50) * display_scale 612 792) \<and>
   pdf_of_screen 612 792 (screen_of_pdf 612 792 (50, 50)) = (50, 50) \<and>
   screen_of_pdf 612 792 (pdf_of_screen 612 792 (10, 20)) = (10, 20)"
  by (rule transform_roundtrip) simp_all

theorem display_size_fits_witness:
  "fst (display_size 612 792) \<le> 400 \<and> snd (display_size 612 792) \<le> 500 \<and>
   (fst (display_size 612 792) = 400 \<or> snd (display_size 612 792) = 500) \<and>
   fst (display_size 612 792) * 792 = snd (display_size 612 792) * 612"
  by (rule display_size_fits) simp_all

end
