(* ===== verification/Session.thy ===== *)
theory Session
  imports Geometry
begin

text \<open>
  What the two positioning dialogs share (spec: PositioningSession). Both
  components keep the same preview state (\<open>pdfPageSize\<close>, \<open>pdfImageUrl\<close>,
  \<open>displaySize\<close>) and run the same \<open>loadAndRenderPDF\<close> effect, so the preview
  is one extensible record that the image and the text session extend with their
  draft fields. A dialog reports back to \<open>PDFEditor\<close> through \<open>onConfirm\<close> or
  \<open>onCancel\<close>: the \<open>outcome\<close> of a step, carrying the placement draft.
\<close>

subsection \<open>Placement drafts\<close>

text \<open>A colour \<open>{r, g, b}\<close> as \<open>TextPositioner\<close> keeps it.\<close>

datatype rgb = RGB (red: int) (green: int) (blue: int)

text \<open>
  The arguments of \<open>onConfirm\<close>: \<open>(x, y, width, height)\<close> for an image,
  \<open>(text, x, y, fontSize, color, fontFamily)\<close> for a text. Width and height are
  numbers that can be non-finite (see \<open>ImageSession\<close>).
\<close>

datatype placement =
    ImagePlacement real real jsnum jsnum
  | TextPlacement string real real int rgb string

datatype outcome = Confirmed placement | Cancelled

subsection \<open>The preview of a page\<close>

record preview =
  pdfPageSize :: "real \<times> real"
  pdfImageUrl :: string
  displaySize :: "real \<times> real"

definition preview_init :: preview where
  "preview_init = \<lparr>pdfPageSize = (0, 0), pdfImageUrl = [], displaySize = (0, 0)\<rparr>"

text \<open>
  \<open>loadAndRenderPDF\<close> runs once per mount, in two resumptions: when
  \<open>page.getViewport({scale: 1})\<close> is known it stores the page size and the display
  size in one synchronous segment; when \<open>page.render\<close> has finished it stores the
  data URL of the canvas. A rejected promise or a missing 2D context ends the
  effect early: the second resumption never happens.
\<close>

definition on_page_loaded :: "pt \<Rightarrow> pt \<Rightarrow> 'a preview_scheme \<Rightarrow> 'a preview_scheme" where
  "on_page_loaded w h s = s\<lparr>pdfPageSize := (w, h), displaySize := display_size w h\<rparr>"

definition on_page_rendered :: "string \<Rightarrow> 'a preview_scheme \<Rightarrow> 'a preview_scheme" where
  "on_page_rendered url s = s\<lparr>pdfImageUrl := url\<rparr>"

text \<open>
  The dialog shows the preview once \<open>pdfImageUrl\<close> is non-empty (else
  "loading"), and draws the overlay once \<open>pdfPageSize.width > 0\<close>.
\<close>

definition preview_shown :: "'a preview_scheme \<Rightarrow> bool" where
  "preview_shown s \<longleftrightarrow> pdfImageUrl s \<noteq> []"

definition overlay_drawn :: "'a preview_scheme \<Rightarrow> bool" where
  "overlay_drawn s \<longleftrightarrow> 0 < fst (pdfPageSize s)"

text \<open>
  A run of a dialog given its step function (one React event handler per event):
  the final state and the outcomes reported to the parent, in order.
\<close>

fun session_run :: "('s \<Rightarrow> 'e \<Rightarrow> 's \<times> outcome option) \<Rightarrow> 's \<Rightarrow> 'e list \<Rightarrow> 's \<times> outcome list" where
  "session_run step s [] = (s, [])"
| "session_run step s (e # es) =
     (let (s', out) = step s e; (s'', outs) = session_run step s' es
      in (s'', (case out of None \<Rightarrow> outs | Some x \<Rightarrow> x # outs)))"

subsection \<open>Lemmas\<close>

lemma session_run_Cons [simp]:
  "session_run step s (e # es) =
     (fst (session_run step (fst (step s e)) es),
      (case snd (step s e) of None \<Rightarrow> [] | Some x \<Rightarrow> [x]) @ snd (session_run step (fst (step s e)) es))"
  by (simp add: split_def Let_def split: option.splits)

declare session_run.simps(2) [simp del]

end
