(* ===== verification/ImageSession.thy ===== *)
theory ImageSession
  imports Session
begin

text \<open>
  The image positioning dialog, \<open>src/src/components/ImagePositioner.tsx\<close>. Its
  React state is the preview of \<open>Session\<close> extended with the image draft:
  natural size, position, size and scale percentage. Every \<open>onChange\<close> and
  \<open>onClick\<close> handler of the JSX is one event of \<open>image_step\<close>; the two
  asynchronous effects (decoding the image, loading and rendering the page) are
  events too, since they resolve at times of their own, interleaved with the
  user's edits. Sizes are \<open>jsnum\<close>s: before the image is decoded its natural
  size is \<open>0 \<times> 0\<close>, and the size handlers divide by it.
\<close>

subsection \<open>State\<close>

record image_session = preview +
  imageNaturalSize :: "real \<times> real"
  imagePosition :: "real \<times> real"
  imageSize :: "jsnum \<times> jsnum"
  imageScale :: jsnum

definition image_session_init :: image_session where
  "image_session_init =
     \<lparr>pdfPageSize = (0, 0), pdfImageUrl = [], displaySize = (0, 0),
      imageNaturalSize = (0, 0), imagePosition = (50, 50),
      imageSize = (Num 200, Num 200), imageScale = Num 100\<rparr>"

subsection \<open>Handlers\<close>

text \<open>
  \<open>img.onload\<close> of the first effect: the natural size, and the size reset to it.
  The scale is not touched.
\<close>

definition on_image_loaded :: "real \<Rightarrow> real \<Rightarrow> image_session \<Rightarrow> image_session" where
  "on_image_loaded w h s = s\<lparr>imageNaturalSize := (w, h), imageSize := (Num w, Num h)\<rparr>"

definition handleConfirm :: "image_session \<Rightarrow> placement" where
  "handleConfirm s =
     ImagePlacement (fst (imagePosition s)) (snd (imagePosition s))
       (fst (imageSize s)) (snd (imageSize s))"

definition handleResetSize :: "image_session \<Rightarrow> image_session" where
  "handleResetSize s =
     s\<lparr>imageSize := (Num (fst (imageNaturalSize s)), Num (snd (imageNaturalSize s))),
       imageScale := Num 100\<rparr>"

definition handleScaleChange :: "real \<Rightarrow> image_session \<Rightarrow> image_session" where
  "handleScaleChange newScale s =
     (let newWidth = fst (imageNaturalSize s) * newScale / 100;
          newHeight = snd (imageNaturalSize s) * newScale / 100
      in s\<lparr>imageScale := Num newScale, imageSize := (Num newWidth, Num newHeight)\<rparr>)"

definition handleSizeChange :: "jsnum \<Rightarrow> jsnum \<Rightarrow> image_session \<Rightarrow> image_session" where
  "handleSizeChange width height s =
     (let scaleFromWidth = js_mul (js_div width (fst (imageNaturalSize s))) (Num 100)
      in s\<lparr>imageSize := (width, height), imageScale := js_round scaleFromWidth\<rparr>)"

subsection \<open>Controls\<close>

text \<open>
  The \<open>max\<close> attributes of the two position sliders: the page size less the
  image size, at least 0.
\<close>

definition x_range_max :: "image_session \<Rightarrow> real" where
  "x_range_max s = range_max_attr (js_max0 (js_sub (fst (pdfPageSize s)) (fst (imageSize s))))"

definition y_range_max :: "image_session \<Rightarrow> real" where
  "y_range_max s = range_max_attr (js_max0 (js_sub (snd (pdfPageSize s)) (snd (imageSize s))))"

text \<open>The number inputs read \<open>parseInt(value) || 0\<close>; the sliders \<open>parseFloat\<close> of their value.\<close>

definition x_number_input :: "string \<Rightarrow> image_session \<Rightarrow> image_session" where
  "x_number_input v s =
     s\<lparr>imagePosition := (of_int (or_default (parse_int 10 v) 0), snd (imagePosition s))\<rparr>"

definition x_range_input :: "real \<Rightarrow> image_session \<Rightarrow> image_session" where
  "x_range_input v s =
     s\<lparr>imagePosition := (range_value 0 (x_range_max s) 1 v, snd (imagePosition s))\<rparr>"

definition y_number_input :: "string \<Rightarrow> image_session \<Rightarrow> image_session" where
  "y_number_input v s =
     s\<lparr>imagePosition := (fst (imagePosition s), of_int (or_default (parse_int 10 v) 0))\<rparr>"

definition y_range_input :: "real \<Rightarrow> image_session \<Rightarrow> image_session" where
  "y_range_input v s =
     s\<lparr>imagePosition := (fst (imagePosition s), range_value 0 (y_range_max s) 1 v)\<rparr>"

text \<open>Scale: \<open>parseInt(value) || 100\<close>, or the slider over \<open>[10, 300]\<close> in steps of 5.\<close>

definition scale_number_input :: "string \<Rightarrow> image_session \<Rightarrow> image_session" where
  "scale_number_input v s = handleScaleChange (of_int (or_default (parse_int 10 v) 100)) s"

definition scale_range_input :: "real \<Rightarrow> image_session \<Rightarrow> image_session" where
  "scale_range_input v s = handleScaleChange (range_value 10 300 5 v) s"

text \<open>
  Width and height: the typed dimension, and the other one from the natural
  aspect ratio.
\<close>

definition width_input :: "string \<Rightarrow> image_session \<Rightarrow> image_session" where
  "width_input v s =
     (let w = of_int (or_default (parse_int 10 v) 0)
      in handleSizeChange (Num w)
           (js_mul (Num w) (js_div (Num (snd (imageNaturalSize s))) (fst (imageNaturalSize s)))) s)"

definition height_input :: "string \<Rightarrow> image_session \<Rightarrow> image_session" where
  "height_input v s =
     (let h = of_int (or_default (parse_int 10 v) 0)
      in handleSizeChange
           (js_mul (Num h) (js_div (Num (fst (imageNaturalSize s))) (snd (imageNaturalSize s))))
           (Num h) s)"

subsection \<open>The overlay\<close>

text \<open>
  The coordinate label drawn at the rectangle's top-left corner: its anchor in
  the group's (PDF) coordinates and the counter-flip the code writes into its
  \<open>transform\<close>.
\<close>

definition image_label_anchor :: "image_session \<Rightarrow> jsnum \<times> jsnum" where
  "image_label_anchor s =
     (case snd (imageSize s) of
        Num h \<Rightarrow> (Num (fst (imagePosition s) + 5), Num (snd (imagePosition s) + h - 5))
      | v \<Rightarrow> (Num (fst (imagePosition s) + 5), v))"

definition image_label_flip :: "image_session \<Rightarrow> svg_transform list option" where
  "image_label_flip s =
     (case snd (imageSize s) of
        Num h \<Rightarrow> Some (counter_flip (snd (imagePosition s) + h - 5))
      | _ \<Rightarrow> None)"

subsection \<open>Events and the step function\<close>

datatype image_event =
    ImageDecoded real real
  | PageLoaded real real
  | PageRendered string
  | XNumber string | XRange real
  | YNumber string | YRange real
  | ScaleNumber string | ScaleRange real
  | WidthNumber string | HeightNumber string
  | ResetSizeClick | CancelClick | ConfirmClick

fun image_step :: "image_session \<Rightarrow> image_event \<Rightarrow> image_session \<times> outcome option" where
  "image_step s (ImageDecoded w h) = (on_image_loaded w h s, None)"
| "image_step s (PageLoaded w h) = (on_page_loaded w h s, None)"
| "image_step s (PageRendered url) = (on_page_rendered url s, None)"
| "image_step s (XNumber v) = (x_number_input v s, None)"
| "image_step s (XRange v) = (x_range_input v s, None)"
| "image_step s (YNumber v) = (y_number_input v s, None)"
| "image_step s (YRange v) = (y_range_input v s, None)"
| "image_step s (ScaleNumber v) = (scale_number_input v s, None)"
| "image_step s (ScaleRange v) = (scale_range_input v s, None)"
| "image_step s (WidthNumber v) = (width_input v s, None)"
| "image_step s (HeightNumber v) = (height_input v s, None)"
| "image_step s ResetSizeClick = (handleResetSize s, None)"
| "image_step s CancelClick = (s, Some Cancelled)"
| "image_step s ConfirmClick = (s, Some (Confirmed (handleConfirm s)))"

text \<open>A run of the dialog: the final state and the outcomes in order.\<close>

fun image_run :: "image_session \<Rightarrow> image_event list \<Rightarrow> image_session \<times> outcome list" where
  "image_run s [] = (s, [])"
| "image_run s (e # es) =
     (let (s', out) = image_step s e; (s'', outs) = image_run s' es
      in (s'', (case out of None \<Rightarrow> outs | Some x \<Rightarrow> x # outs)))"

subsection \<open>Invariants and event classes\<close>

text \<open>
  Once the image is decoded with a positive size, the draft's width and height
  are finite and in the natural aspect ratio.
\<close>

definition aspect_inv :: "image_session \<Rightarrow> bool" where
  "aspect_inv s \<longleftrightarrow>
     (let (nw, nh) = imageNaturalSize s
      in 0 < nw \<longrightarrow> 0 < nh \<longrightarrow>
         (case imageSize s of (Num w, Num h) \<Rightarrow> h * nw = w * nh | _ \<Rightarrow> False))"

text \<open>
  The scale percentage and the width agree up to the rounding of
  \<open>Math.round\<close>: \<open>|100 w - nw p| \<le> nw / 2\<close>, that is, \<open>w\<close> is within half a
  percent of \<open>nw\<close> of \<open>nw \<cdot> p / 100\<close>.
\<close>

definition scale_linked :: "image_session \<Rightarrow> bool" where
  "scale_linked s \<longleftrightarrow>
     (let (nw, nh) = imageNaturalSize s
      in 0 < nw \<longrightarrow> 0 < nh \<longrightarrow>
         (case (fst (imageSize s), imageScale s) of
            (Num w, Num p) \<Rightarrow> \<bar>100 * w - nw * p\<bar> \<le> nw / 2
          | _ \<Rightarrow> False))"

fun is_decode :: "image_event \<Rightarrow> bool" where
  "is_decode (ImageDecoded _ _) = True"
| "is_decode _ = False"

subsection \<open>Lemmas\<close>

lemmas image_handler_defs =
  on_image_loaded_def handleResetSize_def handleScaleChange_def handleSizeChange_def
  x_number_input_def x_range_input_def y_number_input_def y_range_input_def
  scale_number_input_def scale_range_input_def width_input_def height_input_def
  on_page_loaded_def on_page_rendered_def

lemma image_run_simps [simp]:
  "image_run s (e # es) =
     (fst (image_run (fst (image_step s e)) es),
      (case snd (image_step s e) of None \<Rightarrow> [] | Some x \<Rightarrow> [x]) @ snd (image_run (fst (image_step s e)) es))"
  by (simp add: split_def Let_def split: option.splits)

declare image_run.simps(2) [simp del]

lemma image_step_aspect_inv:
  assumes "aspect_inv s"
  shows "aspect_inv (fst (image_step s e))"
proof (cases e)
  case (WidthNumber v)
  then show ?thesis using assms
    by (auto simp: aspect_inv_def image_handler_defs Let_def split: prod.splits)
next
  case (HeightNumber v)
  then show ?thesis using assms
    by (auto simp: aspect_inv_def image_handler_defs Let_def split: prod.splits)
qed (use assms in \<open>auto simp: aspect_inv_def image_handler_defs Let_def split: prod.splits\<close>)

lemma image_run_aspect_inv:
  "aspect_inv s \<Longrightarrow> aspect_inv (fst (image_run s es))"
proof (induction es arbitrary: s)
  case Nil
  then show ?case by simp
next
  case (Cons e es)
  have "aspect_inv (fst (image_step s e))" using Cons.prems by (rule image_step_aspect_inv)
  then have "aspect_inv (fst (image_run (fst (image_step s e)) es))" by (rule Cons.IH)
  then show ?case by (simp add: split_def Let_def)
qed

lemma aspect_inv_init: "aspect_inv image_session_init"
  by (simp add: aspect_inv_def image_session_init_def)


lemma round_scale_error:
  assumes "0 < (nw::real)"
  shows "\<bar>100 * w - nw * of_int (round (w / nw * 100))\<bar> \<le> nw / 2"
proof -
  have "\<bar>w / nw * 100 - of_int (round (w / nw * 100))\<bar> \<le> 1/2"
    using round_error_half [of "w / nw * 100"] by (simp add: abs_minus_commute)
  then have "\<bar>nw * (w / nw * 100) - nw * of_int (round (w / nw * 100))\<bar> \<le> nw * (1/2)"
    by (rule scaled_error_bound [OF assms])
  moreover have "nw * (w / nw * 100) = 100 * w"
    using assms by simp
  ultimately show ?thesis by simp
qed

lemma handleSizeChange_linked:
  assumes "0 < fst (imageNaturalSize s)"
  shows "\<exists>p. imageScale (handleSizeChange (Num w) hgt s) = Num p \<and>
             \<bar>100 * w - fst (imageNaturalSize s) * p\<bar> \<le> fst (imageNaturalSize s) / 2"
  using assms round_scale_error [OF assms, of w]
  by (simp add: handleSizeChange_def Let_def)

lemma scale_linked_handleSizeChange:
  assumes "0 < fst (imageNaturalSize s)"
  shows "scale_linked (handleSizeChange (Num w) hgt s)"
proof -
  obtain p where p: "imageScale (handleSizeChange (Num w) hgt s) = Num p"
      and err: "\<bar>100 * w - fst (imageNaturalSize s) * p\<bar> \<le> fst (imageNaturalSize s) / 2"
    using handleSizeChange_linked [OF assms] by blast
  have "imageNaturalSize (handleSizeChange (Num w) hgt s) = imageNaturalSize s"
    and "fst (imageSize (handleSizeChange (Num w) hgt s)) = Num w"
    by (simp_all add: handleSizeChange_def Let_def)
  with p err show ?thesis
    by (cases "imageNaturalSize s") (simp add: scale_linked_def)
qed

lemma scale_linked_natural_unchanged:
  "imageNaturalSize t = imageNaturalSize s \<Longrightarrow> \<not> (0 < fst (imageNaturalSize s) \<and> 0 < snd (imageNaturalSize s)) \<Longrightarrow> scale_linked t"
  by (auto simp: scale_linked_def split: prod.splits)

lemma image_step_scale_linked:
  assumes "scale_linked s" and "\<not> is_decode e"
  shows "scale_linked (fst (image_step s e))"
proof (cases "0 < fst (imageNaturalSize s) \<and> 0 < snd (imageNaturalSize s)")
  case pos: True
  show ?thesis
  proof (cases e)
    case (WidthNumber v)
    then show ?thesis using pos
      by (simp add: width_input_def Let_def scale_linked_handleSizeChange)
  next
    case (HeightNumber v)
    then show ?thesis using pos
      by (simp add: height_input_def Let_def scale_linked_handleSizeChange)
  qed (use assms in \<open>auto simp: scale_linked_def image_handler_defs Let_def split: prod.splits\<close>)
next
  case False
  then show ?thesis using assms(2)
    by (cases e) (auto intro: scale_linked_natural_unchanged simp: image_handler_defs Let_def)
qed


lemma image_run_scale_linked:
  "scale_linked s \<Longrightarrow> list_all (\<lambda>e. \<not> is_decode e) es \<Longrightarrow> scale_linked (fst (image_run s es))"
  by (induction es arbitrary: s) (simp_all add: image_step_scale_linked)

subsection \<open>Properties\<close>

text \<open>
  C19: The draft keeps the image's aspect ratio. In every state reached from the
  initial state of the dialog, once the image is decoded with a positive natural
  size, width and height are finite and \<open>height \<cdot> naturalWidth = width \<cdot>
  naturalHeight\<close>: the scale slider, the width box, the height box and the reset
  button all keep the natural ratio.
\<close>

theorem aspect_ratio_kept: "aspect_inv (fst (image_run image_session_init es))"
  using aspect_inv_init by (rule image_run_aspect_inv)

text \<open>
  C20: Scale and size stay linked once the image is decoded before the scale is
  touched: from any state whose scale is still 100, after decoding and any
  events that do not decode again, the width is within half a percent of the
  natural width of \<open>naturalWidth \<cdot> scale / 100\<close>.
\<close>

theorem scale_linked_after_decode:
  assumes "0 < w" and "0 < h" and "imageScale s = Num 100"
    and "list_all (\<lambda>e. \<not> is_decode e) es"
  shows "scale_linked (fst (image_run (on_image_loaded w h s) es))"
proof -
  have "scale_linked (on_image_loaded w h s)"
    using assms(3) by (simp add: scale_linked_def on_image_loaded_def)
  then show ?thesis using assms(4) by (rule image_run_scale_linked)
qed

text \<open>
  C21: The link breaks when the scale is changed before the image has been
  decoded: in any state whose scale is off 100 by more than half a percent,
  decoding an image of positive size resets the size to the natural size
  (100 \<open>%\<close>) but keeps the scale, so scale and width are no longer linked.
\<close>

theorem decode_race_unlinks:
  assumes "imageScale s = Num p" and "1/2 < \<bar>p - 100\<bar>" and "0 < w" and "0 < h"
  shows "imageScale (fst (image_step s (ImageDecoded w h))) = Num p \<and>
         \<not> scale_linked (fst (image_step s (ImageDecoded w h)))"
proof -
  have "\<bar>100 * w - w * p\<bar> = \<bar>w\<bar> * \<bar>100 - p\<bar>" by (simp add: abs_mult [symmetric] algebra_simps)
  also have "\<dots> = w * \<bar>p - 100\<bar>" using assms(3) by (simp add: abs_minus_commute)
  also have "w / 2 < \<dots>" using assms(2,3) by simp
  ultimately have "w / 2 < \<bar>100 * w - w * p\<bar>" by simp
  then show ?thesis using assms by (simp add: scale_linked_def on_image_loaded_def)
qed

text \<open>
  C22: Size to scale and back: after a width is typed, the scale the dialog
  derives, applied again through the scale handler, reproduces the width within
  half a percent of the natural width (the rounding of \<open>Math.round\<close>).
\<close>

theorem size_scale_roundtrip:
  assumes "0 < fst (imageNaturalSize s)"
  shows "\<exists>p w'. imageScale (handleSizeChange (Num w) hgt s) = Num p \<and>
           fst (imageSize (handleScaleChange p (handleSizeChange (Num w) hgt s))) = Num w' \<and>
           \<bar>w' - w\<bar> \<le> fst (imageNaturalSize s) / 200"
proof -
  obtain p where p: "imageScale (handleSizeChange (Num w) hgt s) = Num p"
      and err: "\<bar>100 * w - fst (imageNaturalSize s) * p\<bar> \<le> fst (imageNaturalSize s) / 2"
    using handleSizeChange_linked [OF assms] by blast
  have "\<bar>fst (imageNaturalSize s) * p / 100 - w\<bar> \<le> fst (imageNaturalSize s) / 200"
    using err by (simp add: abs_minus_commute abs_divide [symmetric] field_simps)
  moreover have "fst (imageSize (handleScaleChange p (handleSizeChange (Num w) hgt s))) =
      Num (fst (imageNaturalSize s) * p / 100)"
    by (simp add: handleScaleChange_def handleSizeChange_def Let_def)
  ultimately show ?thesis using p by blast
qed

text \<open>
  C23: The position sliders keep the image on the page: with a finite size that
  fits the page, a value delivered by the X slider puts the image's left edge
  in \<open>[0, pageWidth - width]\<close>, and one of the Y slider its bottom edge in
  \<open>[0, pageHeight - height]\<close>.
\<close>

theorem position_sliders_keep_image_on_page:
  assumes "imageSize s = (Num w, Num h)" and "0 \<le> w" and "w \<le> fst (pdfPageSize s)"
    and "0 \<le> h" and "h \<le> snd (pdfPageSize s)"
  shows "0 \<le> fst (imagePosition (x_range_input v s)) \<and>
         fst (imagePosition (x_range_input v s)) + w \<le> fst (pdfPageSize s) \<and>
         0 \<le> snd (imagePosition (y_range_input v s)) \<and>
         snd (imagePosition (y_range_input v s)) + h \<le> snd (pdfPageSize s)"
proof -
  have x: "x_range_max s = fst (pdfPageSize s) - w" and y: "y_range_max s = snd (pdfPageSize s) - h"
    using assms by (simp_all add: x_range_max_def y_range_max_def)
  have "0 \<le> range_value 0 (x_range_max s) 1 v \<and> range_value 0 (x_range_max s) 1 v \<le> x_range_max s"
    using assms(3) x by (intro range_value_bounds) simp_all
  moreover have "0 \<le> range_value 0 (y_range_max s) 1 v \<and> range_value 0 (y_range_max s) 1 v \<le> y_range_max s"
    using assms(5) y by (intro range_value_bounds) simp_all
  ultimately show ?thesis using x y
    by (simp add: x_range_input_def y_range_input_def)
qed

text \<open>
  C24: The clamp is not an invariant of the dialog: in any state where the
  image fits the page, moving the X slider to its maximum and then setting the
  scale slider to a value that widens the image by at least one point leaves
  the image's right edge beyond the page; the scale handler does not re-clamp
  the position.
\<close>

theorem image_leaves_page:
  assumes "imageSize s = (Num w, Num h)" and "0 \<le> w" and "w \<le> fst (pdfPageSize s)"
    and "fst (pdfPageSize s) - w \<le> v0" and "w + 1 \<le> fst (imageNaturalSize s) * range_value 10 300 5 v / 100"
  shows "let s' = scale_range_input v (x_range_input v0 s)
         in fst (imageSize s') = Num (fst (imageNaturalSize s) * range_value 10 300 5 v / 100) \<and>
            fst (pdfPageSize s') < fst (imagePosition s') + fst (imageNaturalSize s) * range_value 10 300 5 v / 100"
proof -
  have m: "x_range_max s = fst (pdfPageSize s) - w" using assms(1,3) by (simp add: x_range_max_def)
  have "x_range_max s - 1 < range_value 0 (x_range_max s) 1 v0"
    using range_value_top [of "x_range_max s" v0] assms(3,4) m by simp
  then show ?thesis using m assms(5)
    by (simp add: Let_def scale_range_input_def handleScaleChange_def x_range_input_def)
qed

text \<open>
  C25: The coordinate label is drawn upright at its anchor: the counter-flip the
  code gives it is computed from the label's own Y, so after the group's flip a
  glyph at offset \<open>(dx, dy)\<close> from the anchor lands at the same offset from the
  flipped anchor (a translation, no reflection).
\<close>

theorem image_label_upright:
  assumes "image_label_flip s = Some ts" and "image_label_anchor s = (Num ax, Num ay)"
  shows "apply_transforms (flip_group ph @ ts) (ax + dx, ay + dy) =
         (fst (apply_transforms (flip_group ph) (ax, ay)) + dx,
          snd (apply_transforms (flip_group ph) (ax, ay)) + dy)"
proof -
  obtain h where h: "snd (imageSize s) = Num h" and ts: "ts = counter_flip (snd (imagePosition s) + h - 5)"
    using assms(1) by (auto simp: image_label_flip_def split: jsnum.splits)
  have ay: "ay = snd (imagePosition s) + h - 5"
    using assms(2) h by (simp add: image_label_anchor_def)
  show ?thesis
    unfolding ts flip_counter_flip by (simp add: ay flip_group_def)
qed

text \<open>
  Scenario B: an image of natural size 200 by 200, left at its default
  position (50, 50) and set to 50 \<open>%\<close> with the slider, is confirmed as a
  100 by 100 placement at (50, 50).
\<close>

theorem scenario_B_image_placement:
  "snd (image_run image_session_init
          [ImageDecoded 200 200, PageLoaded 612 792, PageRendered ''data:image/png'',
           ScaleRange 50, ConfirmClick])
   = [Confirmed (ImagePlacement 50 50 (Num 100) (Num 100))]"
  by (simp add: image_session_init_def image_handler_defs handleConfirm_def range_value_def round_def)

subsection \<open>Witnesses\<close>

theorem aspect_ratio_kept_witness:
  "aspect_inv (fst (image_run image_session_init [ImageDecoded 300 150, WidthNumber ''120'']))"
  using aspect_ratio_kept [of "[ImageDecoded 300 150, WidthNumber ''120'']"] by simp

theorem scale_linked_after_decode_witness:
  "0 < (300::real) \<and> 0 < (150::real) \<and> imageScale image_session_init = Num 100 \<and>
   list_all (\<lambda>e. \<not> is_decode e) [WidthNumber ''100''] \<and>
   scale_linked (fst (image_run (on_image_loaded 300 150 image_session_init) [WidthNumber ''100'']))"
  using scale_linked_after_decode [of 300 150 image_session_init "[WidthNumber ''100'']"]
  by (simp add: image_session_init_def)

theorem size_scale_roundtrip_witness:
  "0 < fst (imageNaturalSize (on_image_loaded 300 150 image_session_init)) \<and>
   (\<exists>p w'. imageScale (handleSizeChange (Num 100) (Num 50) (on_image_loaded 300 150 image_session_init)) = Num p \<and>
     fst (imageSize (handleScaleChange p (handleSizeChange (Num 100) (Num 50) (on_image_loaded 300 150 image_session_init)))) = Num w' \<and>
     \<bar>w' - 100\<bar> \<le> fst (imageNaturalSize (on_image_loaded 300 150 image_session_init)) / 200)"
  using size_scale_roundtrip [of "on_image_loaded 300 150 image_session_init" 100 "Num 50"]
  by (simp add: on_image_loaded_def)

theorem position_sliders_keep_image_on_page_witness:
  "imageSize (on_page_loaded 612 792 (on_image_loaded 200 100 image_session_init)) = (Num 200, Num 100) \<and>
   0 \<le> fst (imagePosition (x_range_input 1000 (on_page_loaded 612 792 (on_image_loaded 200 100 image_session_init)))) \<and>
   fst (imagePosition (x_range_input 1000 (on_page_loaded 612 792 (on_image_loaded 200 100 image_session_init)))) + 200 \<le> 612"
  using position_sliders_keep_image_on_page
    [of "on_page_loaded 612 792 (on_image_loaded 200 100 image_session_init)" 200 100 1000]
  by (simp add: on_image_loaded_def on_page_loaded_def)

theorem image_label_upright_witness:
  "image_label_flip (on_image_loaded 200 100 image_session_init) = Some (counter_flip 145) \<and>
   image_label_anchor (on_image_loaded 200 100 image_session_init) = (Num 55, Num 145) \<and>
   apply_transforms (flip_group 792 @ counter_flip 145) (55 + 3, 145 + 4) =
     (fst (apply_transforms (flip_group 792) (55, 145)) + 3,
      snd (apply_transforms (flip_group 792) (55, 145)) + 4)"
  using image_label_upright [of "on_image_loaded 200 100 image_session_init" "counter_flip 145" 55 145 792 3 4]
  by (simp add: image_label_flip_def image_label_anchor_def on_image_loaded_def image_session_init_def)

theorem decode_race_unlinks_witness:
  "imageScale (scale_range_input 50 image_session_init) = Num 50 \<and>
   \<not> scale_linked (fst (image_step (scale_range_input 50 image_session_init) (ImageDecoded 200 100)))"
proof -
  have h: "imageScale (scale_range_input 50 image_session_init) = Num 50"
    by (simp add: scale_range_input_def handleScaleChange_def range_value_def round_def)
  show ?thesis using decode_race_unlinks [OF h, of 200 100] h by simp
qed

theorem image_leaves_page_witness:
  "fst (pdfPageSize (scale_range_input 200 (x_range_input 1000
      (on_page_loaded 200 200 (on_image_loaded 100 100 image_session_init))))) <
   fst (imagePosition (scale_range_input 200 (x_range_input 1000
      (on_page_loaded 200 200 (on_image_loaded 100 100 image_session_init))))) + 200"
proof -
  let ?s = "on_page_loaded 200 200 (on_image_loaded 100 100 image_session_init)"
  have rv: "range_value 10 300 5 200 = 200" by (simp add: range_value_def round_def)
  have h: "imageSize ?s = (Num 100, Num 100)" "0 \<le> (100::real)" "100 \<le> fst (pdfPageSize ?s)"
    "fst (pdfPageSize ?s) - 100 \<le> 1000" "100 + 1 \<le> fst (imageNaturalSize ?s) * range_value 10 300 5 200 / 100"
    by (simp_all add: on_page_loaded_def on_image_loaded_def rv)
  show ?thesis using image_leaves_page [OF h] by (simp add: Let_def on_image_loaded_def on_page_loaded_def rv)
qed

end
