(* ===== verification/TextSession.thy ===== *)
theory TextSession
  imports Session
begin

text \<open>
  The text positioning dialog, \<open>src/src/components/TextPositioner.tsx\<close>. Its
  React state is the preview of \<open>Session\<close> extended with the text draft: the
  text, the anchor position, the font size, the colour and the font file. Every
  \<open>onChange\<close> and \<open>onClick\<close> handler of the JSX is one event of \<open>text_step\<close>,
  and so are the two resumptions of the page effect. Strings are byte strings:
  the initial text is the UTF-8 encoding of the source's literal. The colour
  input goes through the platform's sanitisation of \<open><input type="color">\<close>
  before the handler parses it back into channels.
\<close>

subsection \<open>State\<close>

text \<open>The three \<open><option>\<close>s of the font \<open><select>\<close>.\<close>

datatype font_option = NotoSansJP | NotoSerifJP | MPLUSRounded1c

fun font_file :: "font_option \<Rightarrow> string" where
  "font_file NotoSansJP = ''NotoSansJP-Regular.ttf''"
| "font_file NotoSerifJP = ''NotoSerifJP-Regular.ttf''"
| "font_file MPLUSRounded1c = ''MPLUSRounded1c-Regular.ttf''"

text \<open>The field \<open>text\<close> of the source is \<open>textValue\<close> here (\<open>text\<close> is a keyword).\<close>

record text_session = preview +
  textValue :: string
  textPosition :: "real \<times> real"
  fontSize :: int
  textColor :: rgb
  fontFamily :: string

text \<open>\<open>'\<close>sample text\<open>'\<close> in Japanese, as UTF-8 bytes.\<close>

definition sample_text :: string where
  "sample_text =
     [CHR 0xE3, CHR 0x82, CHR 0xB5, CHR 0xE3, CHR 0x83, CHR 0xB3, CHR 0xE3, CHR 0x83,
      CHR 0x97, CHR 0xE3, CHR 0x83, CHR 0xAB, CHR 0xE3, CHR 0x83, CHR 0x86, CHR 0xE3,
      CHR 0x82, CHR 0xAD, CHR 0xE3, CHR 0x82, CHR 0xB9, CHR 0xE3, CHR 0x83, CHR 0x88]"

definition text_session_init :: text_session where
  "text_session_init =
     \<lparr>pdfPageSize = (0, 0), pdfImageUrl = [], displaySize = (0, 0),
      textValue = sample_text, textPosition = (50, 50), fontSize = 24,
      textColor = RGB 0 0 0, fontFamily = font_file NotoSansJP\<rparr>"

subsection \<open>The colour input\<close>

text \<open>\<open>n.toString(16)\<close> for an integer \<open>n\<close>, and \<open>.padStart(2, '0')\<close>.\<close>

definition int_to_hex :: "int \<Rightarrow> string" where
  "int_to_hex i = (if i < 0 then CHR ''-'' # to_hex (nat (- i)) else to_hex (nat i))"

definition hex2 :: "int \<Rightarrow> string" where
  "hex2 i = pad_start 2 (CHR ''0'') (int_to_hex i)"

text \<open>The \<open>value\<close> attribute the component writes into the colour input.\<close>

definition color_value :: "text_session \<Rightarrow> string" where
  "color_value s =
     CHR ''#'' # hex2 (red (textColor s)) @ hex2 (green (textColor s)) @ hex2 (blue (textColor s))"

text \<open>
  The value sanitisation of \<open><input type="color">\<close>: a valid simple colour
  (\<open>#\<close> and six ASCII hex digits) is lower-cased, anything else becomes
  \<open>#000000\<close>. The \<open>value\<close> an \<open>onChange\<close> handler reads is always sanitised.
\<close>

definition valid_simple_color :: "string \<Rightarrow> bool" where
  "valid_simple_color v \<longleftrightarrow>
     length v = 7 \<and> hd v = CHR ''#'' \<and> list_all (\<lambda>c. digit_val 16 c \<noteq> None) (tl v)"

definition sanitize_color :: "string \<Rightarrow> string" where
  "sanitize_color v = (if valid_simple_color v then map ascii_lower v else ''#000000'')"

text \<open>
  \<open>parseInt(pair, 16)\<close> of a pair of the sanitised value. It is never \<open>NaN\<close>
  there (lemma \<open>color_input_channels\<close>), so the \<open>None\<close> branch is never
  taken.
\<close>

definition hex_channel :: "string \<Rightarrow> int" where
  "hex_channel p = (case parse_int 16 p of Some n \<Rightarrow> n | None \<Rightarrow> 0)"

definition color_input :: "string \<Rightarrow> text_session \<Rightarrow> text_session" where
  "color_input v s =
     (let hex = drop 1 (sanitize_color v);
          r = hex_channel (take 2 hex);
          g = hex_channel (take 2 (drop 2 hex));
          b = hex_channel (take 2 (drop 4 hex))
      in s\<lparr>textColor := RGB r g b\<rparr>)"

subsection \<open>Handlers\<close>

definition text_input :: "string \<Rightarrow> text_session \<Rightarrow> text_session" where
  "text_input v s = s\<lparr>textValue := v\<rparr>"

text \<open>
  The position sliders run over \<open>[0, max(0, page size)]\<close>: unlike the image
  dialog nothing is subtracted for the extent of the text. The number inputs
  read \<open>parseInt(value) || 0\<close>.
\<close>

definition tx_range_max :: "text_session \<Rightarrow> real" where
  "tx_range_max s = max 0 (fst (pdfPageSize s))"

definition ty_range_max :: "text_session \<Rightarrow> real" where
  "ty_range_max s = max 0 (snd (pdfPageSize s))"

definition tx_number_input :: "string \<Rightarrow> text_session \<Rightarrow> text_session" where
  "tx_number_input v s =
     s\<lparr>textPosition := (of_int (or_default (parse_int 10 v) 0), snd (textPosition s))\<rparr>"

definition tx_range_input :: "real \<Rightarrow> text_session \<Rightarrow> text_session" where
  "tx_range_input v s =
     s\<lparr>textPosition := (range_value 0 (tx_range_max s) 1 v, snd (textPosition s))\<rparr>"

definition ty_number_input :: "string \<Rightarrow> text_session \<Rightarrow> text_session" where
  "ty_number_input v s =
     s\<lparr>textPosition := (fst (textPosition s), of_int (or_default (parse_int 10 v) 0))\<rparr>"

definition ty_range_input :: "real \<Rightarrow> text_session \<Rightarrow> text_session" where
  "ty_range_input v s =
     s\<lparr>textPosition := (fst (textPosition s), range_value 0 (ty_range_max s) 1 v)\<rparr>"

definition font_select :: "font_option \<Rightarrow> text_session \<Rightarrow> text_session" where
  "font_select f s = s\<lparr>fontFamily := font_file f\<rparr>"

text \<open>
  Font size: the number box reads \<open>parseInt(value) || 12\<close> (its \<open>min\<close> and
  \<open>max\<close> attributes do not constrain typed values); the slider over \<open>[8, 72]\<close>
  with step 1 delivers an integer, which \<open>parseInt\<close> reads back exactly.
\<close>

definition font_size_number_input :: "string \<Rightarrow> text_session \<Rightarrow> text_session" where
  "font_size_number_input v s = s\<lparr>fontSize := or_default (parse_int 10 v) 12\<rparr>"

definition font_size_range_input :: "real \<Rightarrow> text_session \<Rightarrow> text_session" where
  "font_size_range_input v s = s\<lparr>fontSize := round (range_value 8 72 1 v)\<rparr>"

definition text_handleConfirm :: "text_session \<Rightarrow> placement" where
  "text_handleConfirm s =
     TextPlacement (textValue s) (fst (textPosition s)) (snd (textPosition s))
       (fontSize s) (textColor s) (fontFamily s)"

subsection \<open>The overlay\<close>

text \<open>
  Inside the flipped group the text is drawn at its position with the
  counter-flip about its own \<open>y\<close>; the coordinate label at
  \<open>(x + 5, y - fontSize - 5)\<close> with the counter-flip about that \<open>y\<close>.
\<close>

definition text_flip :: "text_session \<Rightarrow> svg_transform list" where
  "text_flip s = counter_flip (snd (textPosition s))"

definition text_label_anchor :: "text_session \<Rightarrow> point" where
  "text_label_anchor s =
     (fst (textPosition s) + 5, snd (textPosition s) - of_int (fontSize s) - 5)"

definition text_label_flip :: "text_session \<Rightarrow> svg_transform list" where
  "text_label_flip s = counter_flip (snd (textPosition s) - of_int (fontSize s) - 5)"

subsection \<open>Events and the step function\<close>

datatype text_event =
    TPageLoaded real real
  | TPageRendered string
  | TextInput string
  | TXNumber string | TXRange real
  | TYNumber string | TYRange real
  | FontSelect font_option
  | FontSizeNumber string | FontSizeRange real
  | ColorInput string
  | TCancelClick | TConfirmClick

fun text_step :: "text_session \<Rightarrow> text_event \<Rightarrow> text_session \<times> outcome option" where
  "text_step s (TPageLoaded w h) = (on_page_loaded w h s, None)"
| "text_step s (TPageRendered url) = (on_page_rendered url s, None)"
| "text_step s (TextInput v) = (text_input v s, None)"
| "text_step s (TXNumber v) = (tx_number_input v s, None)"
| "text_step s (TXRange v) = (tx_range_input v s, None)"
| "text_step s (TYNumber v) = (ty_number_input v s, None)"
| "text_step s (TYRange v) = (ty_range_input v s, None)"
| "text_step s (FontSelect f) = (font_select f s, None)"
| "text_step s (FontSizeNumber v) = (font_size_number_input v s, None)"
| "text_step s (FontSizeRange v) = (font_size_range_input v s, None)"
| "text_step s (ColorInput v) = (color_input v s, None)"
| "text_step s TCancelClick = (s, Some Cancelled)"
| "text_step s TConfirmClick = (s, Some (Confirmed (text_handleConfirm s)))"

definition text_run :: "text_session \<Rightarrow> text_event list \<Rightarrow> text_session \<times> outcome list" where
  "text_run = session_run text_step"

subsection \<open>Invariants and event classes\<close>

definition channel_ok :: "int \<Rightarrow> bool" where
  "channel_ok c \<longleftrightarrow> 0 \<le> c \<and> c \<le> 255"

subsection \<open>Lemmas\<close>

lemmas text_handler_defs =
  text_input_def tx_number_input_def tx_range_input_def ty_number_input_def ty_range_input_def
  font_select_def font_size_number_input_def font_size_range_input_def
  on_page_loaded_def on_page_rendered_def

lemma ascii_lower_hex_chars: "list_all (\<lambda>d. ascii_lower (hex_char d) = hex_char d) [0..<16]"
  by code_simp

lemma ascii_lower_hex_char: "d < 16 \<Longrightarrow> ascii_lower (hex_char d) = hex_char d"
  using ascii_lower_hex_chars by (simp add: list_all_iff)

text \<open>The sanitised value of a colour input is always a valid simple colour.\<close>

lemma sanitize_valid: "valid_simple_color (sanitize_color v)"
proof (cases "valid_simple_color v")
  case True
  then obtain c cs where v: "v = c # cs" by (cases v) (auto simp: valid_simple_color_def)
  have "ascii_lower (CHR ''#'') = CHR ''#''" by (simp add: ascii_lower_def)
  with True v show ?thesis
    by (simp add: sanitize_color_def valid_simple_color_def list_all_iff digit_val_ascii_lower)
next
  case False
  then have "sanitize_color v = ''#000000''" by (simp add: sanitize_color_def)
  moreover have "valid_simple_color ''#000000''" by code_simp
  ultimately show ?thesis by simp
qed

lemma six_chars: "length cs = 6 \<Longrightarrow> \<exists>a b c d e f. cs = [a, b, c, d, e, f]"
  by (auto simp: length_Suc_conv numeral_eq_Suc)

lemma hex_channel_digits:
  assumes "digit_val 16 a = Some da" "digit_val 16 b = Some db"
  shows "hex_channel [a, b] = int (16 * da + db) \<and> channel_ok (hex_channel [a, b])"
proof -
  have "da < 16" "db < 16" using assms by (simp_all add: digit_val_lt)
  then have "16 * da + db \<le> 255" by linarith
  then show ?thesis using parse_two_digits [OF assms] by (simp add: hex_channel_def channel_ok_def)
qed

text \<open>
  Whatever the colour input delivers, the three channels the handler parses are
  in \<open>[0, 255]\<close>; in particular \<open>parseInt\<close> never returns \<open>NaN\<close> there.
\<close>

lemma color_input_channels:
  "channel_ok (red (textColor (color_input v s))) \<and> channel_ok (green (textColor (color_input v s))) \<and>
   channel_ok (blue (textColor (color_input v s)))"
proof -
  let ?w = "sanitize_color v"
  have w: "length ?w = 7" "hd ?w = CHR ''#''" "list_all (\<lambda>c. digit_val 16 c \<noteq> None) (tl ?w)"
    using sanitize_valid [of v] by (simp_all add: valid_simple_color_def)
  then have "length (tl ?w) = 6" by simp
  then obtain a b c d e f where t: "tl ?w = [a, b, c, d, e, f]" using six_chars by blast
  then have "drop 1 ?w = [a, b, c, d, e, f]" by (simp add: drop_Suc)
  moreover have ok: "channel_ok (hex_channel [x, y])" if xy: "digit_val 16 x \<noteq> None" "digit_val 16 y \<noteq> None" for x y
  proof -
    obtain dx dy where "digit_val 16 x = Some dx" "digit_val 16 y = Some dy" using xy by blast
    then show ?thesis using hex_channel_digits by blast
  qed
  moreover have "list_all (\<lambda>c. digit_val 16 c \<noteq> None) [a, b, c, d, e, f]" using w(3) t by simp
  ultimately show ?thesis by (simp add: color_input_def Let_def)
qed

lemma hex2_channel:
  assumes "channel_ok i"
  shows "hex2 i = [hex_char (nat i div 16), hex_char (nat i mod 16)]"
proof -
  have "nat i < 256" using assms unfolding channel_ok_def by (simp add: nat_less_iff)
  then show ?thesis using assms by (simp add: hex2_def int_to_hex_def channel_ok_def pad_hex_two)
qed

lemma hex_channel_hex2:
  assumes "channel_ok i"
  shows "hex_channel (hex2 i) = i \<and> list_all (\<lambda>c. digit_val 16 c \<noteq> None \<and> ascii_lower c = c) (hex2 i)"
proof -
  have "nat i < 256" using assms unfolding channel_ok_def by (simp add: nat_less_iff)
  then have lt: "nat i div 16 < 16" "nat i mod 16 < 16" by simp_all
  have "hex_channel (hex2 i) = int (16 * (nat i div 16) + nat i mod 16)"
    using hex2_channel [OF assms] hex_channel_digits [OF hex_char_digit hex_char_digit, OF lt] by simp
  also have "\<dots> = i" using assms by (simp add: channel_ok_def)
  finally show ?thesis
    using hex2_channel [OF assms] lt by (simp add: hex_char_digit ascii_lower_hex_char)
qed

lemma font_range_round: "8 \<le> round (range_value 8 72 1 v) \<and> round (range_value 8 72 1 v) \<le> 72"
proof -
  have b: "8 \<le> range_value 8 72 1 v \<and> range_value 8 72 1 v \<le> 72" by (rule range_value_bounds) simp_all
  have "8 \<le> round (range_value 8 72 1 v)" using b by (metis of_int_numeral round_mono round_of_int)
  moreover have "round (range_value 8 72 1 v) \<le> 72" using b by (metis of_int_numeral round_mono round_of_int)
  ultimately show ?thesis ..
qed

subsection \<open>Properties\<close>

text \<open>
  C28: The colour input round-trips (spec 6, TextPlacement colour): for channels
  in \<open>[0, 255]\<close>, the \<open>#rrggbb\<close> value the component renders, sanitised by the
  platform and parsed back by the \<open>onChange\<close> handler, gives the same colour.
\<close>

theorem color_roundtrip:
  assumes "channel_ok (red (textColor s))" "channel_ok (green (textColor s))" "channel_ok (blue (textColor s))"
  shows "textColor (color_input (color_value s) t) = textColor s"
proof -
  obtain r g b where c: "textColor s = RGB r g b" by (cases "textColor s")
  have hr: "hex_channel (hex2 r) = r" "list_all (\<lambda>c. digit_val 16 c \<noteq> None \<and> ascii_lower c = c) (hex2 r)"
    and hg: "hex_channel (hex2 g) = g" "list_all (\<lambda>c. digit_val 16 c \<noteq> None \<and> ascii_lower c = c) (hex2 g)"
    and hb: "hex_channel (hex2 b) = b" "list_all (\<lambda>c. digit_val 16 c \<noteq> None \<and> ascii_lower c = c) (hex2 b)"
    using hex_channel_hex2 assms c by simp_all
  have len: "length (hex2 r) = 2" "length (hex2 g) = 2" "length (hex2 b) = 2"
    using hex2_channel assms c by simp_all
  have "ascii_lower (CHR ''#'') = CHR ''#''" by (simp add: ascii_lower_def)
  then have "sanitize_color (color_value s) = color_value s"
    using hr(2) hg(2) hb(2) len c
    by (auto simp: sanitize_color_def valid_simple_color_def color_value_def list_all_iff map_idI)
  then show ?thesis using hr(1) hg(1) hb(1) len c by (simp add: color_input_def color_value_def Let_def)
qed

text \<open>
  The font-size slider keeps the size in \<open>[8, 72]\<close>, whatever pointer
  position it is dragged to.
\<close>

theorem font_slider_bounded:
  "8 \<le> fontSize (font_size_range_input v s) \<and> fontSize (font_size_range_input v s) \<le> 72"
  using font_range_round by (simp add: font_size_range_input_def)

text \<open>
  C29: The font-size number box is not bounded, contrary to spec 5 (\<open>fontSize\<close>
  bounded to \<open>[8, 72]\<close>): \<open>parseInt(value) || 12\<close> takes whatever is typed,
  so for every bound \<open>N\<close>, from any state, a string of nines sets a font size
  above \<open>N\<close> and the same string after a minus sign one below \<open>-N\<close>.
\<close>

theorem font_size_box_unbounded:
  "N < fontSize (font_size_number_input (replicate (Suc (nat N)) CHR ''9'') s) \<and>
   fontSize (font_size_number_input (CHR ''-'' # replicate (Suc (nat N)) CHR ''9'') s) < - N"
proof -
  have "Suc (nat N) < 2 ^ Suc (nat N)" by (rule less_exp)
  also have "(2::nat) ^ Suc (nat N) \<le> 10 ^ Suc (nat N)" by (rule power_mono) simp_all
  finally have "Suc (nat N) < 10 ^ Suc (nat N)" .
  then have "N < int (10 ^ Suc (nat N) - 1)" "int (10 ^ Suc (nat N) - 1) \<noteq> 0" by linarith+
  moreover have fs: "\<And>v. fontSize (font_size_number_input v s) = or_default (parse_int 10 v) 12"
    by (simp add: font_size_number_input_def)
  ultimately show ?thesis unfolding fs parse_int_nines or_default_def by simp
qed

text \<open>
  The text position sliders keep the anchor within the page
  (spec 4.1 clamp policy for text: \<open>x \<in> [0, widthPt]\<close>, \<open>y \<in> [0, heightPt]\<close>).
\<close>

theorem text_sliders_keep_anchor_on_page:
  "0 \<le> fst (textPosition (tx_range_input v s)) \<and>
   fst (textPosition (tx_range_input v s)) \<le> max 0 (fst (pdfPageSize s)) \<and>
   0 \<le> snd (textPosition (ty_range_input v s)) \<and>
   snd (textPosition (ty_range_input v s)) \<le> max 0 (snd (pdfPageSize s))"
  using range_value_bounds [of 0 "max 0 (fst (pdfPageSize s))" 1 v]
    range_value_bounds [of 0 "max 0 (snd (pdfPageSize s))" 1 v]
  by (simp add: tx_range_input_def ty_range_input_def tx_range_max_def ty_range_max_def)

text \<open>
  C30: The text clamp does not subtract the text's extent (spec 9, open
  question): on any page, the Y slider moved to its maximum (the page height)
  puts the baseline within one point of the top edge and never above it, so
  text of any font size above 1 point reaches above the page.
\<close>

theorem text_clamp_ignores_extent:
  assumes "0 \<le> snd (pdfPageSize s)" and "snd (pdfPageSize s) \<le> v" and "1 < fontSize s"
  shows "snd (textPosition (ty_range_input v s)) \<le> snd (pdfPageSize s) \<and>
         snd (pdfPageSize s) < snd (textPosition (ty_range_input v s)) + of_int (fontSize (ty_range_input v s))"
proof -
  have m: "ty_range_max s = snd (pdfPageSize s)" using assms(1) by (simp add: ty_range_max_def)
  have "range_value 0 (ty_range_max s) 1 v \<le> ty_range_max s"
    using range_value_bounds [of 0 "ty_range_max s" 1 v] assms(1) m by simp
  moreover have "ty_range_max s - 1 < range_value 0 (ty_range_max s) 1 v"
    using range_value_top [of "ty_range_max s" v] assms(1,2) m by simp
  moreover have "(1::real) < of_int (fontSize s)" using assms(3) by simp
  ultimately show ?thesis using m by (simp add: ty_range_input_def)
qed

text \<open>
  Text is drawn upright where it is placed (spec 4.1 counter-flip): the text
  and its coordinate label are each counter-flipped about their own final
  \<open>y\<close>, so a glyph at offset \<open>(dx, dy)\<close> from the anchor appears at that same
  offset from the anchor's flipped position.
\<close>

theorem text_upright:
  "apply_transforms (flip_group ph @ text_flip s) (fst (textPosition s) + dx, snd (textPosition s) + dy) =
     (fst (apply_transforms (flip_group ph) (textPosition s)) + dx,
      snd (apply_transforms (flip_group ph) (textPosition s)) + dy) \<and>
   apply_transforms (flip_group ph @ text_label_flip s) (fst (text_label_anchor s) + dx, snd (text_label_anchor s) + dy) =
     (fst (apply_transforms (flip_group ph) (text_label_anchor s)) + dx,
      snd (apply_transforms (flip_group ph) (text_label_anchor s)) + dy)"
  unfolding text_flip_def text_label_flip_def text_label_anchor_def
  by (simp only: prod.collapse fst_conv snd_conv counter_flip_upright simp_thms)

text \<open>
  Scenario C, first session (spec 7): typing "Hello" and confirming with the
  defaults reports the placement at (50, 50), size 24, black, in the first font.
\<close>

theorem scenario_C_text_placement:
  "snd (text_run text_session_init
          [TPageLoaded 612 792, TPageRendered ''data:image/png'', TextInput ''Hello'', TConfirmClick])
   = [Confirmed (TextPlacement ''Hello'' 50 50 24 (RGB 0 0 0) ''NotoSansJP-Regular.ttf'')]"
  by (simp add: text_run_def text_session_init_def text_handler_defs text_handleConfirm_def)

subsection \<open>Witnesses\<close>

theorem color_roundtrip_witness:
  "channel_ok (red (textColor (text_session_init\<lparr>textColor := RGB 18 171 255\<rparr>))) \<and>
   channel_ok (green (textColor (text_session_init\<lparr>textColor := RGB 18 171 255\<rparr>))) \<and>
   channel_ok (blue (textColor (text_session_init\<lparr>textColor := RGB 18 171 255\<rparr>))) \<and>
   textColor (color_input (color_value (text_session_init\<lparr>textColor := RGB 18 171 255\<rparr>)) text_session_init) =
     textColor (text_session_init\<lparr>textColor := RGB 18 171 255\<rparr>)"
proof -
  have h1: "channel_ok (red (textColor (text_session_init\<lparr>textColor := RGB 18 171 255\<rparr>)))"
    and h2: "channel_ok (green (textColor (text_session_init\<lparr>textColor := RGB 18 171 255\<rparr>)))"
    and h3: "channel_ok (blue (textColor (text_session_init\<lparr>textColor := RGB 18 171 255\<rparr>)))"
    by (simp_all add: channel_ok_def)
  show ?thesis by (intro conjI h1 h2 h3 color_roundtrip [OF h1 h2 h3])
qed

theorem text_clamp_ignores_extent_witness:
  "0 \<le> snd (pdfPageSize (on_page_loaded 612 792 text_session_init)) \<and>
   snd (pdfPageSize (on_page_loaded 612 792 text_session_init)) \<le> 800 \<and>
   1 < fontSize (on_page_loaded 612 792 text_session_init) \<and>
   792 < snd (textPosition (ty_range_input 800 (on_page_loaded 612 792 text_session_init))) +
           of_int (fontSize (ty_range_input 800 (on_page_loaded 612 792 text_session_init)))"
proof -
  have h: "0 \<le> snd (pdfPageSize (on_page_loaded 612 792 text_session_init))"
    "snd (pdfPageSize (on_page_loaded 612 792 text_session_init)) \<le> 800"
    "1 < fontSize (on_page_loaded 612 792 text_session_init)"
    by (simp_all add: on_page_loaded_def text_session_init_def)
  show ?thesis using h text_clamp_ignores_extent [OF h] by (simp add: on_page_loaded_def)
qed

end
