(* ===== verification/Engine.thy ===== *)
theory Engine
  imports Session
begin

text \<open>
  The document manipulation engine that \<open>PDFEditor\<close> calls: \<open>addImageToPDF\<close>,
  \<open>addTextToPDF\<close> and \<open>mergePDFs\<close> of \<open>../utils/pdfUtils\<close>. That module is not
  among the repository's files, so the editor is stated over any engine: a
  record of three functions over an abstract document type \<open>'d\<close> and image type
  \<open>'i\<close>, each returning \<open>None\<close> where the promise rejects. The concrete engine
  below is modelled from the spec (section 6): a document is a list of pages,
  embedding appends an overlay to the addressed page and fails for a page index
  out of range, merging concatenates the page lists in order.

  The same record carries the rendering side the dialogs use, equally external:
  \<open>pdfjs-dist\<close>'s page geometry and rasterisation of a page of a document
  (\<open>getDocument\<close>, \<open>getPage(pageIndex + 1)\<close>, \<open>getViewport({scale: 1})\<close>,
  \<open>page.render\<close> and \<open>canvas.toDataURL()\<close>) and the browser's decoding of an
  image file (\<open>FileReader\<close>, \<open>img.onload\<close>); \<open>None\<close> is a promise that
  rejects, or a load that never completes.
\<close>

subsection \<open>The interface\<close>

record ('d, 'i) engine =
  addImageToPDF :: "'d \<Rightarrow> 'i \<Rightarrow> int \<Rightarrow> real \<Rightarrow> real \<Rightarrow> jsnum \<Rightarrow> jsnum \<Rightarrow> 'd option"
  addTextToPDF :: "'d \<Rightarrow> string \<Rightarrow> int \<Rightarrow> real \<Rightarrow> real \<Rightarrow> int \<Rightarrow> rgb \<Rightarrow> string \<Rightarrow> 'd option"
  mergePDFs :: "'d list \<Rightarrow> 'd option"
  getPageSize :: "'d \<Rightarrow> int \<Rightarrow> (real \<times> real) option"
  renderPage :: "'d \<Rightarrow> int \<Rightarrow> string option"
  decodeImage :: "'i \<Rightarrow> (real \<times> real) option"

subsection \<open>A page-list engine\<close>

datatype 'i overlay =
    OImage 'i real real jsnum jsnum
  | OText string real real int rgb string

record 'i page =
  page_size :: "real \<times> real"
  page_items :: "'i overlay list"

type_synonym 'i pdf = "'i page list"

text \<open>Appending an overlay to page \<open>k\<close>, failing when the page does not exist.\<close>

definition draw_on_page :: "int \<Rightarrow> 'i overlay \<Rightarrow> 'i pdf \<Rightarrow> 'i pdf option" where
  "draw_on_page k ov doc =
     (if 0 \<le> k \<and> nat k < length doc
      then Some (doc[nat k := (doc ! nat k)\<lparr>page_items := page_items (doc ! nat k) @ [ov]\<rparr>])
      else None)"

text \<open>
  The rendering side of this engine: a page has its size and renders to a
  non-empty data URL; a page index out of range makes \<open>getPage\<close> reject.
  Every image decodes to 200 by 200 pixels (the image of spec scenario B).
\<close>

definition page_engine :: "('i pdf, 'i) engine" where
  "page_engine =
     \<lparr>addImageToPDF = (\<lambda>doc img k x y w h. draw_on_page k (OImage img x y w h) doc),
      addTextToPDF = (\<lambda>doc t k x y fs c f. draw_on_page k (OText t x y fs c f) doc),
      mergePDFs = (\<lambda>docs. Some (concat docs)),
      getPageSize = (\<lambda>doc k. if 0 \<le> k \<and> nat k < length doc then Some (page_size (doc ! nat k)) else None),
      renderPage = (\<lambda>doc k. if 0 \<le> k \<and> nat k < length doc then Some ''data:image/png'' else None),
      decodeImage = (\<lambda>i. Some (200, 200))\<rparr>"

subsection \<open>Lemmas\<close>

lemma draw_on_page_length:
  "draw_on_page k ov doc = Some doc' \<Longrightarrow> length doc' = length doc"
  by (auto simp: draw_on_page_def split: if_splits)

lemma draw_on_page_items:
  assumes "draw_on_page k ov doc = Some doc'" and "j < length doc"
  shows "page_items (doc' ! j) = page_items (doc ! j) @ (if j = nat k then [ov] else [])"
  using assms by (auto simp: draw_on_page_def split: if_splits)

end
