(* ===== verification/Editor.thy ===== *)
theory Editor
  imports Engine
begin

text \<open>
  The top-level component \<open>src/src/components/PDFEditor.tsx\<close>: the list of
  uploaded files and the selected one (spec: ActiveFileSet), the edited bytes
  that every confirmed placement replaces (spec: EditChain), the merge path
  (spec: DocumentAssembler), export and reset. Its state is the React state plus
  the continuations of the \<open>await\<close>s in flight: a handler that awaits the engine
  is split at the \<open>await\<close>; the call is made with the inputs the handler read,
  and the rest of the handler runs when the promise settles, as a separate event
  in any order. Everything is stated over an arbitrary engine
  (\<open>Engine.engine\<close>). Files are records with an identity: each \<open>File\<close> object
  that \<open>FileUploader\<close> delivers is new, so the model gives it a fresh id, and
  \<open>===\<close> on files is equality of these records.
\<close>

subsection \<open>State\<close>

record 'd pdf_file =
  file_id :: nat
  file_name :: string
  file_bytes :: 'd

datatype alert =
    NeedTwoFiles | MergeDone | MergeFailed | SelectPdfFirst
  | ImageAdded | ImageAddFailed | TextAdded | TextAddFailed
  | NothingToEdit | ExportDone

datatype 'd effect = Alert alert | Download 'd string

text \<open>An \<open>await\<close> in flight, with the value its promise will settle to (\<open>None\<close>: rejected).\<close>

datatype 'd pending = PendingMerge "'d option" | PendingImage "'d option" | PendingText "'d option"

record ('d, 'i) editor =
  selectedFiles :: "'d pdf_file list"
  currentFile :: "'d pdf_file option"
  editedPdfBytes :: "'d option"
  showImagePositioner :: bool
  selectedImage :: "'i option"
  showTextPositioner :: bool
  currentPageIndex :: int
  pending :: "'d pending list"
  next_file_id :: nat

definition editor_init :: "('d, 'i) editor" where
  "editor_init =
     \<lparr>selectedFiles = [], currentFile = None, editedPdfBytes = None,
      showImagePositioner = False, selectedImage = None, showTextPositioner = False,
      currentPageIndex = 0, pending = [], next_file_id = 0\<rparr>"

subsection \<open>Derived values\<close>

text \<open>
  \<open>previewFile\<close>: the edited bytes under the current file's name when both
  exist, else the current file. It is also the \<open>pdfFile\<close> of both dialogs.
\<close>

definition previewFile :: "('d, 'i) editor \<Rightarrow> 'd option" where
  "previewFile s =
     (case (editedPdfBytes s, currentFile s) of
        (Some b, Some _) \<Rightarrow> Some b
      | (_, f) \<Rightarrow> map_option file_bytes f)"

text \<open>
  The document both confirm handlers hand to the engine (\<open>sourceFile\<close>): the
  edited bytes if any, else the current file.
\<close>

definition sourceFile :: "('d, 'i) editor \<Rightarrow> 'd option" where
  "sourceFile s =
     (case currentFile s of
        None \<Rightarrow> None
      | Some f \<Rightarrow> Some (case editedPdfBytes s of Some b \<Rightarrow> b | None \<Rightarrow> file_bytes f))"

subsection \<open>Handlers\<close>

definition handleFilesSelected ::
  "(string \<times> 'd) list \<Rightarrow> ('d, 'i) editor \<Rightarrow> ('d, 'i) editor" where
  "handleFilesSelected fs s =
     (let files = map (\<lambda>(k, (n, b)). \<lparr>file_id = next_file_id s + k, file_name = n, file_bytes = b\<rparr>)
                    (enumerate 0 fs);
          s' = s\<lparr>selectedFiles := selectedFiles s @ files,
                  next_file_id := next_file_id s + length fs\<rparr>
      in if files \<noteq> [] \<and> currentFile s = None then s'\<lparr>currentFile := Some (hd files)\<rparr> else s')"

definition handleMergePDFs ::
  "('d, 'i) engine \<Rightarrow> ('d, 'i) editor \<Rightarrow> ('d, 'i) editor \<times> 'd effect list" where
  "handleMergePDFs eng s =
     (if length (selectedFiles s) < 2 then (s, [Alert NeedTwoFiles])
      else (s\<lparr>pending := pending s @
                 [PendingMerge (mergePDFs eng (map file_bytes (selectedFiles s)))]\<rparr>, []))"

text \<open>\<open>handleAddImage\<close> together with the \<open>onchange\<close> of the file chooser it opens.\<close>

definition handleAddImage ::
  "'i option \<Rightarrow> ('d, 'i) editor \<Rightarrow> ('d, 'i) editor \<times> 'd effect list" where
  "handleAddImage chosen s =
     (if currentFile s = None then (s, [Alert SelectPdfFirst])
      else case chosen of
        None \<Rightarrow> (s, [])
      | Some img \<Rightarrow> (s\<lparr>selectedImage := Some img, showImagePositioner := True\<rparr>, []))"

definition handleImagePositionConfirm ::
  "('d, 'i) engine \<Rightarrow> real \<Rightarrow> real \<Rightarrow> jsnum \<Rightarrow> jsnum \<Rightarrow> ('d, 'i) editor \<Rightarrow> ('d, 'i) editor" where
  "handleImagePositionConfirm eng x y w h s =
     (case (sourceFile s, selectedImage s) of
        (Some src, Some img) \<Rightarrow>
          s\<lparr>pending := pending s @
               [PendingImage (addImageToPDF eng src img (currentPageIndex s) x y w h)]\<rparr>
      | _ \<Rightarrow> s)"

definition handleImagePositionCancel :: "('d, 'i) editor \<Rightarrow> ('d, 'i) editor" where
  "handleImagePositionCancel s = s\<lparr>showImagePositioner := False, selectedImage := None\<rparr>"

definition handleAddText :: "('d, 'i) editor \<Rightarrow> ('d, 'i) editor \<times> 'd effect list" where
  "handleAddText s =
     (if currentFile s = None then (s, [Alert SelectPdfFirst])
      else (s\<lparr>showTextPositioner := True\<rparr>, []))"

definition handleTextPositionConfirm ::
  "('d, 'i) engine \<Rightarrow> string \<Rightarrow> real \<Rightarrow> real \<Rightarrow> int \<Rightarrow> rgb \<Rightarrow> string \<Rightarrow>
   ('d, 'i) editor \<Rightarrow> ('d, 'i) editor" where
  "handleTextPositionConfirm eng t x y fs c ff s =
     (case sourceFile s of
        Some src \<Rightarrow>
          s\<lparr>pending := pending s @
               [PendingText (addTextToPDF eng src t (currentPageIndex s) x y fs c ff)]\<rparr>
      | None \<Rightarrow> s)"

definition handleTextPositionCancel :: "('d, 'i) editor \<Rightarrow> ('d, 'i) editor" where
  "handleTextPositionCancel s = s\<lparr>showTextPositioner := False\<rparr>"

definition handleRemoveFile :: "nat \<Rightarrow> ('d, 'i) editor \<Rightarrow> ('d, 'i) editor" where
  "handleRemoveFile i s =
     (let newFiles = remove_nth i (selectedFiles s);
          s' = s\<lparr>selectedFiles := newFiles\<rparr>
      in if i < length (selectedFiles s) \<and> currentFile s = Some (selectedFiles s ! i)
         then s'\<lparr>currentFile := (case newFiles of [] \<Rightarrow> None | f # _ \<Rightarrow> Some f),
                 editedPdfBytes := None\<rparr>
         else s')"

definition handleExportPDF :: "('d, 'i) editor \<Rightarrow> 'd effect list" where
  "handleExportPDF s =
     (case editedPdfBytes s of
        None \<Rightarrow> [Alert NothingToEdit]
      | Some b \<Rightarrow> [Download b ''edited.pdf'', Alert ExportDone])"

text \<open>\<open>handleResetEdits\<close>, with the user's answer to its \<open>confirm\<close> dialog.\<close>

definition handleResetEdits :: "bool \<Rightarrow> ('d, 'i) editor \<Rightarrow> ('d, 'i) editor" where
  "handleResetEdits answer s =
     (if editedPdfBytes s = None then s
      else if answer then s\<lparr>editedPdfBytes := None, currentPageIndex := 0\<rparr>
      else s)"

text \<open>The \<open>onClick\<close> of a file of the list: \<open>setCurrentFile(file)\<close>.\<close>

definition selectFile :: "nat \<Rightarrow> ('d, 'i) editor \<Rightarrow> ('d, 'i) editor" where
  "selectFile i s =
     (if i < length (selectedFiles s) then s\<lparr>currentFile := Some (selectedFiles s ! i)\<rparr> else s)"

text \<open>\<open>PDFViewer\<close>'s \<open>onPageChange(pageNumber)\<close>.\<close>

definition pageChange :: "int \<Rightarrow> ('d, 'i) editor \<Rightarrow> ('d, 'i) editor" where
  "pageChange n s = s\<lparr>currentPageIndex := n - 1\<rparr>"

text \<open>What runs after an \<open>await\<close> when its promise settles.\<close>

fun settle ::
  "'d pending \<Rightarrow> ('d, 'i) editor \<Rightarrow> ('d, 'i) editor \<times> 'd effect list" where
  "settle (PendingMerge (Some b)) s = (s, [Download b ''merged.pdf'', Alert MergeDone])"
| "settle (PendingMerge None) s = (s, [Alert MergeFailed])"
| "settle (PendingImage (Some b)) s =
     (s\<lparr>editedPdfBytes := Some b, showImagePositioner := False, selectedImage := None\<rparr>,
      [Alert ImageAdded])"
| "settle (PendingImage None) s = (s, [Alert ImageAddFailed])"
| "settle (PendingText (Some b)) s =
     (s\<lparr>editedPdfBytes := Some b, showTextPositioner := False\<rparr>, [Alert TextAdded])"
| "settle (PendingText None) s = (s, [Alert TextAddFailed])"

text \<open>The \<open>k\<close>-th promise in flight settles.\<close>

definition resolve ::
  "nat \<Rightarrow> ('d, 'i) editor \<Rightarrow> ('d, 'i) editor \<times> 'd effect list" where
  "resolve k s =
     (if k < length (pending s)
      then settle (pending s ! k) (s\<lparr>pending := remove_nth k (pending s)\<rparr>)
      else (s, []))"

subsection \<open>Events and the step function\<close>

datatype ('d, 'i) editor_event =
    FilesDropped "(string \<times> 'd) list"
  | MergeClick
  | AddImageClick "'i option"
  | ImageConfirmed real real jsnum jsnum
  | ImageCancelled
  | AddTextClick
  | TextConfirmed string real real int rgb string
  | TextCancelled
  | RemoveClick nat
  | SelectClick nat
  | ExportClick
  | ResetClick bool
  | PageChanged int
  | Settle nat

fun editor_step ::
  "('d, 'i) engine \<Rightarrow> ('d, 'i) editor \<Rightarrow> ('d, 'i) editor_event \<Rightarrow> ('d, 'i) editor \<times> 'd effect list" where
  "editor_step eng s (FilesDropped fs) = (handleFilesSelected fs s, [])"
| "editor_step eng s MergeClick = handleMergePDFs eng s"
| "editor_step eng s (AddImageClick c) = handleAddImage c s"
| "editor_step eng s (ImageConfirmed x y w h) = (handleImagePositionConfirm eng x y w h s, [])"
| "editor_step eng s ImageCancelled = (handleImagePositionCancel s, [])"
| "editor_step eng s AddTextClick = handleAddText s"
| "editor_step eng s (TextConfirmed t x y fs c ff) = (handleTextPositionConfirm eng t x y fs c ff s, [])"
| "editor_step eng s TextCancelled = (handleTextPositionCancel s, [])"
| "editor_step eng s (RemoveClick i) = (handleRemoveFile i s, [])"
| "editor_step eng s (SelectClick i) = (selectFile i s, [])"
| "editor_step eng s ExportClick = (s, handleExportPDF s)"
| "editor_step eng s (ResetClick a) = (handleResetEdits a s, [])"
| "editor_step eng s (PageChanged n) = (pageChange n s, [])"
| "editor_step eng s (Settle k) = resolve k s"

fun editor_run ::
  "('d, 'i) engine \<Rightarrow> ('d, 'i) editor \<Rightarrow> ('d, 'i) editor_event list \<Rightarrow> ('d, 'i) editor \<times> 'd effect list" where
  "editor_run eng s [] = (s, [])"
| "editor_run eng s (e # es) =
     (let (s', out) = editor_step eng s e; (s'', outs) = editor_run eng s' es in (s'', out @ outs))"

subsection \<open>The edit chain: specification\<close>

text \<open>
  An edit is what one confirmed dialog hands to the editor; \<open>apply_edit\<close> is the
  engine call the editor makes for it on page \<open>k\<close>. The spec's edit chain
  threads the working artifact through the edits in confirmation order: each
  successful call replaces it, a rejected one leaves it as it was.
\<close>

datatype 'i edit =
    ImageEdit 'i real real jsnum jsnum
  | TextEdit string real real int rgb string

fun apply_edit :: "('d, 'i) engine \<Rightarrow> int \<Rightarrow> 'd \<Rightarrow> 'i edit \<Rightarrow> 'd option" where
  "apply_edit eng k d (ImageEdit i x y w h) = addImageToPDF eng d i k x y w h"
| "apply_edit eng k d (TextEdit t x y fs c ff) = addTextToPDF eng d t k x y fs c ff"

fun edit_chain :: "('d, 'i) engine \<Rightarrow> int \<Rightarrow> 'd \<Rightarrow> 'i edit list \<Rightarrow> 'd" where
  "edit_chain eng k d [] = d"
| "edit_chain eng k d (e # es) =
     edit_chain eng k (case apply_edit eng k d e of Some d' \<Rightarrow> d' | None \<Rightarrow> d) es"

text \<open>
  The user's side of one edit, one at a time: open the dialog, confirm it, and
  let the engine's promise settle before anything else happens.
\<close>

fun edit_events :: "'i edit \<Rightarrow> ('d, 'i) editor_event list" where
  "edit_events (ImageEdit i x y w h) = [AddImageClick (Some i), ImageConfirmed x y w h, Settle 0]"
| "edit_events (TextEdit t x y fs c ff) = [AddTextClick, TextConfirmed t x y fs c ff, Settle 0]"

text \<open>
  The file list is well formed (spec: ActiveFileSet): file identities are
  distinct and below the next fresh one, and the selected file, if any, is a
  member of the list.
\<close>

definition editor_wf :: "('d, 'i) editor \<Rightarrow> bool" where
  "editor_wf s \<longleftrightarrow>
     distinct (map file_id (selectedFiles s)) \<and>
     list_all (\<lambda>f. file_id f < next_file_id s) (selectedFiles s) \<and>
     (case currentFile s of None \<Rightarrow> True | Some f \<Rightarrow> f \<in> set (selectedFiles s))"

subsection \<open>Sample documents\<close>

definition letter_page :: "'i page" where
  "letter_page = \<lparr>page_size = (612, 792), page_items = []\<rparr>"

definition hello :: rgb where
  "hello = RGB 0 0 0"

subsection \<open>Lemmas\<close>

lemma editor_run_append:
  "editor_run eng s (es @ fs) =
     (fst (editor_run eng (fst (editor_run eng s es)) fs),
      snd (editor_run eng s es) @ snd (editor_run eng (fst (editor_run eng s es)) fs))"
  by (induction es arbitrary: s) (auto simp: split_def Let_def)

lemma editor_run_Cons_fst [simp]:
  "fst (editor_run eng s (e # es)) = fst (editor_run eng (fst (editor_step eng s e)) es)"
  by (simp add: split_def Let_def)

lemma one_edit:
  assumes "currentFile s = Some f" and "pending s = []"
  shows "let s' = fst (editor_run eng s (edit_events e)) in
         sourceFile s' = Some (case apply_edit eng (currentPageIndex s) (the (sourceFile s)) e of
                                 Some d' \<Rightarrow> d' | None \<Rightarrow> the (sourceFile s)) \<and>
         currentFile s' = currentFile s \<and> pending s' = [] \<and>
         currentPageIndex s' = currentPageIndex s"
  using assms
  by (cases e)
     (auto simp: sourceFile_def handleAddImage_def handleImagePositionConfirm_def
        handleAddText_def handleTextPositionConfirm_def resolve_def remove_nth_conv
        split: option.splits)

lemma edit_run_state:
  assumes "currentFile s = Some f" and "pending s = []"
  shows "let s' = fst (editor_run eng s (concat (map edit_events es))) in
         sourceFile s' = Some (edit_chain eng (currentPageIndex s) (the (sourceFile s)) es) \<and>
         currentFile s' = currentFile s \<and> pending s' = [] \<and> currentPageIndex s' = currentPageIndex s"
  using assms
proof (induction es arbitrary: s)
  case Nil
  then show ?case by (simp add: sourceFile_def)
next
  case (Cons e es)
  let ?s' = "fst (editor_run eng s (edit_events e))"
  have step: "sourceFile ?s' = Some (case apply_edit eng (currentPageIndex s) (the (sourceFile s)) e of
                                 Some d' \<Rightarrow> d' | None \<Rightarrow> the (sourceFile s))"
     "currentFile ?s' = currentFile s" "pending ?s' = []" "currentPageIndex ?s' = currentPageIndex s"
    using one_edit [OF Cons.prems, of eng e] by (simp_all add: Let_def)
  have "let s'' = fst (editor_run eng ?s' (concat (map edit_events es))) in
         sourceFile s'' = Some (edit_chain eng (currentPageIndex ?s') (the (sourceFile ?s')) es) \<and>
         currentFile s'' = currentFile ?s' \<and> pending s'' = [] \<and> currentPageIndex s'' = currentPageIndex ?s'"
    using Cons.IH [of ?s'] step Cons.prems by simp
  then show ?case using step by (simp add: editor_run_append Let_def)
qed

lemma remove_nth_hd:
  assumes "Suc 0 < length xs"
  shows "remove_nth i xs = xs ! (if i = 0 then 1 else 0) # tl (remove_nth i xs)"
proof (cases xs)
  case Nil
  then show ?thesis using assms by simp
next
  case (Cons x ys)
  with assms obtain y zs where "ys = y # zs" by (cases ys) auto
  with Cons show ?thesis by (cases i) (simp_all add: remove_nth_conv)
qed

lemma remove_nth_single: "length xs = 1 \<Longrightarrow> i < 1 \<Longrightarrow> remove_nth i xs = []"
  by (simp add: remove_nth_conv)

lemma map_file_id_enumerate:
  "map file_id (map (\<lambda>(k, (n, b)). \<lparr>file_id = m + k, file_name = n, file_bytes = b\<rparr>) (enumerate j fs))
     = [m + j..<m + j + length fs]"
  by (induction fs arbitrary: j) (auto simp: upt_rec)

lemma in_set_remove_nth:
  assumes "x \<in> set xs" and "x \<noteq> xs ! i"
  shows "x \<in> set (remove_nth i xs)"
proof -
  obtain j where j: "j < length xs" "xs ! j = x" using assms(1) by (auto simp: in_set_conv_nth)
  with assms(2) have "j \<noteq> i" by auto
  show ?thesis
  proof (cases "j < i")
    case True
    with j have "x \<in> set (take i xs)" by (auto simp: in_set_conv_nth)
    then show ?thesis by (simp add: remove_nth_conv)
  next
    case False
    with \<open>j \<noteq> i\<close> have "Suc i \<le> j" by simp
    with j have "drop (Suc i) xs ! (j - Suc i) = x" and "j - Suc i < length (drop (Suc i) xs)"
      by auto
    then have "x \<in> set (drop (Suc i) xs)" by (metis nth_mem)
    then show ?thesis by (simp add: remove_nth_conv)
  qed
qed

lemma distinct_remove_nth: "distinct xs \<Longrightarrow> distinct (remove_nth i xs)"
  by (simp add: remove_nth_conv set_take_disj_set_drop_if_distinct)

lemma nth_notin_remove_nth:
  assumes "distinct xs" "i < length xs"
  shows "xs ! i \<notin> set (remove_nth i xs)"
proof -
  have "distinct (take i xs @ xs ! i # drop (Suc i) xs)" using assms id_take_nth_drop [of i xs] by simp
  then show ?thesis by (simp add: remove_nth_conv)
qed

lemma map_remove_nth: "map g (remove_nth i xs) = remove_nth i (map g xs)"
  by (simp add: remove_nth_conv take_map drop_map)

lemma remove_nth_beyond: "length xs \<le> i \<Longrightarrow> remove_nth i xs = xs"
  by (simp add: remove_nth_conv)

lemma settle_files:
  "selectedFiles (fst (settle p s)) = selectedFiles s \<and> currentFile (fst (settle p s)) = currentFile s \<and>
   next_file_id (fst (settle p s)) = next_file_id s"
  by (cases "(p, s)" rule: settle.cases) simp_all

lemma handleFilesSelected_wf:
  assumes "editor_wf s"
  shows "editor_wf (handleFilesSelected fs s)"
proof -
  let ?new = "map (\<lambda>(k, (n, b)). \<lparr>file_id = next_file_id s + k, file_name = n, file_bytes = b\<rparr>) (enumerate 0 fs)"
  have ids: "map file_id ?new = [next_file_id s..<next_file_id s + length fs]"
    using map_file_id_enumerate [of "next_file_id s" 0 fs] by simp
  have old: "distinct (map file_id (selectedFiles s))" "list_all (\<lambda>f. file_id f < next_file_id s) (selectedFiles s)"
    "case currentFile s of None \<Rightarrow> True | Some f \<Rightarrow> f \<in> set (selectedFiles s)"
    using assms by (simp_all add: editor_wf_def)
  have "distinct (map file_id (selectedFiles s @ ?new))"
    using old(1,2) ids by (auto simp: list_all_iff simp del: map_map)
  moreover have "list_all (\<lambda>f. file_id f < next_file_id s + length fs) (selectedFiles s @ ?new)"
  proof -
    have "\<forall>x\<in>set (map file_id ?new). x < next_file_id s + length fs"
      unfolding ids by simp
    then have "\<forall>f\<in>set ?new. file_id f < next_file_id s + length fs"
      by (simp del: map_map)
    with old(2) show ?thesis by (auto simp: list_all_iff)
  qed
  moreover have "?new \<noteq> [] \<Longrightarrow> hd ?new \<in> set (selectedFiles s @ ?new)"
    by (metis Un_iff hd_in_set set_append)
  ultimately show ?thesis using old(3)
    by (auto simp: editor_wf_def handleFilesSelected_def Let_def split: option.splits)
qed

lemma handleRemoveFile_wf:
  assumes "editor_wf s"
  shows "editor_wf (handleRemoveFile i s)"
proof -
  have d: "distinct (map file_id (selectedFiles s))" and
    b: "list_all (\<lambda>f. file_id f < next_file_id s) (selectedFiles s)" and
    c: "case currentFile s of None \<Rightarrow> True | Some f \<Rightarrow> f \<in> set (selectedFiles s)"
    using assms by (simp_all add: editor_wf_def)
  let ?nf = "remove_nth i (selectedFiles s)"
  have "distinct (map file_id ?nf)" using d by (simp add: map_remove_nth distinct_remove_nth)
  moreover have "list_all (\<lambda>f. file_id f < next_file_id s) ?nf"
    using b set_remove_nth by (fastforce simp: list_all_iff)
  moreover have "(case ?nf of [] \<Rightarrow> None | f # _ \<Rightarrow> Some f) = Some g \<Longrightarrow> g \<in> set ?nf" for g
    by (auto split: list.splits)
  moreover have "currentFile s = Some g \<Longrightarrow> g \<noteq> selectedFiles s ! i \<Longrightarrow> g \<in> set ?nf" for g
    using c by (simp add: in_set_remove_nth)
  moreover have "\<not> i < length (selectedFiles s) \<Longrightarrow> ?nf = selectedFiles s"
    by (simp add: remove_nth_beyond)
  ultimately show ?thesis using c
    by (auto simp: editor_wf_def handleRemoveFile_def Let_def split: option.splits)
qed

lemma editor_step_wf:
  assumes "editor_wf s"
  shows "editor_wf (fst (editor_step eng s e))"
proof (cases e)
  case (FilesDropped fs)
  then show ?thesis using assms by (simp add: handleFilesSelected_wf)
next
  case (RemoveClick i)
  then show ?thesis using assms by (simp add: handleRemoveFile_wf)
next
  case (Settle k)
  show ?thesis
  proof (cases "k < length (pending s)")
    case True
    let ?t = "s\<lparr>pending := remove_nth k (pending s)\<rparr>"
    have "selectedFiles (fst (settle (pending s ! k) ?t)) = selectedFiles s"
      "currentFile (fst (settle (pending s ! k) ?t)) = currentFile s"
      "next_file_id (fst (settle (pending s ! k) ?t)) = next_file_id s"
      using settle_files [of "pending s ! k" ?t] by simp_all
    then show ?thesis using assms Settle True
      by (simp add: resolve_def editor_wf_def split: option.splits)
  next
    case False
    then show ?thesis using assms Settle by (simp add: resolve_def)
  qed
qed (use assms in \<open>auto simp: editor_wf_def handleMergePDFs_def handleAddImage_def
       handleImagePositionConfirm_def handleImagePositionCancel_def handleAddText_def
       handleTextPositionConfirm_def handleTextPositionCancel_def selectFile_def
       handleResetEdits_def pageChange_def split: option.splits\<close>)

lemma settle_pending: "pending (fst (settle p s)) = pending s"
  by (induction p s rule: settle.induct) simp_all

lemmas editor_handler_defs =
  handleFilesSelected_def handleMergePDFs_def handleAddImage_def handleImagePositionConfirm_def
  handleImagePositionCancel_def handleAddText_def handleTextPositionConfirm_def
  handleTextPositionCancel_def handleRemoveFile_def handleExportPDF_def handleResetEdits_def
  selectFile_def pageChange_def resolve_def sourceFile_def previewFile_def

lemma editor_run_wf: "editor_wf s \<Longrightarrow> editor_wf (fst (editor_run eng s es))"
  by (induction es arbitrary: s) (simp_all add: editor_step_wf split_def Let_def)

lemma editor_wf_init: "editor_wf editor_init"
  by (simp add: editor_wf_def editor_init_def)

subsection \<open>Properties\<close>

text \<open>
  C2: The edit chain is linear (spec 4.3, refinement). From a state with a file
  selected and no engine call in flight, any sequence of edits performed one at
  a time leaves as the current artifact exactly the spec's chain: each engine
  call receives the previous result, in confirmation order, and a rejected call
  leaves the artifact unchanged.
\<close>

theorem edit_chain_refinement:
  assumes "currentFile s = Some f" and "pending s = []"
  shows "sourceFile (fst (editor_run eng s (concat (map edit_events es)))) =
           Some (edit_chain eng (currentPageIndex s) (the (sourceFile s)) es)"
  using edit_run_state [OF assms, of eng es] by (simp add: Let_def)

text \<open>
  C3: Reset returns to the source (spec 8, chain linearity): after any sequence
  of edits, resetting and confirming the dialog leaves the preview showing the
  selected file's original bytes.
\<close>

theorem reset_restores_source:
  assumes "currentFile s = Some f" and "pending s = []"
  shows "previewFile (fst (editor_run eng s (concat (map edit_events es) @ [ResetClick True]))) =
           Some (file_bytes f)"
proof -
  let ?s' = "fst (editor_run eng s (concat (map edit_events es)))"
  have "currentFile ?s' = Some f"
    using edit_run_state [OF assms, of eng es] assms by (simp add: Let_def)
  then show ?thesis
    by (simp add: editor_run_append handleResetEdits_def previewFile_def)
qed

text \<open>
  C8: Merge (spec 4.3, 7): with fewer than two files the click only alerts and
  nothing is produced; otherwise the engine merges the files in list order and,
  when the promise settles, the result is downloaded as \<open>merged.pdf\<close> or a
  failure is alerted. In every case the editor's state, the edit chain
  included, is left exactly as it was.
\<close>

theorem merge_click:
  "editor_run eng s [MergeClick, Settle (length (pending s))] =
     (if length (selectedFiles s) < 2 then (s, [Alert NeedTwoFiles])
      else (s, case mergePDFs eng (map file_bytes (selectedFiles s)) of
                 Some d \<Rightarrow> [Download d ''merged.pdf'', Alert MergeDone]
               | None \<Rightarrow> [Alert MergeFailed]))"
  by (auto simp: handleMergePDFs_def resolve_def remove_nth_conv split: option.splits)

text \<open>
  C7: Selecting another file keeps the edits of the previous one: clicking file
  \<open>i\<close> makes it current but leaves \<open>editedPdfBytes\<close>, so the preview shows, and
  the next edit is applied to, the old file's edited bytes.
\<close>

theorem select_keeps_edits:
  assumes "editedPdfBytes s = Some b" and "i < length (selectedFiles s)"
  shows "currentFile (selectFile i s) = Some (selectedFiles s ! i) \<and>
         sourceFile (selectFile i s) = Some b \<and> previewFile (selectFile i s) = Some b"
  using assms by (simp add: selectFile_def sourceFile_def previewFile_def)

text \<open>
  C17: Removing the selected file (spec 4.4) selects the first remaining file in
  the original order, or none when the list becomes empty, and discards the
  working artifact; the other files keep their order.
\<close>

theorem remove_selected_file:
  assumes "i < length (selectedFiles s)" and "currentFile s = Some (selectedFiles s ! i)"
  shows "currentFile (handleRemoveFile i s) =
           (if length (selectedFiles s) = 1 then None
            else Some (selectedFiles s ! (if i = 0 then 1 else 0))) \<and>
         editedPdfBytes (handleRemoveFile i s) = None \<and>
         selectedFiles (handleRemoveFile i s) = take i (selectedFiles s) @ drop (Suc i) (selectedFiles s)"
proof (cases "length (selectedFiles s) = 1")
  case True
  then show ?thesis using assms
    by (simp add: handleRemoveFile_def Let_def remove_nth_single remove_nth_conv [of i])
next
  case False
  with assms(1) have "Suc 0 < length (selectedFiles s)" by simp
  then have "remove_nth i (selectedFiles s) =
      selectedFiles s ! (if i = 0 then 1 else 0) # tl (remove_nth i (selectedFiles s))"
    by (rule remove_nth_hd)
  then have hd: "(case remove_nth i (selectedFiles s) of [] \<Rightarrow> None | f # _ \<Rightarrow> Some f) =
      Some (selectedFiles s ! (if i = 0 then 1 else 0))"
    by (subst (asm) eq_commute) (metis list.simps(5))
  show ?thesis using assms False
    unfolding handleRemoveFile_def Let_def by (simp only: hd) (simp add: remove_nth_conv)
qed

text \<open>
  C18: The file set stays well formed (spec 3): in every state the editor
  reaches, file identities are distinct and the selected file is a member of
  the list or there is none.
\<close>

theorem files_wf_reachable: "editor_wf (fst (editor_run eng editor_init es))"
  using editor_wf_init by (rule editor_run_wf)

text \<open>
  Scenario C: after a first text placement has been applied, the engine call
  of a second placement receives the first one's output, not the original
  document.
\<close>

theorem scenario_C_second_edit_on_first:
  "pending (fst (editor_run (page_engine :: (unit pdf, unit) engine) editor_init
     [FilesDropped [(''a.pdf'', [\<lparr>page_size = (612, 792), page_items = []\<rparr>])],
      AddTextClick, TextConfirmed ''Hello'' 50 50 24 (RGB 0 0 0) ''NotoSansJP-Regular.ttf'', Settle 0,
      AddTextClick, TextConfirmed ''World'' 80 50 24 (RGB 0 0 0) ''NotoSansJP-Regular.ttf''])) =
   [PendingText (Some [\<lparr>page_size = (612, 792), page_items =
      [OText ''Hello'' 50 50 24 (RGB 0 0 0) ''NotoSansJP-Regular.ttf'',
       OText ''World'' 80 50 24 (RGB 0 0 0) ''NotoSansJP-Regular.ttf'']\<rparr>])]"
  by (simp add: editor_init_def editor_handler_defs page_engine_def draw_on_page_def remove_nth_conv)

text \<open>
  C4: Confirming the text dialog twice before the engine answers drops an edit
  (spec 4.3 and 5: the chain never drops an edit, mutating triggers are
  disabled while a call is in flight). For any engine and any state with a
  source document and nothing in flight, two confirmations followed by the two
  settlements call the engine twice on the same source document, and the
  working artifact ends as the second call's result on that source: the first
  placement is not in it.
\<close>

theorem double_confirm_drops_edit:
  assumes src: "sourceFile s = Some src" and pe: "pending s = []"
    and r2: "addTextToPDF eng src t2 (currentPageIndex s) x2 y2 fs2 c2 ff2 = Some b2"
  shows "pending (fst (editor_run eng s [TextConfirmed t1 x1 y1 fs1 c1 ff1, TextConfirmed t2 x2 y2 fs2 c2 ff2])) =
           [PendingText (addTextToPDF eng src t1 (currentPageIndex s) x1 y1 fs1 c1 ff1),
            PendingText (Some b2)] \<and>
         editedPdfBytes (fst (editor_run eng s [TextConfirmed t1 x1 y1 fs1 c1 ff1,
           TextConfirmed t2 x2 y2 fs2 c2 ff2, Settle 0, Settle 0])) = Some b2"
proof -
  have src': "sourceFile (s\<lparr>pending := ps\<rparr>) = Some src" for ps
    using src by (simp add: sourceFile_def split: option.splits)
  show ?thesis
    using src src' [of "[PendingText (addTextToPDF eng src t1 (currentPageIndex s) x1 y1 fs1 c1 ff1)]"] pe r2
    by (cases "addTextToPDF eng src t1 (currentPageIndex s) x1 y1 fs1 c1 ff1")
       (simp_all add: handleTextPositionConfirm_def resolve_def remove_nth_conv)
qed

text \<open>
  Scenario A: merging a two-page document A with a one-page document B
  downloads the pages in the order A1, A2, B1.
\<close>

theorem scenario_A_merge_order:
  "snd (editor_run (page_engine :: (unit pdf, unit) engine) editor_init
     [FilesDropped [(''A.pdf'', [\<lparr>page_size = (1, 1), page_items = []\<rparr>, \<lparr>page_size = (2, 2), page_items = []\<rparr>]),
                    (''B.pdf'', [\<lparr>page_size = (3, 3), page_items = []\<rparr>])],
      MergeClick, Settle 0]) =
   [Download [\<lparr>page_size = (1, 1), page_items = []\<rparr>, \<lparr>page_size = (2, 2), page_items = []\<rparr>,
              \<lparr>page_size = (3, 3), page_items = []\<rparr>] ''merged.pdf'', Alert MergeDone]"
  by (simp add: editor_init_def editor_handler_defs page_engine_def remove_nth_conv)

text \<open>
  C13: The preview and the edit agree (equivalence of two code paths): the
  \<open>previewFile\<close> the main page shows and hands to both dialogs as \<open>pdfFile\<close>
  (lines 171-173) is, in every state, the document that the confirm handlers
  pass to the engine (\<open>sourceFile\<close>, lines 65-67 and 115-117).
\<close>

theorem preview_is_source: "previewFile s = sourceFile s"
  by (simp add: previewFile_def sourceFile_def split: option.splits)

subsection \<open>Witnesses\<close>

theorem edit_chain_refinement_witness:
  "currentFile (handleFilesSelected [(''a.pdf'', [letter_page])] editor_init :: (unit pdf, unit) editor) =
     Some \<lparr>file_id = 0, file_name = ''a.pdf'', file_bytes = [letter_page]\<rparr> \<and>
   pending (handleFilesSelected [(''a.pdf'', [letter_page])] editor_init :: (unit pdf, unit) editor) = [] \<and>
   sourceFile (fst (editor_run page_engine (handleFilesSelected [(''a.pdf'', [letter_page])] editor_init)
       (concat (map edit_events [TextEdit ''Hello'' 50 50 24 hello ''NotoSansJP-Regular.ttf''])))) =
     Some (edit_chain page_engine
       (currentPageIndex (handleFilesSelected [(''a.pdf'', [letter_page])] editor_init :: (unit pdf, unit) editor))
       (the (sourceFile (handleFilesSelected [(''a.pdf'', [letter_page])] editor_init :: (unit pdf, unit) editor)))
       [TextEdit ''Hello'' 50 50 24 hello ''NotoSansJP-Regular.ttf''])"
proof -
  have h1: "currentFile (handleFilesSelected [(''a.pdf'', [letter_page])] editor_init :: (unit pdf, unit) editor) =
     Some \<lparr>file_id = 0, file_name = ''a.pdf'', file_bytes = [letter_page]\<rparr>"
    and h2: "pending (handleFilesSelected [(''a.pdf'', [letter_page])] editor_init :: (unit pdf, unit) editor) = []"
    by (simp_all add: handleFilesSelected_def editor_init_def)
  show ?thesis by (intro conjI h1 h2 edit_chain_refinement [OF h1 h2])
qed

theorem reset_restores_source_witness:
  "currentFile (handleFilesSelected [(''a.pdf'', [letter_page])] editor_init :: (unit pdf, unit) editor) =
     Some \<lparr>file_id = 0, file_name = ''a.pdf'', file_bytes = [letter_page]\<rparr> \<and>
   pending (handleFilesSelected [(''a.pdf'', [letter_page])] editor_init :: (unit pdf, unit) editor) = [] \<and>
   previewFile (fst (editor_run page_engine (handleFilesSelected [(''a.pdf'', [letter_page])] editor_init)
       (concat (map edit_events [TextEdit ''Hello'' 50 50 24 hello ''NotoSansJP-Regular.ttf'',
                                 ImageEdit () 10 10 (Num 100) (Num 100)]) @ [ResetClick True]))) =
     Some [letter_page]"
proof -
  have h1: "currentFile (handleFilesSelected [(''a.pdf'', [letter_page])] editor_init :: (unit pdf, unit) editor) =
     Some \<lparr>file_id = 0, file_name = ''a.pdf'', file_bytes = [letter_page]\<rparr>"
    and h2: "pending (handleFilesSelected [(''a.pdf'', [letter_page])] editor_init :: (unit pdf, unit) editor) = []"
    by (simp_all add: handleFilesSelected_def editor_init_def)
  note eq = reset_restores_source [OF h1 h2, of page_engine
      "[TextEdit ''Hello'' 50 50 24 hello ''NotoSansJP-Regular.ttf'', ImageEdit () 10 10 (Num 100) (Num 100)]"]
  show ?thesis by (intro conjI h1 h2) (simp only: eq pdf_file.select_convs)
qed

theorem select_keeps_edits_witness:
  "editedPdfBytes ((handleFilesSelected [(''a.pdf'', [letter_page]), (''b.pdf'', [])] editor_init)
        \<lparr>editedPdfBytes := Some [letter_page, letter_page]\<rparr> :: (unit pdf, unit) editor) = Some [letter_page, letter_page] \<and>
   1 < length (selectedFiles (handleFilesSelected [(''a.pdf'', [letter_page]), (''b.pdf'', [])] editor_init
        :: (unit pdf, unit) editor)) \<and>
   currentFile (selectFile 1 ((handleFilesSelected [(''a.pdf'', [letter_page]), (''b.pdf'', [])] editor_init)
        \<lparr>editedPdfBytes := Some [letter_page, letter_page]\<rparr>)) =
     Some \<lparr>file_id = 1, file_name = ''b.pdf'', file_bytes = []\<rparr> \<and>
   sourceFile (selectFile 1 ((handleFilesSelected [(''a.pdf'', [letter_page]), (''b.pdf'', [])] editor_init)
        \<lparr>editedPdfBytes := Some [letter_page, letter_page]\<rparr> :: (unit pdf, unit) editor)) = Some [letter_page, letter_page]"
proof -
  let ?s = "(handleFilesSelected [(''a.pdf'', [letter_page]), (''b.pdf'', [])] editor_init)
        \<lparr>editedPdfBytes := Some [letter_page, letter_page]\<rparr> :: (unit pdf, unit) editor"
  have h1: "editedPdfBytes ?s = Some [letter_page, letter_page]" by simp
  have h2: "1 < length (selectedFiles ?s)" by (simp add: handleFilesSelected_def editor_init_def)
  show ?thesis using h1 h2 select_keeps_edits [OF h1 h2]
    by (simp add: handleFilesSelected_def editor_init_def selectFile_def)
qed

theorem remove_selected_file_witness:
  "0 < length (selectedFiles (handleFilesSelected [(''a.pdf'', [letter_page]), (''b.pdf'', [])] editor_init
        :: (unit pdf, unit) editor)) \<and>
   currentFile (handleFilesSelected [(''a.pdf'', [letter_page]), (''b.pdf'', [])] editor_init :: (unit pdf, unit) editor) =
     Some (selectedFiles (handleFilesSelected [(''a.pdf'', [letter_page]), (''b.pdf'', [])] editor_init) ! 0) \<and>
   currentFile (handleRemoveFile 0 (handleFilesSelected [(''a.pdf'', [letter_page]), (''b.pdf'', [])] editor_init
        :: (unit pdf, unit) editor)) = Some \<lparr>file_id = 1, file_name = ''b.pdf'', file_bytes = []\<rparr> \<and>
   editedPdfBytes (handleRemoveFile 0 (handleFilesSelected [(''a.pdf'', [letter_page]), (''b.pdf'', [])] editor_init
        :: (unit pdf, unit) editor)) = None"
proof -
  let ?s = "handleFilesSelected [(''a.pdf'', [letter_page]), (''b.pdf'', [])] editor_init :: (unit pdf, unit) editor"
  have h1: "0 < length (selectedFiles ?s)" by (simp add: handleFilesSelected_def editor_init_def)
  have h2: "currentFile ?s = Some (selectedFiles ?s ! 0)" by (simp add: handleFilesSelected_def editor_init_def)
  show ?thesis using h1 h2 remove_selected_file [OF h1 h2]
    by (simp add: handleFilesSelected_def editor_init_def)
qed

theorem files_wf_reachable_witness:
  "editor_wf (fst (editor_run (page_engine :: (unit pdf, unit) engine) editor_init
     [FilesDropped [(''a.pdf'', [letter_page]), (''b.pdf'', [])], RemoveClick 0, SelectClick 0]))"
  using files_wf_reachable [of "page_engine :: (unit pdf, unit) engine"
      "[FilesDropped [(''a.pdf'', [letter_page]), (''b.pdf'', [])], RemoveClick 0, SelectClick 0]"]
  by simp

theorem double_confirm_drops_edit_witness:
  "sourceFile (handleFilesSelected [(''a.pdf'', [letter_page])] editor_init :: (unit pdf, unit) editor) =
     Some [letter_page] \<and>
   pending (handleFilesSelected [(''a.pdf'', [letter_page])] editor_init :: (unit pdf, unit) editor) = [] \<and>
   addTextToPDF page_engine [letter_page] ''World'' 0 80 50 24 (RGB 0 0 0) ''NotoSansJP-Regular.ttf'' =
     Some [letter_page\<lparr>page_items := [OText ''World'' 80 50 24 (RGB 0 0 0) ''NotoSansJP-Regular.ttf'']\<rparr>] \<and>
   editedPdfBytes (fst (editor_run page_engine
       (handleFilesSelected [(''a.pdf'', [letter_page])] editor_init :: (unit pdf, unit) editor)
       [TextConfirmed ''Hello'' 50 50 24 (RGB 0 0 0) ''NotoSansJP-Regular.ttf'',
        TextConfirmed ''World'' 80 50 24 (RGB 0 0 0) ''NotoSansJP-Regular.ttf'', Settle 0, Settle 0])) =
     Some [letter_page\<lparr>page_items := [OText ''World'' 80 50 24 (RGB 0 0 0) ''NotoSansJP-Regular.ttf'']\<rparr>]"
proof -
  have h1: "sourceFile (handleFilesSelected [(''a.pdf'', [letter_page])] editor_init :: (unit pdf, unit) editor) =
              Some [letter_page]"
    by (simp add: handleFilesSelected_def editor_init_def sourceFile_def)
  have h2: "pending (handleFilesSelected [(''a.pdf'', [letter_page])] editor_init :: (unit pdf, unit) editor) = []"
    by (simp add: handleFilesSelected_def editor_init_def Let_def)
  have h3: "addTextToPDF page_engine [letter_page] ''World''
              (currentPageIndex (handleFilesSelected [(''a.pdf'', [letter_page])] editor_init :: (unit pdf, unit) editor))
              80 50 24 (RGB 0 0 0) ''NotoSansJP-Regular.ttf'' =
            Some [letter_page\<lparr>page_items := [OText ''World'' 80 50 24 (RGB 0 0 0) ''NotoSansJP-Regular.ttf'']\<rparr>]"
    by (simp add: handleFilesSelected_def editor_init_def Let_def page_engine_def draw_on_page_def letter_page_def)
  have "currentPageIndex (handleFilesSelected [(''a.pdf'', [letter_page])] editor_init :: (unit pdf, unit) editor) = 0"
    by (simp add: handleFilesSelected_def editor_init_def Let_def)
  then show ?thesis
    using h1 h2 h3 double_confirm_drops_edit [OF h1 h2 h3, of "''Hello''" 50 50 24 "RGB 0 0 0" "''NotoSansJP-Regular.ttf''"]
    by simp
qed

end
