(* ===== verification/Uploader.thy ===== *)
theory Uploader
  imports Js_Runtime "HOL-Library.Sublist"
begin

text \<open>
  The drop zone, \<open>src/src/components/FileUploader.tsx\<close>. The component
  configures \<open>useDropzone\<close> with \<open>accept = {'application/pdf': ['.pdf']}\<close>,
  \<open>multiple = true\<close> and \<open>onDrop = onFilesSelected\<close>: the library splits a drop
  into accepted and rejected files and calls \<open>onDrop\<close> with the accepted ones,
  in drop order. The library's filter (\<open>attr-accept\<close>) is part of the runtime
  here, like \<open>parseInt\<close>: an entry starting with a dot is a file-name extension
  compared case-insensitively, an entry ending in \<open>/*\<close> matches the base MIME
  type, any other entry must equal the file's lower-cased MIME type. The
  entries of this program contain no white space, so \<open>trim\<close> is the identity;
  there is no size limit (\<open>minSize 0\<close>, \<open>maxSize Infinity\<close>) and no
  \<open>maxFiles\<close>.
\<close>

subsection \<open>Dropped files\<close>

text \<open>A \<open>File\<close> as the browser delivers it: name, MIME type (possibly empty), contents.\<close>

record 'd upload =
  upload_name :: string
  upload_type :: string
  upload_bytes :: 'd

subsection \<open>The library's filter\<close>

text \<open>
  \<open>acceptPropAsAcceptAttr\<close>: the \<open>accept\<close> object flattened into one list,
  each MIME type followed by its extensions.
\<close>

definition accept_entries :: "(string \<times> string list) list \<Rightarrow> string list" where
  "accept_entries acc = concat (map (\<lambda>(m, exts). m # exts) acc)"

definition base_mime :: "string \<Rightarrow> string" where
  "base_mime t = takeWhile (\<lambda>c. c \<noteq> CHR ''/'') t"

text \<open>\<open>attr-accept\<close> for one entry \<open>vt\<close> of the list.\<close>

definition accepts_entry :: "string \<Rightarrow> 'd upload \<Rightarrow> bool" where
  "accepts_entry vt f =
     (let v = map ascii_lower vt; mime = map ascii_lower (upload_type f)
      in if v \<noteq> [] \<and> hd v = CHR ''.'' then suffix v (map ascii_lower (upload_name f))
         else if suffix ''/*'' v then base_mime mime = base_mime v
         else mime = v)"

definition file_accepted :: "(string \<times> string list) list \<Rightarrow> 'd upload \<Rightarrow> bool" where
  "file_accepted acc f \<longleftrightarrow> list_ex (\<lambda>vt. accepts_entry vt f) (accept_entries acc)"

text \<open>
  The accepted files of a drop; with \<open>multiple = false\<close> more than one accepted
  file makes the whole drop rejected.
\<close>

definition dropzone_accepted ::
  "bool \<Rightarrow> (string \<times> string list) list \<Rightarrow> 'd upload list \<Rightarrow> 'd upload list" where
  "dropzone_accepted multiple acc fs =
     (let ok = filter (file_accepted acc) fs in if \<not> multiple \<and> 1 < length ok then [] else ok)"

subsection \<open>The component\<close>

text \<open>The default props of \<open>FileUploader\<close>, which \<open>PDFEditor\<close> does not override.\<close>

definition uploader_accept :: "(string \<times> string list) list" where
  "uploader_accept = [(''application/pdf'', [''.pdf''])]"

definition uploader_multiple :: bool where
  "uploader_multiple = True"

text \<open>
  \<open>onDrop: onFilesSelected\<close>: what the editor's \<open>handleFilesSelected\<close> receives
  for a drop, as \<open>(name, contents)\<close> pairs.
\<close>

definition fileUploader_onDrop :: "'d upload list \<Rightarrow> (string \<times> 'd) list" where
  "fileUploader_onDrop fs =
     map (\<lambda>f. (upload_name f, upload_bytes f)) (dropzone_accepted uploader_multiple uploader_accept fs)"

subsection \<open>Lemmas\<close>

text \<open>With the program's props a file is accepted by its extension or its MIME type.\<close>

lemma pdf_accepted_iff:
  "file_accepted uploader_accept f \<longleftrightarrow>
     suffix ''.pdf'' (map ascii_lower (upload_name f)) \<or>
     map ascii_lower (upload_type f) = ''application/pdf''"
proof -
  have "map ascii_lower ''.pdf'' = ''.pdf''" "map ascii_lower ''application/pdf'' = ''application/pdf''"
    by (simp_all add: ascii_lower_def)
  moreover have "\<not> suffix ''/*'' ''application/pdf''" by (simp add: suffix_def)
  ultimately show ?thesis
    by (auto simp: file_accepted_def accept_entries_def uploader_accept_def accepts_entry_def Let_def)
qed

lemma accepted_filter:
  "filter (file_accepted uploader_accept) fs =
     filter (\<lambda>f. suffix ''.pdf'' (map ascii_lower (upload_name f)) \<or>
                  map ascii_lower (upload_type f) = ''application/pdf'') fs"
  by (rule filter_cong) (simp_all add: pdf_accepted_iff)

lemma fileUploader_onDrop_eq:
  "fileUploader_onDrop fs =
     map (\<lambda>f. (upload_name f, upload_bytes f)) (filter (file_accepted uploader_accept) fs)"
  by (simp add: fileUploader_onDrop_def dropzone_accepted_def uploader_multiple_def)

end
