(* ===== verification/System.thy ===== *)
theory System
  imports ImageSession TextSession Editor Uploader
begin

text \<open>
  The whole application: \<open>PDFEditor\<close> with the two dialogs it mounts
  (\<open>src/src/components/PDFEditor.tsx\<close>, lines 268-285). A dialog is mounted
  while its JSX condition holds and keeps its React state while it stays
  mounted; when the condition becomes false it is unmounted and its draft is
  lost, and the next mount starts from the initial state. A mounted dialog is a
  full-screen overlay (\<open>position: fixed\<close>, \<open>zIndex 1000\<close>), so the controls
  of the main page cannot be reached while it is shown; the promises in flight
  still settle. The dialogs' \<open>onConfirm\<close> and \<open>onCancel\<close> are the editor's
  handlers: an outcome of a dialog step is an editor event.
\<close>

subsection \<open>State and mounting\<close>

record ('d, 'i) app =
  ed :: "('d, 'i) editor"
  imageDialog :: "image_session option"
  textDialog :: "text_session option"

definition app_init :: "('d, 'i) app" where
  "app_init = \<lparr>ed = editor_init, imageDialog = None, textDialog = None\<rparr>"

text \<open>
  \<open>{showImagePositioner && previewFile && selectedImage && <ImagePositioner/>}\<close>
  and \<open>{showTextPositioner && previewFile && <TextPositioner/>}\<close>.
\<close>

definition image_mounted :: "('d, 'i) editor \<Rightarrow> bool" where
  "image_mounted s \<longleftrightarrow> showImagePositioner s \<and> previewFile s \<noteq> None \<and> selectedImage s \<noteq> None"

definition text_mounted :: "('d, 'i) editor \<Rightarrow> bool" where
  "text_mounted s \<longleftrightarrow> showTextPositioner s \<and> previewFile s \<noteq> None"

text \<open>
  React's reconciliation after the editor's state has changed: a dialog whose
  condition holds keeps its state, or is mounted with the initial state; one
  whose condition fails is unmounted.
\<close>

definition remount :: "bool \<Rightarrow> 's \<Rightarrow> 's option \<Rightarrow> 's option" where
  "remount c init d = (if c then Some (case d of Some x \<Rightarrow> x | None \<Rightarrow> init) else None)"

definition reconcile :: "('d, 'i) editor \<Rightarrow> ('d, 'i) app \<Rightarrow> ('d, 'i) app" where
  "reconcile s a =
     \<lparr>ed = s,
      imageDialog = remount (image_mounted s) image_session_init (imageDialog a),
      textDialog = remount (text_mounted s) text_session_init (textDialog a)\<rparr>"

definition dialog_open :: "('d, 'i) app \<Rightarrow> bool" where
  "dialog_open a \<longleftrightarrow> imageDialog a \<noteq> None \<or> textDialog a \<noteq> None"

subsection \<open>Events\<close>

text \<open>
  The user's events on the main page (everything but a promise settling) are
  blocked by a mounted dialog's overlay.
\<close>

fun main_page_event :: "('d, 'i) editor_event \<Rightarrow> bool" where
  "main_page_event (Settle _) = False"
| "main_page_event _ = True"

text \<open>
  The controls the main page renders and enables (lines 183-251). A file item,
  with its click and its remove button, exists only for a file of the list
  (\<open>selectedFiles.map\<close>); Merge is \<open>disabled={selectedFiles.length < 2}\<close>,
  Add image and Add text \<open>disabled={!currentFile}\<close>, Export and Reset
  \<open>disabled={!editedPdfBytes}\<close>; a disabled button delivers no click. The
  viewer's page change is always available. Files reach the editor only through
  \<open>FileUploader\<close> (\<open>Drop\<close>), confirmations and cancellations only through
  a dialog's callbacks, so as main-page events they do not exist.
\<close>

fun main_page_control :: "('d, 'i) editor \<Rightarrow> ('d, 'i) editor_event \<Rightarrow> bool" where
  "main_page_control s MergeClick = (2 \<le> length (selectedFiles s))"
| "main_page_control s (AddImageClick _) = (currentFile s \<noteq> None)"
| "main_page_control s AddTextClick = (currentFile s \<noteq> None)"
| "main_page_control s ExportClick = (editedPdfBytes s \<noteq> None)"
| "main_page_control s (ResetClick _) = (editedPdfBytes s \<noteq> None)"
| "main_page_control s (RemoveClick i) = (i < length (selectedFiles s))"
| "main_page_control s (SelectClick i) = (i < length (selectedFiles s))"
| "main_page_control s (PageChanged _) = True"
| "main_page_control s _ = False"

text \<open>\<open>onConfirm={handleImagePositionConfirm}\<close>, \<open>onCancel={handleImagePositionCancel}\<close>.\<close>

fun image_callback :: "outcome \<Rightarrow> ('d, 'i) editor_event option" where
  "image_callback (Confirmed (ImagePlacement x y w h)) = Some (ImageConfirmed x y w h)"
| "image_callback (Confirmed (TextPlacement _ _ _ _ _ _)) = None"
| "image_callback Cancelled = Some ImageCancelled"

fun text_callback :: "outcome \<Rightarrow> ('d, 'i) editor_event option" where
  "text_callback (Confirmed (TextPlacement t x y fs c ff)) = Some (TextConfirmed t x y fs c ff)"
| "text_callback (Confirmed (ImagePlacement _ _ _ _)) = None"
| "text_callback Cancelled = Some TextCancelled"

text \<open>
  \<open>Drop fs\<close> is a drop on (or a choice through) \<open>FileUploader\<close>'s zone, which
  sits on the main page: it reaches \<open>handleFilesSelected\<close> with the files the
  drop zone accepts.
\<close>

text \<open>
  The resumptions of a dialog's effects: \<open>loadAndRenderPDF\<close> (the page's
  viewport, then the rendered canvas) and, in the image dialog, the image's
  \<open>img.onload\<close>. They are not events the user makes in the dialog: the
  renderer delivers them (\<open>PdfLoaded\<close>, \<open>PdfRendered\<close>, \<open>ImageLoaded\<close>),
  for the dialog's props \<open>pdfFile={previewFile}\<close>,
  \<open>pageIndex={currentPageIndex}\<close> and \<open>imageFile={selectedImage}\<close> (lines
  268-284). A rejected promise, a missing canvas context or an image that does
  not load delivers nothing: the dialog stays in its loading state.
\<close>

fun image_resumption :: "image_event \<Rightarrow> bool" where
  "image_resumption (ImageDecoded _ _) = True"
| "image_resumption (PageLoaded _ _) = True"
| "image_resumption (PageRendered _) = True"
| "image_resumption _ = False"

fun text_resumption :: "text_event \<Rightarrow> bool" where
  "text_resumption (TPageLoaded _ _) = True"
| "text_resumption (TPageRendered _) = True"
| "text_resumption _ = False"

datatype ('d, 'i) app_event =
    Main "('d, 'i) editor_event"
  | Drop "'d upload list"
  | InImage image_event
  | InText text_event
  | PdfLoaded
  | PdfRendered
  | ImageLoaded

text \<open>An editor event and the reconciliation that follows it.\<close>

definition editor_then_reconcile ::
  "('d, 'i) engine \<Rightarrow> ('d, 'i) editor_event \<Rightarrow> ('d, 'i) app \<Rightarrow> ('d, 'i) app \<times> 'd effect list" where
  "editor_then_reconcile eng e a =
     (let (s', fx) = editor_step eng (ed a) e in (reconcile s' a, fx))"

fun app_step :: "('d, 'i) engine \<Rightarrow> ('d, 'i) app \<Rightarrow> ('d, 'i) app_event \<Rightarrow> ('d, 'i) app \<times> 'd effect list" where
  "app_step eng a (Main e) =
     (if main_page_event e
      then (if dialog_open a then (a, [])
            else if main_page_control (ed a) e then editor_then_reconcile eng e a
            else (a, []))
      else editor_then_reconcile eng e a)"
| "app_step eng a (Drop fs) =
     (if dialog_open a then (a, []) else editor_then_reconcile eng (FilesDropped (fileUploader_onDrop fs)) a)"
| "app_step eng a (InImage e) =
     (if image_resumption e then (a, []) else
     case imageDialog a of
        None \<Rightarrow> (a, [])
      | Some d \<Rightarrow>
          (let (d', out) = image_step d e; a' = a\<lparr>imageDialog := Some d'\<rparr>
           in case out of
                None \<Rightarrow> (a', [])
              | Some oc \<Rightarrow>
                  (case image_callback oc of
                     None \<Rightarrow> (a', [])
                   | Some ev \<Rightarrow> editor_then_reconcile eng ev a')))"
| "app_step eng a (InText e) =
     (if text_resumption e then (a, []) else
     case textDialog a of
        None \<Rightarrow> (a, [])
      | Some d \<Rightarrow>
          (let (d', out) = text_step d e; a' = a\<lparr>textDialog := Some d'\<rparr>
           in case out of
                None \<Rightarrow> (a', [])
              | Some oc \<Rightarrow>
                  (case text_callback oc of
                     None \<Rightarrow> (a', [])
                   | Some ev \<Rightarrow> editor_then_reconcile eng ev a')))"
| "app_step eng a PdfLoaded =
     (case previewFile (ed a) of
        None \<Rightarrow> (a, [])
      | Some d \<Rightarrow>
          (case getPageSize eng d (currentPageIndex (ed a)) of
             None \<Rightarrow> (a, [])
           | Some (w, h) \<Rightarrow>
               (a\<lparr>imageDialog := map_option (\<lambda>s. fst (image_step s (PageLoaded w h))) (imageDialog a),
                  textDialog := map_option (\<lambda>s. fst (text_step s (TPageLoaded w h))) (textDialog a)\<rparr>, [])))"
| "app_step eng a PdfRendered =
     (case previewFile (ed a) of
        None \<Rightarrow> (a, [])
      | Some d \<Rightarrow>
          (case renderPage eng d (currentPageIndex (ed a)) of
             None \<Rightarrow> (a, [])
           | Some url \<Rightarrow>
               (a\<lparr>imageDialog := map_option (\<lambda>s. fst (image_step s (PageRendered url))) (imageDialog a),
                  textDialog := map_option (\<lambda>s. fst (text_step s (TPageRendered url))) (textDialog a)\<rparr>, [])))"
| "app_step eng a ImageLoaded =
     (case (imageDialog a, selectedImage (ed a)) of
        (Some s, Some i) \<Rightarrow>
          (case decodeImage eng i of
             None \<Rightarrow> (a, [])
           | Some (w, h) \<Rightarrow> (a\<lparr>imageDialog := Some (fst (image_step s (ImageDecoded w h)))\<rparr>, []))
      | _ \<Rightarrow> (a, []))"

fun app_run :: "('d, 'i) engine \<Rightarrow> ('d, 'i) app \<Rightarrow> ('d, 'i) app_event list \<Rightarrow> ('d, 'i) app \<times> 'd effect list" where
  "app_run eng a [] = (a, [])"
| "app_run eng a (e # es) =
     (let (a', fx) = app_step eng a e; (a'', fxs) = app_run eng a' es in (a'', fx @ fxs))"

text \<open>
  The alerts of the handlers' own guards: fewer than two files to merge, no file
  selected for an edit, nothing to export.
\<close>

abbreviation guard_alerts :: "'d effect set" where
  "guard_alerts \<equiv> {Alert NeedTwoFiles, Alert SelectPdfFirst, Alert NothingToEdit}"

subsection \<open>Invariant\<close>

text \<open>
  The dialogs are mounted exactly when their conditions hold, at most one of
  the two show flags is set, an image is selected exactly while the image
  dialog is to be shown, and a shown dialog has a file to work on.
\<close>

definition shows_ok :: "('d, 'i) editor \<Rightarrow> bool" where
  "shows_ok s \<longleftrightarrow>
     \<not> (showImagePositioner s \<and> showTextPositioner s) \<and>
     (selectedImage s \<noteq> None \<longleftrightarrow> showImagePositioner s) \<and>
     (showImagePositioner s \<longrightarrow> currentFile s \<noteq> None) \<and>
     (showTextPositioner s \<longrightarrow> currentFile s \<noteq> None)"

definition app_inv :: "('d, 'i) app \<Rightarrow> bool" where
  "app_inv a \<longleftrightarrow>
     (imageDialog a \<noteq> None \<longleftrightarrow> image_mounted (ed a)) \<and>
     (textDialog a \<noteq> None \<longleftrightarrow> text_mounted (ed a)) \<and>
     shows_ok (ed a)"

subsection \<open>Dialog sessions as the user performs them\<close>

text \<open>
  The events that end a dialog session (its two buttons), a session of the
  user as a list of application events (open the dialog, edit the draft,
  confirm, let the engine's promise settle), and the edit of the spec's chain
  that a session stands for: the placement of the draft the dialog has built
  from its initial state.
\<close>

fun image_closing :: "image_event \<Rightarrow> bool" where
  "image_closing CancelClick = True"
| "image_closing ConfirmClick = True"
| "image_closing _ = False"

fun text_closing :: "text_event \<Rightarrow> bool" where
  "text_closing TCancelClick = True"
| "text_closing TConfirmClick = True"
| "text_closing _ = False"

text \<open>
  The resumptions of the dialogs' effects (the page's viewport, its rendering,
  the decoded image) are not the user's events: they come from the renderer,
  as the events \<open>PdfLoaded\<close>, \<open>PdfRendered\<close> and \<open>ImageLoaded\<close> of the
  application. What the user does in a dialog is the rest: its draft controls
  and its two buttons.
\<close>

fun image_draft_event :: "image_event \<Rightarrow> bool" where
  "image_draft_event (ImageDecoded _ _) = False"
| "image_draft_event (PageLoaded _ _) = False"
| "image_draft_event (PageRendered _) = False"
| "image_draft_event CancelClick = False"
| "image_draft_event ConfirmClick = False"
| "image_draft_event _ = True"

fun text_draft_event :: "text_event \<Rightarrow> bool" where
  "text_draft_event (TPageLoaded _ _) = False"
| "text_draft_event (TPageRendered _) = False"
| "text_draft_event TCancelClick = False"
| "text_draft_event TConfirmClick = False"
| "text_draft_event _ = True"

datatype 'i ui_edit = UiImage 'i "image_event list" | UiText "text_event list"

fun ui_events :: "'i ui_edit \<Rightarrow> ('d, 'i) app_event list" where
  "ui_events (UiImage i ds) = [Main (AddImageClick (Some i))] @ map InImage ds @ [InImage ConfirmClick, Main (Settle 0)]"
| "ui_events (UiText ds) = [Main AddTextClick] @ map InText ds @ [InText TConfirmClick, Main (Settle 0)]"

fun ui_edit_ok :: "'i ui_edit \<Rightarrow> bool" where
  "ui_edit_ok (UiImage i ds) = list_all image_draft_event ds"
| "ui_edit_ok (UiText ds) = list_all text_draft_event ds"

definition image_edit_of :: "'i \<Rightarrow> image_session \<Rightarrow> 'i edit" where
  "image_edit_of i d =
     ImageEdit i (fst (imagePosition d)) (snd (imagePosition d)) (fst (imageSize d)) (snd (imageSize d))"

definition text_edit_of :: "text_session \<Rightarrow> 'i edit" where
  "text_edit_of d =
     TextEdit (textValue d) (fst (textPosition d)) (snd (textPosition d)) (fontSize d) (textColor d) (fontFamily d)"

fun ui_edit_of :: "'i ui_edit \<Rightarrow> 'i edit" where
  "ui_edit_of (UiImage i ds) = image_edit_of i (fst (image_run image_session_init ds))"
| "ui_edit_of (UiText ds) = text_edit_of (fst (text_run text_session_init ds))"

text \<open>An engine whose embedding calls never reject.\<close>

definition engine_total :: "('d, 'i) engine \<Rightarrow> bool" where
  "engine_total eng \<longleftrightarrow>
     (\<forall>d i k x y w h. addImageToPDF eng d i k x y w h \<noteq> None) \<and>
     (\<forall>d t k x y fs c ff. addTextToPDF eng d t k x y fs c ff \<noteq> None)"

text \<open>
  No dialog is shown, no promise is in flight, and a file is selected: the state
  in which the main page's controls are reachable and an edit can begin.
\<close>

definition quiet :: "('d, 'i) app \<Rightarrow> bool" where
  "quiet a \<longleftrightarrow> app_inv a \<and> imageDialog a = None \<and> textDialog a = None \<and>
               pending (ed a) = [] \<and> currentFile (ed a) \<noteq> None"


text \<open>
  An engine for exercising the application: it accepts every call and records
  the edits in its document, a list of the edits applied so far.
\<close>

definition recording_engine :: "('i edit list, 'i) engine" where
  "recording_engine =
     \<lparr>addImageToPDF = (\<lambda>d i k x y w h. Some (d @ [ImageEdit i x y w h])),
      addTextToPDF = (\<lambda>d t k x y fs c ff. Some (d @ [TextEdit t x y fs c ff])),
      mergePDFs = (\<lambda>ds. Some (concat ds)),
      getPageSize = (\<lambda>d k. Some (612, 792)),
      renderPage = (\<lambda>d k. Some ''data:image/png''),
      decodeImage = (\<lambda>i. Some (200, 200))\<rparr>"


text \<open>A PDF file as the browser delivers it on a drop, with its MIME type.\<close>

definition pdf_upload :: "string \<Rightarrow> 'd \<Rightarrow> 'd upload" where
  "pdf_upload n b = \<lparr>upload_name = n, upload_type = ''application/pdf'', upload_bytes = b\<rparr>"

text \<open>A one-page US Letter document with nothing drawn on it, for the page-list engine.\<close>

definition sample_doc :: "nat pdf" where
  "sample_doc = [letter_page]"

text \<open>A second document, one small square page.\<close>

definition square_doc :: "nat pdf" where
  "square_doc = [\<lparr>page_size = (200, 200), page_items = []\<rparr>]"

text \<open>Two files, the first selected, with a text edit in flight and no dialog open.\<close>

definition two_files_in_flight :: "(nat pdf, nat) app" where
  "two_files_in_flight =
     \<lparr>ed = (handleFilesSelected [(''a.pdf'', sample_doc), (''b.pdf'', square_doc)] editor_init)
             \<lparr>pending := [PendingText (Some square_doc)]\<rparr>,
      imageDialog = None, textDialog = None\<rparr>"

text \<open>The application after one PDF was dropped, with the recording engine.\<close>

definition one_file_recorded :: "(nat edit list, nat) app" where
  "one_file_recorded = fst (app_run recording_engine app_init [Drop [pdf_upload ''a.pdf'' []]])"

subsection \<open>Lemmas\<close>

lemma onDrop_pdf_upload [simp]:
  "fileUploader_onDrop (pdf_upload n b # fs) = (n, b) # fileUploader_onDrop fs"
  by (simp add: fileUploader_onDrop_eq pdf_accepted_iff pdf_upload_def ascii_lower_def)

lemma onDrop_Nil [simp]: "fileUploader_onDrop [] = []"
  by (simp add: fileUploader_onDrop_eq)

lemma app_step_Main:
  "fst (app_step eng a (Main m)) = a \<or>
   (fst (app_step eng a (Main m)) = fst (editor_then_reconcile eng m a) \<and>
    (main_page_event m \<longrightarrow> \<not> dialog_open a \<and> main_page_control (ed a) m))"
  by auto

lemma previewFile_some: "currentFile s \<noteq> None \<Longrightarrow> previewFile s \<noteq> None"
  by (auto simp: previewFile_def split: option.splits)

lemma app_inv_reconcile: "app_inv (reconcile s a) \<longleftrightarrow> shows_ok s"
  by (simp add: app_inv_def reconcile_def remount_def)

lemma closed_no_shows:
  assumes "app_inv a" and "\<not> dialog_open a"
  shows "\<not> showImagePositioner (ed a) \<and> \<not> showTextPositioner (ed a)"
  using assms previewFile_some [of "ed a"]
  by (auto simp: app_inv_def dialog_open_def shows_ok_def image_mounted_def text_mounted_def)

lemma settle_shows_ok: "shows_ok s \<Longrightarrow> shows_ok (fst (settle p s))"
  by (induction p s rule: settle.induct) (auto simp: shows_ok_def)

lemma resolve_shows_ok: "shows_ok s \<Longrightarrow> shows_ok (fst (resolve k s))"
  using settle_shows_ok [of "s\<lparr>pending := remove_nth k (pending s)\<rparr>"]
  by (simp add: resolve_def shows_ok_def)

lemma editor_step_shows_ok_closed:
  assumes "shows_ok s" "\<not> showImagePositioner s" "\<not> showTextPositioner s"
  shows "shows_ok (fst (editor_step eng s e))"
proof (cases e)
  case (Settle k)
  then show ?thesis using assms(1) by (simp add: resolve_shows_ok)
qed (use assms in \<open>auto simp: shows_ok_def handleFilesSelected_def handleMergePDFs_def
       handleAddImage_def handleImagePositionConfirm_def handleImagePositionCancel_def
       handleAddText_def handleTextPositionConfirm_def handleTextPositionCancel_def
       handleRemoveFile_def handleResetEdits_def selectFile_def pageChange_def Let_def
       split: option.splits\<close>)

lemma image_callback_shows_ok:
  assumes "image_callback oc = Some ev" "shows_ok s"
  shows "shows_ok (fst (editor_step eng s ev))"
  using assms
  by (cases oc rule: image_callback.cases)
     (auto simp: shows_ok_def handleImagePositionConfirm_def handleImagePositionCancel_def split: option.splits)

lemma text_callback_shows_ok:
  assumes "text_callback oc = Some ev" "shows_ok s"
  shows "shows_ok (fst (editor_step eng s ev))"
  using assms
  by (cases oc rule: text_callback.cases)
     (auto simp: shows_ok_def handleTextPositionConfirm_def handleTextPositionCancel_def split: option.splits)

lemma app_step_inv:
  assumes "app_inv a"
  shows "app_inv (fst (app_step eng a e))"
proof (cases e)
  case (Main m)
  have ok: "shows_ok (ed a)" using assms by (simp add: app_inv_def)
  have "shows_ok (fst (editor_step eng (ed a) m))"
    if run: "main_page_event m \<longrightarrow> \<not> dialog_open a \<and> main_page_control (ed a) m"
  proof (cases "main_page_event m")
    case True
    then have "\<not> dialog_open a" using run by simp
    then show ?thesis using closed_no_shows [OF assms] ok editor_step_shows_ok_closed by blast
  next
    case False
    then obtain k where "m = Settle k" by (cases m) simp_all
    then show ?thesis using ok by (simp add: resolve_shows_ok)
  qed
  then show ?thesis using app_step_Main [of eng a m] Main assms
    by (auto simp: editor_then_reconcile_def split_def Let_def app_inv_reconcile)
next
  case (Drop fs)
  show ?thesis
  proof (cases "dialog_open a")
    case True
    then show ?thesis using Drop assms by simp
  next
    case False
    have ok: "shows_ok (ed a)" using assms by (simp add: app_inv_def)
    have "shows_ok (fst (editor_step eng (ed a) (FilesDropped (fileUploader_onDrop fs))))"
      using editor_step_shows_ok_closed [OF ok] closed_no_shows [OF assms False] by blast
    then show ?thesis using Drop False
      by (simp add: editor_then_reconcile_def split_def Let_def app_inv_reconcile)
  qed
next
  case (InImage ie)
  show ?thesis
  proof (cases "imageDialog a")
    case None
    then show ?thesis using InImage assms by simp
  next
    case (Some d)
    let ?a' = "a\<lparr>imageDialog := Some (fst (image_step d ie))\<rparr>"
    have inv': "app_inv ?a'" using assms Some by (simp add: app_inv_def)
    have "shows_ok (fst (editor_step eng (ed a) ev))" if "image_callback oc = Some ev" for oc ev
      using image_callback_shows_ok [OF that] assms by (simp add: app_inv_def)
    then show ?thesis using InImage Some inv' assms
      by (auto simp: editor_then_reconcile_def split_def app_inv_reconcile Let_def
          split: option.splits)
  qed
next
  case (InText te)
  show ?thesis
  proof (cases "textDialog a")
    case None
    then show ?thesis using InText assms by simp
  next
    case (Some d)
    let ?a' = "a\<lparr>textDialog := Some (fst (text_step d te))\<rparr>"
    have inv': "app_inv ?a'" using assms Some by (simp add: app_inv_def)
    have "shows_ok (fst (editor_step eng (ed a) ev))" if "text_callback oc = Some ev" for oc ev
      using text_callback_shows_ok [OF that] assms by (simp add: app_inv_def)
    then show ?thesis using InText Some inv' assms
      by (auto simp: editor_then_reconcile_def split_def app_inv_reconcile Let_def
          split: option.splits)
  qed
next
  case PdfLoaded
  then show ?thesis using assms by (auto simp: app_inv_def split: option.splits)
next
  case PdfRendered
  then show ?thesis using assms by (auto simp: app_inv_def split: option.splits)
next
  case ImageLoaded
  then show ?thesis using assms by (auto simp: app_inv_def split: option.splits)
qed

lemma app_run_inv: "app_inv a \<Longrightarrow> app_inv (fst (app_run eng a es))"
  by (induction es arbitrary: a) (simp_all add: split_def Let_def app_step_inv)

lemma settle_no_guard_alert: "set (snd (settle p s)) \<inter> guard_alerts = {}"
  by (induction p s rule: settle.induct) simp_all

lemma resolve_no_guard_alert: "set (snd (resolve k s)) \<inter> guard_alerts = {}"
  using settle_no_guard_alert [of "pending s ! k" "s\<lparr>pending := remove_nth k (pending s)\<rparr>"]
  by (simp add: resolve_def)

text \<open>A guard alert comes only from a click on Merge, Add or Export whose guard fails.\<close>

lemma guard_alert_source:
  assumes "set (snd (editor_step eng s m)) \<inter> guard_alerts \<noteq> {}"
  shows "\<not> main_page_control s m \<and>
         (m = MergeClick \<or> m = AddTextClick \<or> m = ExportClick \<or> (\<exists>c. m = AddImageClick c))"
  using assms resolve_no_guard_alert [of _ s]
  by (cases m) (auto simp: handleMergePDFs_def handleAddImage_def handleAddText_def handleExportPDF_def
      split: option.splits if_splits)

lemma app_inv_init: "app_inv app_init"
  by (simp add: app_inv_def app_init_def editor_init_def shows_ok_def image_mounted_def text_mounted_def)

lemma app_run_append:
  "app_run eng a (es @ fs) =
     (fst (app_run eng (fst (app_run eng a es)) fs),
      snd (app_run eng a es) @ snd (app_run eng (fst (app_run eng a es)) fs))"
  by (induction es arbitrary: a) (auto simp: split_def Let_def)

lemma app_run_Cons_fst:
  "fst (app_run eng a (e # es)) = fst (app_run eng (fst (app_step eng a e)) es)"
  by (simp add: split_def Let_def)

text \<open>Each \<open>Settle 0\<close> retires the oldest promise in flight and starts none.\<close>

lemma settle0_pending_etr:
  "pending (ed (fst (editor_then_reconcile eng (Settle 0) a))) = tl (pending (ed a))"
  using settle_pending [of "hd (pending (ed a))" "(ed a)\<lparr>pending := tl (pending (ed a))\<rparr>"]
  by (cases "pending (ed a)")
     (simp_all add: editor_then_reconcile_def resolve_def split_def reconcile_def remove_nth_conv Let_def)

lemma text_step_no_outcome: "text_draft_event e \<Longrightarrow> snd (text_step d e) = None"
  by (cases e) simp_all

lemma image_step_no_outcome: "image_draft_event e \<Longrightarrow> snd (image_step d e) = None"
  by (cases e) simp_all

lemma text_draft_not_resumption: "text_draft_event e \<Longrightarrow> \<not> text_resumption e"
  by (cases e) simp_all

lemma image_draft_not_resumption: "image_draft_event e \<Longrightarrow> \<not> image_resumption e"
  by (cases e) simp_all

lemma text_drafting:
  assumes "textDialog a = Some d" and "list_all text_draft_event ds"
  shows "fst (app_run eng a (map InText ds)) = a\<lparr>textDialog := Some (fst (text_run d ds))\<rparr>"
  using assms
proof (induction ds arbitrary: a d)
  case Nil
  then show ?case by (simp add: text_run_def)
next
  case (Cons e ds)
  have "app_step eng a (InText e) = (a\<lparr>textDialog := Some (fst (text_step d e))\<rparr>, [])"
    using Cons.prems text_step_no_outcome [of e d] text_draft_not_resumption [of e]
    by (simp add: split_def Let_def)
  then show ?case using Cons.IH [of "a\<lparr>textDialog := Some (fst (text_step d e))\<rparr>" "fst (text_step d e)"] Cons.prems
    by (simp add: app_run_Cons_fst text_run_def text_step_no_outcome)
qed

lemma image_drafting:
  assumes "imageDialog a = Some d" and "list_all image_draft_event ds"
  shows "fst (app_run eng a (map InImage ds)) = a\<lparr>imageDialog := Some (fst (image_run d ds))\<rparr>"
  using assms
proof (induction ds arbitrary: a d)
  case Nil
  then show ?case by simp
next
  case (Cons e ds)
  have "app_step eng a (InImage e) = (a\<lparr>imageDialog := Some (fst (image_step d e))\<rparr>, [])"
    using Cons.prems image_step_no_outcome [of e d] image_draft_not_resumption [of e]
    by (simp add: split_def Let_def)
  then show ?case using Cons.IH [of "a\<lparr>imageDialog := Some (fst (image_step d e))\<rparr>" "fst (image_step d e)"] Cons.prems
    by (simp add: app_run_Cons_fst)
qed

lemma quiet_flags:
  "quiet a \<Longrightarrow> \<not> showImagePositioner (ed a) \<and> \<not> showTextPositioner (ed a)"
  using closed_no_shows by (auto simp: quiet_def dialog_open_def)

lemma sourceFile_cong:
  "currentFile t = currentFile s \<Longrightarrow> editedPdfBytes t = editedPdfBytes s \<Longrightarrow> sourceFile t = sourceFile s"
  by (simp add: sourceFile_def split: option.splits)

lemma app_run_fst_append:
  "fst (app_run eng a (es @ fs)) = fst (app_run eng (fst (app_run eng a es)) fs)"
  by (simp add: app_run_append)

lemma engine_total_apply: "engine_total eng \<Longrightarrow> \<exists>b. apply_edit eng k d e = Some b"
  by (cases e) (auto simp: engine_total_def)

lemma text_open_draft:
  assumes q: "quiet a" and ok: "list_all text_draft_event ds"
  shows "fst (app_run eng a (Main AddTextClick # map InText ds)) =
           \<lparr>ed = (ed a)\<lparr>showTextPositioner := True\<rparr>, imageDialog = None,
            textDialog = Some (fst (text_run text_session_init ds))\<rparr>"
proof -
  let ?s = "ed a"
  have f: "currentFile ?s \<noteq> None" using q by (simp add: quiet_def)
  have fl: "\<not> showImagePositioner ?s" "\<not> showTextPositioner ?s" using quiet_flags [OF q] by simp_all
  have cl: "\<not> dialog_open a" using q by (simp add: quiet_def dialog_open_def)
  have pv: "previewFile (?s\<lparr>showTextPositioner := True\<rparr>) \<noteq> None" using f by (intro previewFile_some) simp
  define a1 where "a1 = \<lparr>ed = ?s\<lparr>showTextPositioner := True\<rparr>, imageDialog = None,
                        textDialog = Some text_session_init\<rparr>"
  have a1: "fst (app_step eng a (Main AddTextClick)) = a1"
    using f cl fl pv q by (simp add: a1_def editor_then_reconcile_def handleAddText_def reconcile_def remount_def
        image_mounted_def text_mounted_def quiet_def)
  have "fst (app_run eng a1 (map InText ds)) = a1\<lparr>textDialog := Some (fst (text_run text_session_init ds))\<rparr>"
    by (rule text_drafting [OF _ ok]) (simp add: a1_def)
  then show ?thesis unfolding app_run_Cons_fst a1 by (simp add: a1_def)
qed

lemma image_open_draft:
  assumes q: "quiet a" and ok: "list_all image_draft_event ds"
  shows "fst (app_run eng a (Main (AddImageClick (Some i)) # map InImage ds)) =
           \<lparr>ed = (ed a)\<lparr>selectedImage := Some i, showImagePositioner := True\<rparr>,
            imageDialog = Some (fst (image_run image_session_init ds)), textDialog = None\<rparr>"
proof -
  let ?s = "ed a"
  have f: "currentFile ?s \<noteq> None" using q by (simp add: quiet_def)
  have fl: "\<not> showImagePositioner ?s" "\<not> showTextPositioner ?s" using quiet_flags [OF q] by simp_all
  have cl: "\<not> dialog_open a" using q by (simp add: quiet_def dialog_open_def)
  have pv: "previewFile (?s\<lparr>selectedImage := Some i, showImagePositioner := True\<rparr>) \<noteq> None"
    using f by (intro previewFile_some) simp
  define a1 where "a1 = \<lparr>ed = ?s\<lparr>selectedImage := Some i, showImagePositioner := True\<rparr>,
                        imageDialog = Some image_session_init, textDialog = None\<rparr>"
  have a1: "fst (app_step eng a (Main (AddImageClick (Some i)))) = a1"
    using f cl fl pv q by (simp add: a1_def editor_then_reconcile_def handleAddImage_def reconcile_def remount_def
        image_mounted_def text_mounted_def quiet_def)
  have "fst (app_run eng a1 (map InImage ds)) = a1\<lparr>imageDialog := Some (fst (image_run image_session_init ds))\<rparr>"
    by (rule image_drafting [OF _ ok]) (simp add: a1_def)
  then show ?thesis unfolding app_run_Cons_fst a1 by (simp add: a1_def)
qed

lemma quiet_eq:
  assumes "quiet a"
  shows "\<lparr>ed = ed a, imageDialog = None, textDialog = None\<rparr> = a"
  using assms by (cases a) (simp add: quiet_def)

lemma text_flag_same: "\<not> showTextPositioner s \<Longrightarrow> s\<lparr>showTextPositioner := False\<rparr> = s"
  by (cases s) simp

lemma image_flag_same:
  "\<not> showImagePositioner s \<Longrightarrow> selectedImage s = None \<Longrightarrow>
   s\<lparr>showImagePositioner := False, selectedImage := None\<rparr> = s"
  by (cases s) simp

lemma app_run_snoc_fst:
  "fst (app_run eng a (es @ [e])) = fst (app_step eng (fst (app_run eng a es)) e)"
  by (simp only: app_run_fst_append app_run_Cons_fst app_run.simps(1) fst_conv)

lemma text_session_outcome:
  assumes q: "quiet a" and ok: "list_all text_draft_event ds"
  shows "fst (app_run eng a (ui_events (UiText ds))) =
           (case apply_edit eng (currentPageIndex (ed a)) (the (sourceFile (ed a)))
                   (text_edit_of (fst (text_run text_session_init ds))) of
              Some b \<Rightarrow> \<lparr>ed = (ed a)\<lparr>editedPdfBytes := Some b\<rparr>, imageDialog = None, textDialog = None\<rparr>
            | None \<Rightarrow> \<lparr>ed = (ed a)\<lparr>showTextPositioner := True\<rparr>, imageDialog = None,
                       textDialog = Some (fst (text_run text_session_init ds))\<rparr>)"
proof -
  let ?s = "ed a"
  let ?D = "fst (text_run text_session_init ds)"
  obtain f where f: "currentFile ?s = Some f" using q by (auto simp: quiet_def)
  have fl: "\<not> showImagePositioner ?s" "\<not> showTextPositioner ?s" using quiet_flags [OF q] by simp_all
  define s1 where "s1 = ?s\<lparr>showTextPositioner := True\<rparr>"
  have pv: "previewFile s1 \<noteq> None" using f by (intro previewFile_some) (simp add: s1_def)
  define a2 where "a2 = \<lparr>ed = s1, imageDialog = None, textDialog = Some ?D\<rparr>"
  have a2: "fst (app_run eng a (Main AddTextClick # map InText ds)) = a2"
    using text_open_draft [OF q ok] by (simp add: a2_def s1_def)
  obtain src where src: "sourceFile ?s = Some src" using f by (simp add: sourceFile_def)
  define r where "r = apply_edit eng (currentPageIndex ?s) src (text_edit_of ?D)"
  have src1: "sourceFile s1 = Some src" using src sourceFile_cong [of s1 ?s] by (simp add: s1_def)
  have pe: "pending ?s = []" using q by (simp add: quiet_def)
  define s3 where "s3 = s1\<lparr>pending := [PendingText r]\<rparr>"
  define a3 where "a3 = reconcile s3 a2"
  have a3: "fst (app_step eng a2 (InText TConfirmClick)) = a3"
    using src1 pe by (simp add: a2_def a3_def s3_def r_def editor_then_reconcile_def
        text_handleConfirm_def handleTextPositionConfirm_def text_edit_of_def Let_def, simp add: s1_def)
  have pv3: "previewFile s3 \<noteq> None" using f by (intro previewFile_some) (simp add: s3_def s1_def)
  have "showTextPositioner s3" by (simp add: s3_def s1_def)
  then have m3: "text_mounted s3" using pv3 by (simp add: text_mounted_def)
  have a3d: "dialog_open a3" "ed a3 = s3" "textDialog a3 = Some ?D"
    using m3 by (simp_all add: a3_def a2_def dialog_open_def reconcile_def remount_def)
  have s1p: "s1\<lparr>pending := []\<rparr> = s1" using pe by (simp add: s1_def)
  have a4: "fst (app_step eng a3 (Main (Settle 0))) =
              (case r of
                 Some b \<Rightarrow> \<lparr>ed = ?s\<lparr>editedPdfBytes := Some b\<rparr>, imageDialog = None, textDialog = None\<rparr>
               | None \<Rightarrow> \<lparr>ed = s1, imageDialog = None, textDialog = Some ?D\<rparr>)"
  proof (cases r)
    case None
    have rs: "fst (resolve 0 s3) = s1" using None s1p by (simp add: resolve_def s3_def remove_nth_conv)
    have "\<not> image_mounted s1" "text_mounted s1"
      using fl pv by (simp_all add: s1_def image_mounted_def text_mounted_def)
    then show ?thesis using None rs a3d
      by (simp add: editor_then_reconcile_def split_def reconcile_def remount_def)
  next
    case (Some b)
    then show ?thesis using a3d fl q
      by (simp add: editor_then_reconcile_def resolve_def s3_def s1_def remove_nth_conv reconcile_def
          remount_def image_mounted_def text_mounted_def quiet_def)
  qed
  have "fst (app_run eng a (ui_events (UiText ds))) =
          fst (app_run eng a ((Main AddTextClick # map InText ds) @ [InText TConfirmClick, Main (Settle 0)]))"
    by simp
  also have "\<dots> = fst (app_step eng a3 (Main (Settle 0)))"
    unfolding app_run_fst_append a2 by (simp only: app_run_Cons_fst app_run.simps(1) fst_conv a3)
  also note a4
  finally show ?thesis by (simp only: src option.sel r_def s1_def)
qed

lemma text_session_effect:
  assumes q: "quiet a" and ok: "list_all text_draft_event ds" and tot: "engine_total eng"
  shows "fst (app_run eng a (ui_events (UiText ds))) =
           \<lparr>ed = (ed a)\<lparr>editedPdfBytes :=
                apply_edit eng (currentPageIndex (ed a)) (the (sourceFile (ed a)))
                  (text_edit_of (fst (text_run text_session_init ds)))\<rparr>,
            imageDialog = None, textDialog = None\<rparr>"
proof -
  obtain b where b: "apply_edit eng (currentPageIndex (ed a)) (the (sourceFile (ed a)))
                       (text_edit_of (fst (text_run text_session_init ds))) = Some b"
    using engine_total_apply [OF tot] by blast
  show ?thesis using text_session_outcome [OF q ok, of eng] b by simp
qed

lemma image_session_effect:
  assumes q: "quiet a" and ok: "list_all image_draft_event ds" and tot: "engine_total eng"
  shows "fst (app_run eng a (ui_events (UiImage i ds))) =
           \<lparr>ed = (ed a)\<lparr>editedPdfBytes :=
                apply_edit eng (currentPageIndex (ed a)) (the (sourceFile (ed a)))
                  (image_edit_of i (fst (image_run image_session_init ds)))\<rparr>,
            imageDialog = None, textDialog = None\<rparr>"
proof -
  let ?s = "ed a"
  let ?D = "fst (image_run image_session_init ds)"
  obtain f where f: "currentFile ?s = Some f" using q by (auto simp: quiet_def)
  have fl: "\<not> showImagePositioner ?s" "\<not> showTextPositioner ?s" using quiet_flags [OF q] by simp_all
  have si: "selectedImage ?s = None" using q fl(1) by (simp add: quiet_def app_inv_def shows_ok_def)
  define s1 where "s1 = ?s\<lparr>selectedImage := Some i, showImagePositioner := True\<rparr>"
  have pv: "previewFile s1 \<noteq> None" using f by (intro previewFile_some) (simp add: s1_def)
  define a2 where "a2 = \<lparr>ed = s1, imageDialog = Some ?D, textDialog = None\<rparr>"
  have a2: "fst (app_run eng a (Main (AddImageClick (Some i)) # map InImage ds)) = a2"
    using image_open_draft [OF q ok] by (simp add: a2_def s1_def)
  obtain src where src: "sourceFile ?s = Some src" using f by (simp add: sourceFile_def)
  obtain b where b: "apply_edit eng (currentPageIndex ?s) src (image_edit_of i ?D) = Some b"
    using engine_total_apply [OF tot] by blast
  have src1: "sourceFile s1 = Some src" using src sourceFile_cong [of s1 ?s] by (simp add: s1_def)
  have pe: "pending ?s = []" using q by (simp add: quiet_def)
  define s3 where "s3 = s1\<lparr>pending := [PendingImage (Some b)]\<rparr>"
  define a3 where "a3 = reconcile s3 a2"
  have a3: "fst (app_step eng a2 (InImage ConfirmClick)) = a3"
    using src1 b pe by (simp add: a2_def a3_def s3_def editor_then_reconcile_def
        handleConfirm_def handleImagePositionConfirm_def image_edit_of_def Let_def, simp add: s1_def)
  have pv3: "previewFile s3 \<noteq> None" using f by (intro previewFile_some) (simp add: s3_def s1_def)
  have "showImagePositioner s3 \<and> selectedImage s3 \<noteq> None" by (simp add: s3_def s1_def)
  then have m3: "image_mounted s3" using pv3 by (simp add: image_mounted_def)
  have a3d: "dialog_open a3" "ed a3 = s3"
    using m3 by (simp_all add: a3_def a2_def dialog_open_def reconcile_def remount_def)
  have a4: "fst (app_step eng a3 (Main (Settle 0))) =
              \<lparr>ed = ?s\<lparr>editedPdfBytes := Some b\<rparr>, imageDialog = None, textDialog = None\<rparr>"
    using a3d fl q si
    by (simp add: editor_then_reconcile_def resolve_def s3_def s1_def remove_nth_conv reconcile_def
        remount_def image_mounted_def text_mounted_def quiet_def)
  have "fst (app_run eng a (ui_events (UiImage i ds))) =
          fst (app_run eng a ((Main (AddImageClick (Some i)) # map InImage ds) @ [InImage ConfirmClick, Main (Settle 0)]))"
    by simp
  also have "\<dots> = fst (app_step eng a3 (Main (Settle 0)))"
    unfolding app_run_fst_append a2 by (simp only: app_run_Cons_fst app_run.simps(1) fst_conv a3)
  also note a4
  finally show ?thesis by (simp only: src option.sel b)
qed

lemma ui_session_effect:
  assumes "quiet a" "ui_edit_ok u" "engine_total eng"
  shows "fst (app_run eng a (ui_events u)) =
           \<lparr>ed = (ed a)\<lparr>editedPdfBytes :=
                apply_edit eng (currentPageIndex (ed a)) (the (sourceFile (ed a))) (ui_edit_of u)\<rparr>,
            imageDialog = None, textDialog = None\<rparr>"
proof (cases u)
  case (UiImage i ds)
  then have "list_all image_draft_event ds" using assms(2) by simp
  from image_session_effect [OF assms(1) this assms(3)] show ?thesis
    using UiImage by (simp only: ui_edit_of.simps)
next
  case (UiText ds)
  then have "list_all text_draft_event ds" using assms(2) by simp
  from text_session_effect [OF assms(1) this assms(3)] show ?thesis
    using UiText by (simp only: ui_edit_of.simps)
qed

lemma quiet_after_edit:
  assumes "quiet a" "engine_total eng"
  shows "quiet \<lparr>ed = (ed a)\<lparr>editedPdfBytes := apply_edit eng k d e\<rparr>, imageDialog = None, textDialog = None\<rparr>"
  using assms quiet_flags [OF assms(1)]
  by (simp add: quiet_def app_inv_def shows_ok_def image_mounted_def text_mounted_def)

text \<open>Confirming the text dialog queues the engine call on the source document with the draft.\<close>

lemma text_confirm_step:
  assumes "textDialog a = Some D" and "sourceFile (ed a) = Some src"
  shows "fst (app_step eng a (InText TConfirmClick)) =
           reconcile ((ed a)\<lparr>pending := pending (ed a) @
                        [PendingText (apply_edit eng (currentPageIndex (ed a)) src (text_edit_of D))]\<rparr>)
             (a\<lparr>textDialog := Some D\<rparr>)"
  using assms
  by (simp add: editor_then_reconcile_def text_handleConfirm_def handleTextPositionConfirm_def
      text_edit_of_def Let_def)

subsection \<open>Properties\<close>

text \<open>
  C1: End-to-end refinement of the edit chain (spec 4.2 and 4.3). From a state
  where an edit can begin, with an engine that accepts every call, any sequence
  of dialog sessions performed through the user interface (open, edit the
  draft, confirm, let the promise settle) leaves as the current artifact exactly
  the spec's chain of the placements the dialogs built, each session starting
  from a fresh draft, in confirmation order.
\<close>

theorem app_edit_refinement:
  assumes "quiet a" and "list_all ui_edit_ok us" and "engine_total eng"
  shows "sourceFile (ed (fst (app_run eng a (concat (map ui_events us))))) =
           Some (edit_chain eng (currentPageIndex (ed a)) (the (sourceFile (ed a))) (map ui_edit_of us))"
  using assms(1,2)
proof (induction us arbitrary: a)
  case Nil
  then show ?case by (auto simp: quiet_def sourceFile_def split: option.splits)
next
  case (Cons u us)
  let ?k = "currentPageIndex (ed a)"
  let ?a' = "fst (app_run eng a (ui_events u))"
  obtain b where b: "apply_edit eng ?k (the (sourceFile (ed a))) (ui_edit_of u) = Some b"
    using engine_total_apply [OF assms(3)] by blast
  have a': "?a' = \<lparr>ed = (ed a)\<lparr>editedPdfBytes := Some b\<rparr>, imageDialog = None, textDialog = None\<rparr>"
    using ui_session_effect [OF Cons.prems(1) _ assms(3), of u] Cons.prems(2) b by simp
  have q': "quiet ?a'"
    using quiet_after_edit [OF Cons.prems(1) assms(3), of ?k "the (sourceFile (ed a))" "ui_edit_of u"] b a' by simp
  have src': "the (sourceFile (ed ?a')) = b" and k': "currentPageIndex (ed ?a') = ?k"
    using a' Cons.prems(1) by (auto simp: sourceFile_def quiet_def)
  have "sourceFile (ed (fst (app_run eng ?a' (concat (map ui_events us))))) =
          Some (edit_chain eng ?k b (map ui_edit_of us))"
    using Cons.IH [OF q'] Cons.prems(2) src' k' by simp
  then show ?case using b by (simp add: app_run_fst_append)
qed

text \<open>
  C9: The two dialogs are exclusive (spec 4.2, one modal session): in every
  state the application reaches, at most one dialog is mounted, a mounted
  dialog has a selected file, and the image dialog has a selected image.
\<close>

theorem dialogs_exclusive:
  "let a = fst (app_run eng app_init es)
   in \<not> (imageDialog a \<noteq> None \<and> textDialog a \<noteq> None) \<and>
      (imageDialog a \<noteq> None \<longrightarrow> currentFile (ed a) \<noteq> None \<and> selectedImage (ed a) \<noteq> None) \<and>
      (textDialog a \<noteq> None \<longrightarrow> currentFile (ed a) \<noteq> None)"
proof -
  have "app_inv (fst (app_run eng app_init es))" using app_inv_init by (rule app_run_inv)
  then show ?thesis
    by (auto simp: Let_def app_inv_def shows_ok_def image_mounted_def text_mounted_def)
qed

text \<open>
  C15: A rejected engine call does not end the session, contrary to the spec's
  \<open>Ready \<rightarrow> Confirmed\<close> (terminal): the artifact is left as it was (spec 7,
  AssemblyFailure), but the dialog stays mounted with its draft and can be
  confirmed again.
\<close>

theorem failed_confirm_keeps_dialog:
  assumes "quiet a" and "list_all text_draft_event ds"
    and "apply_edit eng (currentPageIndex (ed a)) (the (sourceFile (ed a)))
           (text_edit_of (fst (text_run text_session_init ds))) = None"
  shows "let a' = fst (app_run eng a (ui_events (UiText ds)))
         in editedPdfBytes (ed a') = editedPdfBytes (ed a) \<and>
            textDialog a' = Some (fst (text_run text_session_init ds)) \<and> dialog_open a'"
  using text_session_outcome [OF assms(1,2), of eng] assms(3) by (simp add: Let_def dialog_open_def)

text \<open>
  C14: Cancelling is a no-op (spec 4.2 Cancel, spec 5): from a state where an
  edit can begin, opening either dialog, editing its draft in any way and
  cancelling returns the application to exactly the state it was in: the edit
  chain is untouched and the draft is discarded.
\<close>

theorem cancel_is_noop:
  assumes q: "quiet a"
    and ok: "list_all text_draft_event ds" and ok': "list_all image_draft_event ds'"
  shows "fst (app_run eng a ((Main AddTextClick # map InText ds) @ [InText TCancelClick])) = a \<and>
         fst (app_run eng a ((Main (AddImageClick (Some i)) # map InImage ds') @ [InImage CancelClick])) = a"
proof
  have fl: "\<not> showImagePositioner (ed a)" "\<not> showTextPositioner (ed a)" using quiet_flags [OF q] by simp_all
  have si: "selectedImage (ed a) = None" using q fl(1) by (simp add: quiet_def app_inv_def shows_ok_def)
  show "fst (app_run eng a ((Main AddTextClick # map InText ds) @ [InText TCancelClick])) = a"
    unfolding app_run_snoc_fst text_open_draft [OF q ok] using fl quiet_eq [OF q]
    by (simp add: editor_then_reconcile_def handleTextPositionCancel_def reconcile_def remount_def
        image_mounted_def text_mounted_def text_flag_same)
  show "fst (app_run eng a ((Main (AddImageClick (Some i)) # map InImage ds') @ [InImage CancelClick])) = a"
    unfolding app_run_snoc_fst image_open_draft [OF q ok'] using fl si quiet_eq [OF q]
    by (simp add: editor_then_reconcile_def handleImagePositionCancel_def reconcile_def remount_def
        image_mounted_def text_mounted_def image_flag_same)
qed

text \<open>
  C5: The double confirm of the text dialog is reachable through the user
  interface from every quiet state (spec 5: mutating triggers are disabled
  while an edit is in flight). With an engine that accepts every call, a user
  who opens the text dialog, edits the draft, confirms, edits again and confirms
  again sees, after the first promise settles, the dialog gone and the main page
  unblocked while the second call is still in flight; when it settles the
  working artifact is the second draft placed on the original source document:
  the first edit is lost.
\<close>

theorem ui_double_confirm_drops_edit:
  assumes q: "quiet a" and ok: "list_all text_draft_event ds" and ok': "list_all text_draft_event ds'"
    and tot: "engine_total eng"
  shows "let a5 = fst (app_run eng a ((Main AddTextClick # map InText ds) @ [InText TConfirmClick] @
                                       map InText ds' @ [InText TConfirmClick, Main (Settle 0)]))
         in \<not> dialog_open a5 \<and> pending (ed a5) \<noteq> [] \<and>
            editedPdfBytes (ed (fst (app_step eng a5 (Main (Settle 0))))) =
              apply_edit eng (currentPageIndex (ed a)) (the (sourceFile (ed a)))
                (text_edit_of (fst (text_run (fst (text_run text_session_init ds)) ds')))"
proof -
  let ?s = "ed a"
  let ?k = "currentPageIndex ?s"
  let ?D1 = "fst (text_run text_session_init ds)"
  let ?D2 = "fst (text_run ?D1 ds')"
  obtain f where f: "currentFile ?s = Some f" using q by (auto simp: quiet_def)
  have fl: "\<not> showImagePositioner ?s" "\<not> showTextPositioner ?s" using quiet_flags [OF q] by simp_all
  have pe: "pending ?s = []" using q by (simp add: quiet_def)
  obtain src where src: "sourceFile ?s = Some src" using f by (simp add: sourceFile_def)
  obtain b1 where b1: "apply_edit eng ?k src (text_edit_of ?D1) = Some b1"
    using engine_total_apply [OF tot] by blast
  obtain b2 where b2: "apply_edit eng ?k src (text_edit_of ?D2) = Some b2"
    using engine_total_apply [OF tot] by blast
  define s1 where "s1 = ?s\<lparr>showTextPositioner := True\<rparr>"
  define s3 where "s3 = s1\<lparr>pending := [PendingText (Some b1)]\<rparr>"
  define s4 where "s4 = s1\<lparr>pending := [PendingText (Some b1), PendingText (Some b2)]\<rparr>"
  have src1: "sourceFile t = Some src" if "currentFile t = currentFile ?s" "editedPdfBytes t = editedPdfBytes ?s"
    for t
    using src sourceFile_cong [of t ?s] that by simp
  have m: "text_mounted t" "\<not> image_mounted t" if "t = s1 \<or> t = s3 \<or> t = s4" for t
    using that f fl previewFile_some [of t]
    by (auto simp: s1_def s3_def s4_def text_mounted_def image_mounted_def)
  have a2: "fst (app_run eng a (Main AddTextClick # map InText ds)) =
              \<lparr>ed = s1, imageDialog = None, textDialog = Some ?D1\<rparr>"
    using text_open_draft [OF q ok] by (simp add: s1_def)
  have a3: "fst (app_step eng \<lparr>ed = s1, imageDialog = None, textDialog = Some ?D1\<rparr> (InText TConfirmClick)) =
              \<lparr>ed = s3, imageDialog = None, textDialog = Some ?D1\<rparr>"
    using text_confirm_step [of "\<lparr>ed = s1, imageDialog = None, textDialog = Some ?D1\<rparr>" ?D1 src eng]
      src1 [of s1] b1 pe m [of s3]
    by (simp add: s1_def s3_def reconcile_def remount_def)
  have a3': "fst (app_run eng \<lparr>ed = s3, imageDialog = None, textDialog = Some ?D1\<rparr> (map InText ds')) =
               \<lparr>ed = s3, imageDialog = None, textDialog = Some ?D2\<rparr>"
    using text_drafting [of "\<lparr>ed = s3, imageDialog = None, textDialog = Some ?D1\<rparr>" ?D1 ds' eng] ok' by simp
  have a4: "fst (app_step eng \<lparr>ed = s3, imageDialog = None, textDialog = Some ?D2\<rparr> (InText TConfirmClick)) =
              \<lparr>ed = s4, imageDialog = None, textDialog = Some ?D2\<rparr>"
    using text_confirm_step [of "\<lparr>ed = s3, imageDialog = None, textDialog = Some ?D2\<rparr>" ?D2 src eng]
      src1 [of s3] b2 m [of s4]
    by (simp add: s1_def s3_def s4_def reconcile_def remount_def)
  define s5 where "s5 = s1\<lparr>pending := [PendingText (Some b2)], editedPdfBytes := Some b1,
                            showTextPositioner := False\<rparr>"
  have a5: "fst (app_step eng \<lparr>ed = s4, imageDialog = None, textDialog = Some ?D2\<rparr> (Main (Settle 0))) =
              \<lparr>ed = s5, imageDialog = None, textDialog = None\<rparr>"
    using fl by (simp add: editor_then_reconcile_def resolve_def s4_def s5_def s1_def remove_nth_conv
        reconcile_def remount_def image_mounted_def text_mounted_def)
  have a6: "editedPdfBytes (ed (fst (app_step eng \<lparr>ed = s5, imageDialog = None, textDialog = None\<rparr>
              (Main (Settle 0))))) = Some b2"
    by (simp add: editor_then_reconcile_def resolve_def s5_def remove_nth_conv reconcile_def)
  have run: "fst (app_run eng a ((Main AddTextClick # map InText ds) @ [InText TConfirmClick] @
                                 map InText ds' @ [InText TConfirmClick, Main (Settle 0)])) =
               \<lparr>ed = s5, imageDialog = None, textDialog = None\<rparr>"
    unfolding app_run_fst_append a2
    by (simp only: app_run_Cons_fst app_run.simps(1) fst_conv a3 a3' a4 a5)
  show ?thesis
    unfolding Let_def run using a6 b2 src by (simp add: dialog_open_def s5_def)
qed

text \<open>
  C6: An edit in flight outlives its file (spec 3 and 4.4: edits are scoped to
  one source document and are discarded when it is removed). In any state with
  no dialog open, distinct files, the selected file among at least two, and an
  image or text edit in flight (the state C5 reaches), removing the selected
  file selects another one and clears the working artifact; when the call then
  settles, \<open>setEditedPdfBytes\<close> stores its result, which the editor now
  previews, exports and edits as the other file.
\<close>

theorem stale_edit_lands_on_other_file:
  assumes cl: "\<not> dialog_open a" and d: "distinct (selectedFiles (ed a))"
    and i: "i < length (selectedFiles (ed a))" and two: "1 < length (selectedFiles (ed a))"
    and cur: "currentFile (ed a) = Some (selectedFiles (ed a) ! i)"
    and p: "pending (ed a) = [p]" and pb: "p = PendingText (Some b) \<or> p = PendingImage (Some b)"
  shows "let a' = fst (app_run eng a [Main (RemoveClick i), Main (Settle 0)])
         in currentFile (ed a') \<noteq> currentFile (ed a) \<and> currentFile (ed a') \<noteq> None \<and>
            previewFile (ed a') = Some b"
proof -
  let ?s = "ed a"
  let ?fs = "selectedFiles ?s"
  have "remove_nth i ?fs \<noteq> []" using i two length_remove_nth [OF i] by auto
  then obtain g gs where g: "remove_nth i ?fs = g # gs" by (cases "remove_nth i ?fs") auto
  have gne: "g \<noteq> ?fs ! i" using nth_notin_remove_nth [OF d i] g by auto
  define s1 where "s1 = ?s\<lparr>selectedFiles := g # gs, currentFile := Some g, editedPdfBytes := None\<rparr>"
  have r1: "fst (app_step eng a (Main (RemoveClick i))) = reconcile s1 a"
    using cl i cur g by (simp add: editor_then_reconcile_def handleRemoveFile_def s1_def Let_def)
  have r2: "ed (fst (app_step eng (reconcile s1 a) (Main (Settle 0)))) = fst (settle p (s1\<lparr>pending := []\<rparr>))"
    using p by (simp add: editor_then_reconcile_def resolve_def reconcile_def s1_def remove_nth_conv split_def
        Let_def)
  have "currentFile (fst (settle p (s1\<lparr>pending := []\<rparr>))) = Some g"
       "editedPdfBytes (fst (settle p (s1\<lparr>pending := []\<rparr>))) = Some b"
    using pb by (auto simp: s1_def)
  then show ?thesis
    unfolding Let_def app_run_Cons_fst r1 app_run.simps(1) fst_conv r2
    using cur gne by (simp add: previewFile_def)
qed

text \<open>
  C16: The alerts of the handlers' guards never appear (spec 7: InvalidInputCount,
  MissingActiveDocument and NothingToExport are surfaced to the user): the
  buttons are disabled exactly when those guards would fail, so through the
  user interface no event, in any state and with any engine, produces the alert
  for merging fewer than two files, for adding to no file or for exporting no
  edits; the guards are reached only with their condition satisfied.
\<close>

theorem guard_alerts_never_shown: "set (snd (app_step eng a e)) \<inter> guard_alerts = {}"
proof (cases e)
  case (Main m)
  have "set (snd (editor_step eng (ed a) m)) \<inter> guard_alerts = {}"
    if "\<not> dialog_open a \<and> main_page_control (ed a) m \<or> \<not> main_page_event m"
    using that guard_alert_source [of eng "ed a" m] by auto
  then show ?thesis using Main by (auto simp: editor_then_reconcile_def split_def Let_def)
next
  case (Drop fs)
  then show ?thesis by (simp add: editor_then_reconcile_def split_def)
next
  case (InImage ie)
  have "set (snd (editor_step eng s ev)) \<inter> guard_alerts = {}" if "image_callback oc = Some ev" for oc ev s
    using that guard_alert_source [of eng s ev] by (cases oc rule: image_callback.cases) auto
  then show ?thesis using InImage
    by (auto simp: editor_then_reconcile_def split_def Let_def split: option.splits)
next
  case (InText te)
  have "set (snd (editor_step eng s ev)) \<inter> guard_alerts = {}" if "text_callback oc = Some ev" for oc ev s
    using that guard_alert_source [of eng s ev] by (cases oc rule: text_callback.cases) auto
  then show ?thesis using InText
    by (auto simp: editor_then_reconcile_def split_def Let_def split: option.splits)
qed (auto split: option.splits)

subsection \<open>Witnesses\<close>

theorem app_edit_refinement_witness:
  "quiet (fst (app_run recording_engine app_init [Drop [pdf_upload ''a.pdf'' []]]) :: (nat edit list, nat) app) \<and>
   list_all ui_edit_ok [UiText [TextInput ''Hello''], UiImage (7::nat) [ScaleRange 50]] \<and>
   engine_total (recording_engine :: (nat edit list, nat) engine) \<and>
   sourceFile (ed (fst (app_run recording_engine
       (fst (app_run recording_engine app_init [Drop [pdf_upload ''a.pdf'' []]]) :: (nat edit list, nat) app)
       (concat (map ui_events [UiText [TextInput ''Hello''], UiImage (7::nat) [ScaleRange 50]]))))) =
     Some (edit_chain recording_engine
       (currentPageIndex (ed (fst (app_run recording_engine app_init [Drop [pdf_upload ''a.pdf'' []]]) :: (nat edit list, nat) app)))
       (the (sourceFile (ed (fst (app_run recording_engine app_init [Drop [pdf_upload ''a.pdf'' []]]) :: (nat edit list, nat) app))))
       (map ui_edit_of [UiText [TextInput ''Hello''], UiImage (7::nat) [ScaleRange 50]]))"
proof -
  have h1: "quiet (fst (app_run recording_engine app_init [Drop [pdf_upload ''a.pdf'' []]]) :: (nat edit list, nat) app)"
    by (simp add: quiet_def app_inv_def shows_ok_def app_init_def editor_init_def handleFilesSelected_def
        editor_then_reconcile_def reconcile_def remount_def image_mounted_def text_mounted_def dialog_open_def)
  have h2: "list_all ui_edit_ok [UiText [TextInput ''Hello''], UiImage (7::nat) [ScaleRange 50]]" by simp
  have h3: "engine_total (recording_engine :: (nat edit list, nat) engine)"
    by (simp add: engine_total_def recording_engine_def)
  show ?thesis by (intro conjI h1 h2 h3 app_edit_refinement [OF h1 h2 h3])
qed

theorem dialogs_exclusive_witness:
  "textDialog (fst (app_run page_engine app_init
      [Drop [pdf_upload ''doc.pdf'' sample_doc], Main AddTextClick])) \<noteq> None \<and>
   (let a = fst (app_run page_engine app_init
      [Drop [pdf_upload ''doc.pdf'' sample_doc], Main AddTextClick])
    in \<not> (imageDialog a \<noteq> None \<and> textDialog a \<noteq> None) \<and>
       (imageDialog a \<noteq> None \<longrightarrow> currentFile (ed a) \<noteq> None \<and> selectedImage (ed a) \<noteq> None) \<and>
       (textDialog a \<noteq> None \<longrightarrow> currentFile (ed a) \<noteq> None))"
proof
  show "textDialog (fst (app_run page_engine app_init
      [Drop [pdf_upload ''doc.pdf'' sample_doc], Main AddTextClick])) \<noteq> None"
    by (simp add: app_init_def editor_init_def handleFilesSelected_def handleAddText_def previewFile_def
        editor_then_reconcile_def reconcile_def remount_def text_mounted_def image_mounted_def dialog_open_def)
  show "let a = fst (app_run page_engine app_init
      [Drop [pdf_upload ''doc.pdf'' sample_doc], Main AddTextClick])
    in \<not> (imageDialog a \<noteq> None \<and> textDialog a \<noteq> None) \<and>
       (imageDialog a \<noteq> None \<longrightarrow> currentFile (ed a) \<noteq> None \<and> selectedImage (ed a) \<noteq> None) \<and>
       (textDialog a \<noteq> None \<longrightarrow> currentFile (ed a) \<noteq> None)"
    by (rule dialogs_exclusive)
qed

theorem failed_confirm_keeps_dialog_witness:
  "quiet (fst (app_run page_engine app_init [Drop [pdf_upload ''empty.pdf'' []]]) :: (nat pdf, nat) app) \<and>
   list_all text_draft_event [TextInput ''Hi''] \<and>
   apply_edit page_engine
     (currentPageIndex (ed (fst (app_run page_engine app_init [Drop [pdf_upload ''empty.pdf'' []]]) :: (nat pdf, nat) app)))
     (the (sourceFile (ed (fst (app_run page_engine app_init [Drop [pdf_upload ''empty.pdf'' []]]) :: (nat pdf, nat) app))))
     (text_edit_of (fst (text_run text_session_init [TextInput ''Hi'']))) = None \<and>
   (let a' = fst (app_run page_engine
          (fst (app_run page_engine app_init [Drop [pdf_upload ''empty.pdf'' []]]) :: (nat pdf, nat) app)
          (ui_events (UiText [TextInput ''Hi''])))
    in editedPdfBytes (ed a') =
         editedPdfBytes (ed (fst (app_run page_engine app_init [Drop [pdf_upload ''empty.pdf'' []]]) :: (nat pdf, nat) app)) \<and>
       textDialog a' = Some (fst (text_run text_session_init [TextInput ''Hi''])) \<and> dialog_open a')"
proof -
  have h1: "quiet (fst (app_run page_engine app_init [Drop [pdf_upload ''empty.pdf'' []]]) :: (nat pdf, nat) app)"
    by (simp add: quiet_def app_inv_def shows_ok_def app_init_def editor_init_def handleFilesSelected_def
        editor_then_reconcile_def reconcile_def remount_def image_mounted_def text_mounted_def dialog_open_def)
  have h2: "list_all text_draft_event [TextInput ''Hi'']" by simp
  have h3: "apply_edit page_engine
     (currentPageIndex (ed (fst (app_run page_engine app_init [Drop [pdf_upload ''empty.pdf'' []]]) :: (nat pdf, nat) app)))
     (the (sourceFile (ed (fst (app_run page_engine app_init [Drop [pdf_upload ''empty.pdf'' []]]) :: (nat pdf, nat) app))))
     (text_edit_of (fst (text_run text_session_init [TextInput ''Hi'']))) = None"
    by (simp add: app_init_def editor_init_def handleFilesSelected_def editor_then_reconcile_def
        reconcile_def sourceFile_def text_edit_of_def page_engine_def draw_on_page_def dialog_open_def)
  show ?thesis by (intro conjI h1 h2 h3 failed_confirm_keeps_dialog [OF h1 h2 h3])
qed

theorem cancel_is_noop_witness:
  "quiet (fst (app_run page_engine app_init [Drop [pdf_upload ''doc.pdf'' sample_doc]]) :: (nat pdf, nat) app) \<and>
   list_all text_draft_event [TextInput ''x'', TYRange 700] \<and>
   list_all image_draft_event [ScaleRange 50, XRange 10] \<and>
   fst (app_run page_engine (fst (app_run page_engine app_init [Drop [pdf_upload ''doc.pdf'' sample_doc]]))
     ((Main AddTextClick # map InText [TextInput ''x'', TYRange 700]) @ [InText TCancelClick])) =
     fst (app_run page_engine app_init [Drop [pdf_upload ''doc.pdf'' sample_doc]]) \<and>
   fst (app_run page_engine (fst (app_run page_engine app_init [Drop [pdf_upload ''doc.pdf'' sample_doc]]))
     ((Main (AddImageClick (Some (3::nat))) # map InImage [ScaleRange 50, XRange 10]) @ [InImage CancelClick])) =
     fst (app_run page_engine app_init [Drop [pdf_upload ''doc.pdf'' sample_doc]])"
proof -
  have h1: "quiet (fst (app_run page_engine app_init [Drop [pdf_upload ''doc.pdf'' sample_doc]]) :: (nat pdf, nat) app)"
    by (simp add: quiet_def app_inv_def shows_ok_def app_init_def editor_init_def handleFilesSelected_def
        editor_then_reconcile_def reconcile_def remount_def image_mounted_def text_mounted_def dialog_open_def)
  have h2: "list_all text_draft_event [TextInput ''x'', TYRange 700]" by simp
  have h3: "list_all image_draft_event [ScaleRange 50, XRange 10]" by simp
  show ?thesis using cancel_is_noop [OF h1 h2 h3, of page_engine 3] h1 h2 h3 by blast
qed

theorem ui_double_confirm_drops_edit_witness:
  "quiet one_file_recorded \<and> list_all text_draft_event [TextInput ''Hello''] \<and>
   list_all text_draft_event [TextInput ''World''] \<and> engine_total (recording_engine :: (nat edit list, nat) engine) \<and>
   (let a5 = fst (app_run recording_engine one_file_recorded
                   ((Main AddTextClick # map InText [TextInput ''Hello'']) @ [InText TConfirmClick] @
                    map InText [TextInput ''World''] @ [InText TConfirmClick, Main (Settle 0)]))
    in \<not> dialog_open a5 \<and> pending (ed a5) \<noteq> [] \<and>
       editedPdfBytes (ed (fst (app_step recording_engine a5 (Main (Settle 0))))) =
         apply_edit recording_engine (currentPageIndex (ed one_file_recorded)) (the (sourceFile (ed one_file_recorded)))
           (text_edit_of (fst (text_run (fst (text_run text_session_init [TextInput ''Hello''])) [TextInput ''World'']))))"
proof -
  have h1: "quiet one_file_recorded"
    by (simp add: one_file_recorded_def quiet_def app_inv_def shows_ok_def app_init_def editor_init_def
        handleFilesSelected_def editor_then_reconcile_def reconcile_def remount_def image_mounted_def
        text_mounted_def dialog_open_def)
  have h2: "list_all text_draft_event [TextInput ''Hello'']" "list_all text_draft_event [TextInput ''World'']"
    by simp_all
  have h3: "engine_total (recording_engine :: (nat edit list, nat) engine)"
    by (simp add: engine_total_def recording_engine_def)
  show ?thesis using h1 h2 h3 ui_double_confirm_drops_edit [OF h1 h2 h3] by simp
qed

theorem stale_edit_lands_on_other_file_witness:
  "\<not> dialog_open two_files_in_flight \<and> distinct (selectedFiles (ed two_files_in_flight)) \<and>
   0 < length (selectedFiles (ed two_files_in_flight)) \<and> 1 < length (selectedFiles (ed two_files_in_flight)) \<and>
   currentFile (ed two_files_in_flight) = Some (selectedFiles (ed two_files_in_flight) ! 0) \<and>
   pending (ed two_files_in_flight) = [PendingText (Some square_doc)] \<and>
   (let a' = fst (app_run page_engine two_files_in_flight [Main (RemoveClick 0), Main (Settle 0)])
    in currentFile (ed a') \<noteq> currentFile (ed two_files_in_flight) \<and> currentFile (ed a') \<noteq> None \<and>
       previewFile (ed a') = Some square_doc)"
proof -
  have h: "\<not> dialog_open two_files_in_flight" "distinct (selectedFiles (ed two_files_in_flight))"
    "0 < length (selectedFiles (ed two_files_in_flight))" "1 < length (selectedFiles (ed two_files_in_flight))"
    "currentFile (ed two_files_in_flight) = Some (selectedFiles (ed two_files_in_flight) ! 0)"
    "pending (ed two_files_in_flight) = [PendingText (Some square_doc)]"
    by (simp_all add: two_files_in_flight_def dialog_open_def handleFilesSelected_def editor_init_def)
  have pb: "PendingText (Some square_doc) = PendingText (Some square_doc) \<or>
            PendingText (Some square_doc) = PendingImage (Some square_doc)" by simp
  show ?thesis using h stale_edit_lands_on_other_file [OF h(1-6) pb, of page_engine] by simp
qed

end
