(* ===== verification/Lifecycle.thy ===== *)
theory Lifecycle
  imports System
begin

text \<open>
  The life of the whole application: the states reachable from the first
  render by any sequence of events (\<open>app_reachable\<close>, an inductive set closed
  under \<open>app_step\<close>), what holds in all of them, that the promises in flight
  can always be settled (\<open>drain\<close>, a recursion over the pending list with its
  termination proof), that from every reachable state the user can get back to
  the main page, and what a drop on \<open>FileUploader\<close> adds to the editor.
\<close>

subsection \<open>Reachable states\<close>

inductive app_reachable :: "('d, 'i) engine \<Rightarrow> ('d, 'i) app \<Rightarrow> bool" for eng where
  init: "app_reachable eng app_init"
| step: "app_reachable eng a \<Longrightarrow> app_reachable eng (fst (app_step eng a e))"

inductive_cases app_reachable_cases: "app_reachable eng a"

definition app_wf :: "('d, 'i) app \<Rightarrow> bool" where
  "app_wf a \<longleftrightarrow> editor_wf (ed a) \<and> app_inv a"

subsection \<open>Settling the promises in flight\<close>

text \<open>
  \<open>drain\<close> settles the oldest promise in flight until none is left, the
  order in which a browser with an idle user resolves them.
\<close>

function drain :: "('d, 'i) engine \<Rightarrow> ('d, 'i) app \<Rightarrow> ('d, 'i) app \<times> 'd effect list" where
  "drain eng a =
     (if pending (ed a) = [] then (a, [])
      else (let r = app_step eng a (Main (Settle 0)); r' = drain eng (fst r) in (fst r', snd r @ snd r')))"
  by pat_completeness auto

termination
  by (relation "measure (\<lambda>(eng, a). length (pending (ed a)))") (auto simp: settle0_pending_etr)

declare drain.simps [simp del]

subsection \<open>Sample inputs\<close>

text \<open>A drop of three files: a PDF known by its extension only, an image, a PDF known by its MIME type only.\<close>

definition sample_drop :: "nat pdf upload list" where
  "sample_drop =
     [\<lparr>upload_name = ''report.PDF'', upload_type = [], upload_bytes = sample_doc\<rparr>,
      \<lparr>upload_name = ''photo.png'', upload_type = ''image/png'', upload_bytes = sample_doc\<rparr>,
      \<lparr>upload_name = ''scan'', upload_type = ''application/pdf'', upload_bytes = sample_doc\<rparr>]"

text \<open>
  A reachable state with the text dialog open and its confirm in flight: a
  drop, Add Text, Confirm.
\<close>

definition sample_busy :: "(nat pdf, nat) app" where
  "sample_busy =
     fst (app_run page_engine app_init [Drop sample_drop, Main AddTextClick, InText TConfirmClick])"

subsection \<open>Lemmas\<close>

lemma app_step_wf: "app_wf a \<Longrightarrow> app_wf (fst (app_step eng a e))"
  using app_step_inv [of a eng e] editor_step_wf
  by (cases e) (auto simp: app_wf_def editor_then_reconcile_def split_def reconcile_def Let_def
      handleFilesSelected_wf split: option.splits)

lemma reachable_app_inv: "app_reachable eng a \<Longrightarrow> app_inv a"
proof (induction rule: app_reachable.induct)
  case init
  show ?case by (rule app_inv_init)
next
  case (step a e)
  from step.IH show ?case by (rule app_step_inv)
qed

lemma drain_run: "drain eng a = app_run eng a (replicate (length (pending (ed a))) (Main (Settle 0)))"
proof (induction eng a rule: drain.induct)
  case (1 eng a)
  show ?case
  proof (cases "pending (ed a) = []")
    case True
    then show ?thesis by (simp add: drain.simps [of eng a])
  next
    case False
    then obtain n where n: "length (pending (ed a)) = Suc n" by (cases "pending (ed a)") simp_all
    have "length (pending (ed (fst (app_step eng a (Main (Settle 0)))))) = n"
      using n by (simp add: settle0_pending_etr)
    with 1 False n show ?thesis by (simp add: drain.simps [of eng a] Let_def split_def)
  qed
qed

lemma settle_run_pending:
  "pending (ed (fst (app_run eng a (replicate n (Main (Settle 0)))))) = drop n (pending (ed a))"
proof (induction n arbitrary: a)
  case 0
  then show ?case by simp
next
  case (Suc n)
  show ?case
    by (simp only: replicate_Suc app_run_Cons_fst Suc.IH) (simp add: settle0_pending_etr drop_Suc)
qed

lemma reachable_run: "app_reachable eng a \<Longrightarrow> app_reachable eng (fst (app_run eng a es))"
proof (induction es arbitrary: a)
  case Nil
  then show ?case by simp
next
  case (Cons e es)
  have "app_reachable eng (fst (app_step eng a e))" using Cons.prems by (rule app_reachable.step)
  then show ?case unfolding app_run_Cons_fst by (rule Cons.IH)
qed

lemma remount_sync: "(d \<noteq> None \<longleftrightarrow> c) \<Longrightarrow> remount c init d = d"
  by (cases d) (auto simp: remount_def)

lemma remount_unmount: "\<not> c \<Longrightarrow> remount c init d = None"
  by (simp add: remount_def)

lemma image_cancel_closes:
  assumes "app_inv b"
  shows "imageDialog (fst (app_step eng b (InImage CancelClick))) = None \<and>
         textDialog (fst (app_step eng b (InImage CancelClick))) = textDialog b \<and>
         pending (ed (fst (app_step eng b (InImage CancelClick)))) = pending (ed b)"
proof (cases "imageDialog b")
  case None
  then show ?thesis by simp
next
  case (Some d)
  let ?s = "(ed b)\<lparr>showImagePositioner := False, selectedImage := None\<rparr>"
  have "text_mounted ?s = text_mounted (ed b)" by (simp add: text_mounted_def previewFile_def)
  then have "remount (text_mounted ?s) text_session_init (textDialog b) = textDialog b"
    using assms by (simp add: app_inv_def remount_sync)
  then show ?thesis using Some
    by (simp add: editor_then_reconcile_def handleImagePositionCancel_def reconcile_def remount_unmount
        image_mounted_def split_def)
qed

lemma text_cancel_closes:
  assumes "app_inv b"
  shows "textDialog (fst (app_step eng b (InText TCancelClick))) = None \<and>
         imageDialog (fst (app_step eng b (InText TCancelClick))) = imageDialog b \<and>
         pending (ed (fst (app_step eng b (InText TCancelClick)))) = pending (ed b)"
proof (cases "textDialog b")
  case None
  then show ?thesis by simp
next
  case (Some d)
  let ?s = "(ed b)\<lparr>showTextPositioner := False\<rparr>"
  have "image_mounted ?s = image_mounted (ed b)" by (simp add: image_mounted_def previewFile_def)
  then have "remount (image_mounted ?s) image_session_init (imageDialog b) = imageDialog b"
    using assms by (simp add: app_inv_def remount_sync)
  then show ?thesis using Some
    by (simp add: editor_then_reconcile_def handleTextPositionCancel_def reconcile_def remount_unmount
        text_mounted_def split_def)
qed

text \<open>
  C11: Liveness of the main page: from every reachable state, once the
  promises in flight have settled, pressing Cancel in the image dialog and then
  in the text dialog (a click on a dialog that is not open is ignored) leads to
  a reachable state with nothing in flight and no dialog open, so the main page
  takes input again.
\<close>

theorem back_to_main_page:
  assumes "app_reachable eng a"
  shows "let a' = fst (app_run eng (fst (drain eng a)) [InImage CancelClick, InText TCancelClick])
         in pending (ed a') = [] \<and> \<not> dialog_open a' \<and> app_reachable eng a'"
proof -
  let ?a1 = "fst (drain eng a)"
  let ?a2 = "fst (app_step eng ?a1 (InImage CancelClick))"
  let ?a3 = "fst (app_step eng ?a2 (InText TCancelClick))"
  have r1: "app_reachable eng ?a1" using reachable_run [OF assms] by (simp add: drain_run)
  have r2: "app_reachable eng ?a2" using r1 by (rule app_reachable.step)
  have r3: "app_reachable eng ?a3" using r2 by (rule app_reachable.step)
  have i1: "app_inv ?a1" and i2: "app_inv ?a2"
    using reachable_app_inv [OF r1] reachable_app_inv [OF r2] by simp_all
  have "pending (ed ?a3) = []" "imageDialog ?a3 = None" "textDialog ?a3 = None"
    using image_cancel_closes [OF i1, of eng] text_cancel_closes [OF i2, of eng]
    by (simp_all add: drain_run settle_run_pending)
  moreover have "fst (app_run eng ?a1 [InImage CancelClick, InText TCancelClick]) = ?a3"
    by (simp only: app_run_Cons_fst app_run.simps(1) fst_conv)
  ultimately show ?thesis using r3 by (simp add: dialog_open_def)
qed

subsection \<open>Dropping files\<close>

lemma handleFilesSelected_names:
  "map file_name (selectedFiles (handleFilesSelected fs s)) = map file_name (selectedFiles s) @ map fst fs"
proof -
  have z: "map snd (zip [0..<length fs] fs) = fs" by simp
  have "map (\<lambda>p. fst (snd p)) (zip [0..<length fs] fs) = map fst (map snd (zip [0..<length fs] fs))"
    by (simp only: map_map comp_def)
  then have "map (\<lambda>p. fst (snd p)) (zip [0..<length fs] fs) = map fst fs" by (simp only: z)
  then show ?thesis by (simp add: handleFilesSelected_def Let_def enumerate_eq_zip split_def comp_def)
qed

text \<open>
  C12: A drop on the main page (\<open>FileUploader\<close>'s \<open>onDrop\<close> into
  \<open>handleFilesSelected\<close>) appends exactly the dropped files whose name ends
  in \<open>.pdf\<close> in any case or whose MIME type is \<open>application/pdf\<close> in any
  case, in drop order, to the editor's file list; the files already there stay
  in place (spec 6: PDFs recognised by MIME type or extension, others rejected).
\<close>

theorem drop_adds_accepted_files:
  assumes "\<not> dialog_open a"
  shows "map file_name (selectedFiles (ed (fst (app_step eng a (Drop fs))))) =
           map file_name (selectedFiles (ed a)) @
           map upload_name (filter (\<lambda>f. suffix ''.pdf'' (map ascii_lower (upload_name f)) \<or>
                                          map ascii_lower (upload_type f) = ''application/pdf'') fs)"
  using assms
  by (simp add: editor_then_reconcile_def reconcile_def fileUploader_onDrop_eq accepted_filter
      handleFilesSelected_names split_def comp_def)

subsection \<open>Witnesses\<close>

theorem drop_adds_accepted_files_witness:
  "\<not> dialog_open (app_init :: (nat pdf, nat) app) \<and>
   map file_name (selectedFiles (ed (fst (app_step page_engine (app_init :: (nat pdf, nat) app) (Drop sample_drop))))) =
     [''report.PDF'', ''scan'']"
proof -
  have h: "\<not> dialog_open (app_init :: (nat pdf, nat) app)" by (simp add: app_init_def dialog_open_def)
  have f: "filter (\<lambda>f. suffix ''.pdf'' (map ascii_lower (upload_name f)) \<or>
                         map ascii_lower (upload_type f) = ''application/pdf'') sample_drop =
           [hd sample_drop, last sample_drop]"
    by code_simp
  show ?thesis using h drop_adds_accepted_files [OF h, of page_engine sample_drop] f
    by (simp add: app_init_def editor_init_def sample_drop_def)
qed

lemma sample_busy_reachable: "app_reachable page_engine sample_busy"
  unfolding sample_busy_def by (rule reachable_run [OF app_reachable.init])

theorem back_to_main_page_witness:
  "app_reachable page_engine sample_busy \<and> dialog_open sample_busy \<and> pending (ed sample_busy) \<noteq> [] \<and>
   (let a' = fst (app_run page_engine (fst (drain page_engine sample_busy)) [InImage CancelClick, InText TCancelClick])
    in pending (ed a') = [] \<and> \<not> dialog_open a' \<and> app_reachable page_engine a')"
proof -
  have "dialog_open sample_busy \<and> pending (ed sample_busy) \<noteq> []"
    by code_simp
  then show ?thesis using sample_busy_reachable back_to_main_page [OF sample_busy_reachable] by simp
qed

end
