(* ===== verification/Render.thy ===== *)
theory Render
  imports Lifecycle
begin

text \<open>
  What the main page shows: the JSX of \<open>PDFEditor\<close> (lines 175-266) and of
  \<open>FileUploader\<close> (lines 21-47) as functions of the state they read. The
  view carries what a user sees and can use (the file items and which one is
  highlighted, the enabled buttons, the editing banner, the document and page
  handed to \<open>PDFViewer\<close>); colours, spacing and fonts that depend on no state
  are left out. The guards of the main-page events in \<open>System\<close> are read off
  this view, and the file list highlights exactly the selected file in every
  reachable state.
\<close>

subsection \<open>The editor's main page\<close>

record 'd main_view =
  files_shown :: bool
  file_items :: "(string \<times> bool) list"
  merge_enabled :: bool
  add_image_enabled :: bool
  add_text_enabled :: bool
  export_enabled :: bool
  reset_enabled :: bool
  editing_banner :: bool
  viewer_file :: "'d option"
  viewer_page :: int

text \<open>
  \<open>{selectedFiles.length > 0 && ...}\<close> (line 183); each file item shows
  \<open>file.name\<close> and is highlighted when \<open>currentFile === file\<close> (lines
  187-199); the \<open>disabled\<close> attributes of the five buttons (lines 218-246);
  \<open>{editedPdfBytes && <div>...</div>}\<close> (line 253); \<open>PDFViewer\<close>'s
  \<open>file={previewFile}\<close> and \<open>currentPage={currentPageIndex + 1}\<close> (lines
  261-263).
\<close>

definition pdfEditor_view :: "('d, 'i) editor \<Rightarrow> 'd main_view" where
  "pdfEditor_view s =
     \<lparr>files_shown = (0 < length (selectedFiles s)),
      file_items = map (\<lambda>f. (file_name f, currentFile s = Some f)) (selectedFiles s),
      merge_enabled = (\<not> length (selectedFiles s) < 2),
      add_image_enabled = (currentFile s \<noteq> None),
      add_text_enabled = (currentFile s \<noteq> None),
      export_enabled = (editedPdfBytes s \<noteq> None),
      reset_enabled = (editedPdfBytes s \<noteq> None),
      editing_banner = (editedPdfBytes s \<noteq> None),
      viewer_file = previewFile s,
      viewer_page = currentPageIndex s + 1\<rparr>"

subsection \<open>The drop zone\<close>

text \<open>
  The three texts of the zone (lines 36, 39 and 41): "drop the files here",
  "drag and drop PDF files or click to choose", and the hint for
  \<open>multiple\<close> ("several files can be chosen" / "one file only").
\<close>

datatype zone_text = DropHere | DragOrClick | SeveralFiles | OneFileOnly

record zone_view =
  zone_background :: string
  zone_texts :: "zone_text list"

text \<open>
  The zone as rendered for \<open>isDragActive\<close> (set by \<open>useDropzone\<close> while
  files are dragged over it) and the \<open>multiple\<close> prop.
\<close>

definition fileUploader_view :: "bool \<Rightarrow> bool \<Rightarrow> zone_view" where
  "fileUploader_view isDragActive multiple =
     \<lparr>zone_background = (if isDragActive then ''#e3f2fd'' else ''#f5f5f5''),
      zone_texts = (if isDragActive then [DropHere]
                    else [DragOrClick, if multiple then SeveralFiles else OneFileOnly])\<rparr>"

subsection \<open>Lemmas\<close>

text \<open>Each guard of a main-page control in \<open>System\<close> is the rendered state of its control.\<close>

lemma main_page_control_view:
  "main_page_control s MergeClick = merge_enabled (pdfEditor_view s)"
  "main_page_control s (AddImageClick c) = add_image_enabled (pdfEditor_view s)"
  "main_page_control s AddTextClick = add_text_enabled (pdfEditor_view s)"
  "main_page_control s ExportClick = export_enabled (pdfEditor_view s)"
  "main_page_control s (ResetClick b) = reset_enabled (pdfEditor_view s)"
  "main_page_control s (RemoveClick i) = (i < length (file_items (pdfEditor_view s)))"
  "main_page_control s (SelectClick i) = (i < length (file_items (pdfEditor_view s)))"
  by (simp_all add: pdfEditor_view_def not_less)

lemma reachable_editor_wf: "app_reachable eng a \<Longrightarrow> editor_wf (ed a)"
proof (induction rule: app_reachable.induct)
  case init
  show ?case using editor_wf_init by (simp add: app_init_def)
next
  case (step a e)
  have "app_wf a" using step.hyps reachable_app_inv [OF step.hyps] step.IH by (simp add: app_wf_def)
  then show ?case using app_step_wf [of a eng e] by (simp add: app_wf_def)
qed

text \<open>Files with distinct identities are distinct records, so one of them is equal to itself only.\<close>

lemma filter_eq_distinct_ids:
  assumes "distinct (map file_id fs)" "f \<in> set fs"
  shows "length (filter (\<lambda>g. f = g) fs) = 1"
  using assms
proof (induction fs)
  case Nil
  then show ?case by simp
next
  case (Cons g fs)
  show ?case
  proof (cases "f = g")
    case True
    then have "f \<notin> set fs" using Cons.prems(1) by (auto simp: image_iff)
    then have "filter (\<lambda>g. f = g) fs = []" by (auto simp: filter_empty_conv)
    then show ?thesis using True by simp
  next
    case False
    then show ?thesis using Cons by simp
  qed
qed

text \<open>
  C10: The file list highlights exactly the selected file: in every state
  reachable from the first render, with any engine, one file item is
  highlighted when a file is selected and none otherwise (\<open>currentFile ===
  file\<close> on files with distinct identities, the selection among the files).
\<close>

theorem one_item_highlighted:
  assumes "app_reachable eng a"
  shows "length (filter snd (file_items (pdfEditor_view (ed a)))) =
           (if currentFile (ed a) = None then 0 else 1)"
proof (cases "currentFile (ed a)")
  case None
  then show ?thesis by (simp add: pdfEditor_view_def filter_map comp_def)
next
  case (Some f)
  have wf: "editor_wf (ed a)" using assms by (rule reachable_editor_wf)
  then have "distinct (map file_id (selectedFiles (ed a)))" "f \<in> set (selectedFiles (ed a))"
    using Some by (simp_all add: editor_wf_def)
  then show ?thesis using Some filter_eq_distinct_ids
    by (simp add: pdfEditor_view_def filter_map comp_def)
qed

subsection \<open>Witnesses\<close>

theorem one_item_highlighted_witness:
  "app_reachable page_engine sample_busy \<and>
   length (filter snd (file_items (pdfEditor_view (ed sample_busy)))) = 1"
proof -
  have "currentFile (ed sample_busy) \<noteq> None" by code_simp
  then show ?thesis using sample_busy_reachable one_item_highlighted [OF sample_busy_reachable] by simp
qed

end
