(* ===== verification/Spec2Isabelle.thy ===== *)
theory Spec2Isabelle
  imports Render
begin

text \<open>
  \<^bold>\<open>A verification library for the PDF editor of \<open>src/src/components\<close>.\<close>

  \<^medskip>
  \<^bold>\<open>The program.\<close> A React application in TypeScript. \<open>PDFEditor.tsx\<close> keeps
  the uploaded files, the selected one, the edited bytes of the selected file
  and the flags that show two modal dialogs; \<open>ImagePositioner.tsx\<close> and
  \<open>TextPositioner.tsx\<close> are those dialogs: each renders the page once into a
  preview, draws the draft placement in an SVG overlay whose group flips the Y
  axis, and reports the placement through \<open>onConfirm\<close>. The editor hands every
  confirmed placement to a document engine (\<open>utils/pdfUtils\<close>, not among the
  repository's files) and stores the result as the new edited bytes.
  \<open>FileUploader.tsx\<close> is the drop zone of the main page: it hands the
  dropped files that pass its \<open>accept\<close> filter to the editor.

  \<^medskip>
  \<^bold>\<open>Theories, in import order.\<close>
  \<^item> \<open>Prelude\<close>: the theorem collections, \<open>remove_nth\<close> (JavaScript's
    \<open>filter((_, i) => i !== index)\<close>) and rounding facts.
  \<^item> \<open>Js_Runtime\<close>: the platform the code runs on: numbers with their non-finite
    values (\<open>jsnum\<close>, needed where a size is divided by a natural size that is
    still 0), \<open>Math.round\<close> (HOL's \<open>round\<close>), \<open>parseInt\<close> in radix 10 and 16,
    \<open>toString(16)\<close> and \<open>padStart\<close>, \<open>x || d\<close>, and the value an
    \<open><input type="range">\<close> delivers (clamped to \<open>[min, max]\<close>, snapped to the
    step grid).
  \<^item> \<open>Geometry\<close>: the coordinate transformer of both dialogs: display scale,
    the \<open>viewBox\<close> map, the group flip, the counter-flip of text, \<open>getCanvasY\<close>.
  \<^item> \<open>Session\<close>: the preview state both dialogs share (an extensible record),
    the two resumptions of \<open>loadAndRenderPDF\<close>, the placement draft and the
    generic run of a dialog.
  \<^item> \<open>ImageSession\<close> and \<open>TextSession\<close>: the two dialogs. Each \<open>onChange\<close>
    and \<open>onClick\<close> handler of the JSX is a definition named after it and an
    event of \<open>image_step\<close> / \<open>text_step\<close>; the asynchronous resumptions
    (image decoded, page loaded, page rendered) are events too, so they
    interleave with the user's edits in any order.
  \<^item> \<open>Uploader\<close>: \<open>FileUploader\<close>'s props and the filter its
    \<open>useDropzone\<close> call applies with them (an entry with a dot matches the
    file-name extension case-insensitively, a MIME entry the lower-cased type,
    \<open>multiple\<close> lets several files through); \<open>fileUploader_onDrop\<close> is what
    \<open>onFilesSelected\<close> receives.
  \<^item> \<open>Engine\<close>: the interface of the external engines (a record of
    \<open>addImageToPDF\<close>, \<open>addTextToPDF\<close>, \<open>mergePDFs\<close> of \<open>pdfUtils\<close>, and
    the rendering side the dialogs use: \<open>pdfjs\<close>'s page size and
    rasterisation of a page, the browser's decoding of an image; each returning
    \<open>None\<close> for a rejected promise) and a page-list engine modelled from spec
    section 6, for concrete scenarios.
  \<^item> \<open>Editor\<close>: \<open>PDFEditor\<close>'s state and handlers over any engine. Each
    handler that awaits the engine is split at the \<open>await\<close>: the call is made
    with the inputs the handler read and queued as a pending promise; the rest
    of the handler (\<open>settle\<close>) runs on a separate \<open>Settle k\<close> event, so calls
    in flight interleave with later clicks. Files get fresh identities, so
    \<open>===\<close> on \<open>File\<close> objects is equality of records. The spec's edit chain
    (\<open>edit_chain\<close>) is defined here as the abstract model of the artifact.
  \<^item> \<open>System\<close>: the editor together with the dialogs it mounts: a dialog is
    mounted while its JSX condition holds, keeps its state while mounted and
    starts from its initial state when mounted again; while one is mounted its
    full-screen overlay blocks every control of the main page, but promises
    still settle. The dialogs' outcomes are the editor's callbacks; a drop on
    the uploader is the \<open>Drop\<close> event, blocked like any other control of the
    page while a dialog is open. A main-page control delivers its event only
    when it is rendered and enabled (\<open>main_page_control\<close>: a file item exists
    for each file of the list; Merge is disabled below two files, Add image and
    Add text without a selected file, Export and Reset without edits). The
    resumptions of a dialog's effects are events of the application
    (\<open>PdfLoaded\<close>, \<open>PdfRendered\<close>, \<open>ImageLoaded\<close>): the renderer computes
    them from the dialog's props (\<open>previewFile\<close>, \<open>currentPageIndex\<close>,
    \<open>selectedImage\<close>); the user cannot inject them.
  \<^item> \<open>Lifecycle\<close>: the states reachable from the first render
    (\<open>app_reachable\<close>, inductive), the well-formedness they all have, the
    settling of every promise in flight (\<open>drain\<close>), the way back to the main
    page, and the effect of a drop.
  \<^item> \<open>Render\<close>: the main page and the drop zone as rendered
    (\<open>pdfEditor_view\<close>: file items with their highlight, enabled buttons,
    editing banner, the document and page given to \<open>PDFViewer\<close>;
    \<open>fileUploader_view\<close>): the guards of \<open>System\<close> are the rendered
    states of the controls, and exactly the selected file is highlighted.

  \<^medskip>
  \<^bold>\<open>What is proved.\<close>
  \<^item> Refinement: edits made one at a time through the editor
    (\<open>Editor.edit_chain_refinement\<close>) and whole dialog sessions made through the
    user interface (\<open>System.app_edit_refinement\<close>) leave as the artifact exactly
    the spec's linear chain of the placements, each session starting from a
    fresh draft; reset returns to the source; opening a dialog, editing and
    cancelling returns the application to exactly the state it was in.
  \<^item> Invariants by rule induction over \<open>app_reachable\<close> and over runs: file
    identities stay distinct and the selection stays in the list; at most one
    dialog is mounted and a mounted one has its file and image
    (\<open>System.dialogs_exclusive\<close>); the rendered file list highlights exactly
    the selected file (\<open>Render.one_item_highlighted\<close>); the image draft keeps
    the natural aspect ratio; once decoded before the scale is touched, scale and
    width stay linked within half a percent.
  \<^item> Liveness: from every reachable state the promises settle (\<open>drain\<close>
    terminates by the length of the pending list) and two Cancel clicks lead
    back to the main page with nothing in flight
    (\<open>Lifecycle.back_to_main_page\<close>).
  \<^item> Functional behaviour and errors: the preview's document is the document
    sent to the engine (\<open>Editor.preview_is_source\<close>); a drop appends exactly
    the files whose name ends in \<open>.pdf\<close> or whose type is
    \<open>application/pdf\<close>, in order (\<open>Lifecycle.drop_adds_accepted_files\<close>);
    merging, removing and selecting files; the alerts of the handlers' guards are
    never shown through the interface, whose disabled buttons pre-empt them
    (\<open>System.guard_alerts_never_shown\<close>); a rejected engine call leaves the
    dialog open.
  \<^item> Geometry: the forward transform is the spec's \<open>(x s, (H - y) s)\<close> and the
    spec's inverse undoes it; the preview fits its box with the page's aspect;
    counter-flipped labels are upright and not displaced.
  \<^item> Round trips and bounds: the colour input's \<open>#rrggbb\<close> value parses back to
    the colour; a width typed in gives back the width through its scale; the
    position sliders keep an image that fits the page on the page.
  \<^item> Behaviours where the code departs from the spec, each a general theorem
    over all states satisfying its premises: a confirm pressed twice drops an
    edit (\<open>Editor.double_confirm_drops_edit\<close>), also through the interface,
    where the first settle closes the dialog with an edit still in flight
    (\<open>System.ui_double_confirm_drops_edit\<close>); an edit in flight lands on
    another file when its file is removed before it settles
    (\<open>System.stale_edit_lands_on_other_file\<close>); selecting another file keeps
    the previous file's edits; an image decoded after a scale change unlinks
    scale and size; the X slider at its maximum followed by a larger scale moves
    the image off the page; the font-size box takes sizes beyond any bound; the
    text clamp ignores the text's extent.

  \<^medskip>
  \<^bold>\<open>Bounds and termination.\<close> Every loop of the model is structural recursion
  over a finite list (event lists, file lists, digit strings), except
  \<open>drain\<close>, a \<open>function\<close> whose termination is proved by the length of the
  pending list, which each settle shortens by one; so no fuel is needed and
  every definition is total and executable; the witnesses are evaluated by
  \<open>simp\<close> or \<open>code_simp\<close>. Runs quantify over all finite event sequences; nothing
  is bounded.

  \<^medskip>
  \<^bold>\<open>Not modelled.\<close> The byte-level PDF work of \<open>pdfUtils\<close> and the rendering
  of \<open>pdfjs-dist\<close> (external engines: the editor is verified against any
  engine, seen through the interface of \<open>Engine\<close>); a change of a mounted
  dialog's props, which happens only when an edit from an earlier double confirm
  settles during a later session, restarts \<open>loadAndRenderPDF\<close> while the old
  run may still resume: the model has one load per dialog, whose resumptions
  read the props current when they happen; \<open>PDFViewer\<close> (not in the
  repository; only its \<open>onPageChange\<close> is seen, as an event);
  \<open>react-dropzone\<close> beyond its filter (the file dialog opened by a
  click, drag highlighting, the rejected-file list, which the uploader does not
  read), and \<open>isDragActive\<close>, which is the library's state and is a
  parameter of the rendered zone; styling that depends on no state;
  \<open>console.error\<close> and \<open>URL.revokeObjectURL\<close>, which change no state the program reads.
  \<open>parseInt(pair, 16)\<close> of the colour input is \<open>NaN\<close> for a non-hex pair; the
  browser only ever delivers a valid \<open>#rrggbb\<close> value there, so
  \<open>hex_channel\<close> never meets one (\<open>TextSession.color_input_channels\<close>) and
  maps it to 0 instead of carrying \<open>NaN\<close> into the colour. Floating-point rounding of the
  arithmetic is not modelled: finite numbers are reals, and \<open>Math.round\<close> is
  exact rounding.
\<close>

end
